(* ===== verification/Prelude.thy ===== *)
theory Prelude
  imports Complex_Main "HOL-Library.Word"
begin

text \<open>
  Shared vocabulary of the development. The Python scripts under \<open>src/\<close> signal failure
  by raising exceptions (numpy's \<open>ValueError\<close> and \<open>IndexError\<close>, rasterio's I/O errors);
  the model returns them as the left summand of \<open>py_error + 'a\<close>. The combinator
  \<open>sbind\<close> threads such a result through a sequence of statements, stopping at the first
  exception as the interpreter does. The named collections gather the evaluation rules
  that the component theories contribute, so that their proofs and witnesses run by
  \<open>simp add: nd_simps\<close> or \<open>simp add: fval_simps\<close>.
\<close>

named_theorems fval_simps "evaluation rules of the floating-point value model"
named_theorems nd_simps "evaluation rules of the array model"

type_synonym path = string

text \<open>The exceptions the modelled code can raise, by the Python class that raises them.\<close>

datatype py_error =
    ValueError      \<comment> \<open>numpy: operands could not be broadcast, stack of unequal shapes,
                        boolean-mask assignment of the wrong number of values\<close>
  | IndexError      \<comment> \<open>numpy: boolean index does not match the indexed array\<close>
  | RasterioIOError \<comment> \<open>rasterio: no such file\<close>
  | WriteShapeError \<comment> \<open>rasterio: written band does not match the dataset's shape\<close>
  | DataSourceError \<comment> \<open>geopandas: the vector file cannot be opened\<close>
  | FileNotFoundError \<comment> \<open>\<open>open()\<close>: no such file or directory\<close>
  | HTTPError       \<comment> \<open>requests: connection failure or an error status\<close>
  | BadZipFile      \<comment> \<open>zipfile: the archive cannot be read\<close>

definition sbind :: "'e + 'a \<Rightarrow> ('a \<Rightarrow> 'e + 'b) \<Rightarrow> 'e + 'b" where
  "sbind r f = (case r of Inl e \<Rightarrow> Inl e | Inr x \<Rightarrow> f x)"

text \<open>
  A script's \<open>main\<close> runs one unit of work per year in a \<open>for\<close> loop. A unit returns
  the state it leaves, with the exception it raised, if any: a unit that skips
  (\<open>continue\<close>) returns the state unchanged, and an exception leaves the loop with the
  state the unit's completed statements wrote.
\<close>

fun run_units :: "('s \<Rightarrow> 'u \<Rightarrow> 's \<times> 'e option) \<Rightarrow> 's \<Rightarrow> 'u list \<Rightarrow> 's \<times> 'e option" where
  "run_units f st [] = (st, None)"
| "run_units f st (u # us) =
     (case f st u of (st', Some e) \<Rightarrow> (st', Some e) | (st', None) \<Rightarrow> run_units f st' us)"

text \<open>A unit whose only effect is its last statement: no state change before an exception.\<close>

definition unit_of :: "'s \<Rightarrow> 'e + 's \<Rightarrow> 's \<times> 'e option" where
  "unit_of st r = (case r of Inl e \<Rightarrow> (st, Some e) | Inr st' \<Rightarrow> (st', None))"

lemma sbind_Inl [simp]: "sbind (Inl e) f = Inl e"
  by (simp add: sbind_def)

lemma sbind_Inr [simp]: "sbind (Inr x) f = f x"
  by (simp add: sbind_def)

lemma sbind_eq_Inr:
  "sbind r f = Inr y \<longleftrightarrow> (\<exists>x. r = Inr x \<and> f x = Inr y)"
  by (cases r) simp_all

lemma sbind_eq_Inl:
  "sbind r f = Inl e \<longleftrightarrow> r = Inl e \<or> (\<exists>x. r = Inr x \<and> f x = Inl e)"
  by (cases r) simp_all

subsection \<open>Lists indexed in row-major order\<close>

text \<open>
  numpy stores a two-dimensional array as one flat buffer in C order; element \<open>k\<close> of the
  buffer is row \<open>k div c\<close>, column \<open>k mod c\<close>. These lemmas are what every array
  proof uses about that layout.
\<close>

lemma row_major_bounds:
  fixes k r c :: nat
  assumes "k < r * c"
  shows "k div c < r" and "k mod c < c"
proof -
  from assms have "0 < c" by (cases c) simp_all
  then show "k mod c < c" by simp
  from assms show "k div c < r"
    by (simp add: less_mult_imp_div_less)
qed

lemma row_major_recompose: "(k div c) * c + k mod c = (k::nat)"
  by simp

lemma map_upt_nth_eq:
  assumes "length xs = n" and "\<And>k. k < n \<Longrightarrow> f k = xs ! k"
  shows "map f [0..<n] = xs"
  using assms by (simp add: list_eq_iff_nth_eq)

lemma count_list_map_filter:
  "count_list (map f xs) v = length (filter (\<lambda>x. f x = v) xs)"
  by (induction xs) simp_all

lemma list_all_map2:
  assumes "list_all2 P xs ys" and "\<And>a b. P a b \<Longrightarrow> Q (f a b)"
  shows "list_all Q (map2 f xs ys)"
  using assms(1) by (induction rule: list_all2_induct) (simp_all add: assms(2))

lemma list_all_map2_sets:
  assumes "\<And>a b. a \<in> set xs \<Longrightarrow> b \<in> set ys \<Longrightarrow> Q (f a b)"
  shows "list_all Q (map2 f xs ys)"
  using assms by (auto simp: list_all_iff dest: set_zip_leftD set_zip_rightD)

lemma map2_map_map: "map2 h (map f xs) (map g xs) = map (\<lambda>x. h (f x) (g x)) xs"
  by (induction xs) simp_all

lemma map2_map_map2:
  "map2 g (map f xs) (map2 h xs ys) = map2 (\<lambda>x y. g (f x) (h x y)) xs ys"
  by (induction xs ys rule: list_induct2') simp_all

lemma map2_map2_map2:
  "map2 f (map2 g xs ys) (map2 h xs ys) = map2 (\<lambda>x y. f (g x y) (h x y)) xs ys"
  by (induction xs ys rule: list_induct2') simp_all

lemma map2_fst: "length xs = length ys \<Longrightarrow> map2 (\<lambda>x y. x) xs ys = xs"
  by (induction xs ys rule: list_induct2) simp_all

lemma map2_snd: "length xs = length ys \<Longrightarrow> map2 (\<lambda>x y. y) xs ys = ys"
  by (induction xs ys rule: list_induct2) simp_all

lemma map2_const: "length xs = length ys \<Longrightarrow> map2 (\<lambda>x y. c) xs ys = map (\<lambda>_. c) xs"
  by (induction xs ys rule: list_induct2) simp_all

lemma map_map2: "map f (map2 g xs ys) = map2 (\<lambda>x y. f (g x y)) xs ys"
  by (induction xs ys rule: list_induct2') simp_all

lemma map2_commute: "map2 f xs ys = map2 (\<lambda>y x. f x y) ys xs"
  by (induction xs ys rule: list_induct2') simp_all

lemma sum_list_count_list_indicator:
  "length (filter P xs) = sum_list (map (\<lambda>x. if P x then 1 else 0) xs)"
  by (induction xs) simp_all

subsection \<open>Invariants through the combinators\<close>

text \<open>A property of the state that every unit keeps holds after the whole loop.\<close>

lemma run_units_invariant:
  assumes "\<And>st u. P st \<Longrightarrow> P (fst (f st u))" and "P st"
  shows "P (fst (run_units f st us))"
  using assms(2)
proof (induction us arbitrary: st)
  case (Cons u us)
  have "P (fst (f st u))" using assms(1) Cons.prems .
  with Cons.IH show ?case by (cases "f st u") (auto split: option.splits)
qed simp

lemma unit_of_invariant: "P st \<Longrightarrow> (\<And>st'. r = Inr st' \<Longrightarrow> P st') \<Longrightarrow> P (fst (unit_of st r))"
  by (cases r) (simp_all add: unit_of_def)

subsection \<open>Commuting a state map through the combinators\<close>

text \<open>A map \<open>h\<close> of the state that every unit commutes with (while an invariant holds)
  commutes with the whole loop: the run from \<open>h st\<close> is the run from \<open>st\<close>, mapped.\<close>

lemma sbind_map_sum: "sbind (map_sum id f r) k = sbind r (\<lambda>x. k (f x))"
  by (cases r) simp_all

lemma run_units_commute:
  assumes step: "\<And>st u. P st \<Longrightarrow> u \<in> set us \<Longrightarrow> f (h st) u = apfst h (f st u)"
    and inv: "\<And>st u. P st \<Longrightarrow> P (fst (f st u))" and "P st"
  shows "run_units f (h st) us = apfst h (run_units f st us)"
  using step assms(3)
proof (induction us arbitrary: st)
  case (Cons u us)
  obtain s1 eo where f: "f st u = (s1, eo)" by (cases "f st u")
  have "P s1" using inv [OF Cons.prems(2), of u] f by simp
  moreover have "f (h st) u = (h s1, eo)" using Cons.prems f by simp
  ultimately show ?case using Cons.IH [of s1] Cons.prems(1) f by (cases eo) simp_all
qed simp

end
