(* ===== verification/NDArray.thy ===== *)
theory NDArray
  imports Prelude
begin

text \<open>
  Two-dimensional numpy arrays as the scripts use them: a shape \<open>(nrows, ncols)\<close> and one
  flat buffer in C order. The operations are the numpy idioms the scripts call:
  element-wise binary operators with numpy's broadcasting rule (\<open>nir + red\<close>,
  \<open>ndvi_2025 - ndvi_2021\<close>, \<open>class_2021 != class_2025\<close>), element-wise unary maps and
  comparisons with a scalar (\<open>ndvi_diff < -threshold\<close>), \<open>np.zeros_like\<close>, and the
  boolean-mask assignment \<open>a[mask] = v\<close>, which raises \<open>IndexError\<close> when the mask's
  shape is not the array's.
\<close>

record 'a ndarray =
  nrows :: nat
  ncols :: nat
  vals :: "'a list"

definition nd_wf :: "'a ndarray \<Rightarrow> bool" where
  "nd_wf A = (length (vals A) = nrows A * ncols A)"

definition shape :: "'a ndarray \<Rightarrow> nat \<times> nat" where
  "shape A = (nrows A, ncols A)"

definition nd_at :: "'a ndarray \<Rightarrow> nat \<Rightarrow> nat \<Rightarrow> 'a" where
  "nd_at A i j = vals A ! (i * ncols A + j)"

text \<open>An array built from its element function, enumerated in C order.\<close>

definition tabulate :: "nat \<Rightarrow> nat \<Rightarrow> (nat \<Rightarrow> nat \<Rightarrow> 'a) \<Rightarrow> 'a ndarray" where
  "tabulate r c g = \<lparr>nrows = r, ncols = c, vals = map (\<lambda>k. g (k div c) (k mod c)) [0..<r * c]\<rparr>"

definition from_rows :: "'a list list \<Rightarrow> 'a ndarray" where
  "from_rows rs = \<lparr>nrows = length rs, ncols = (case rs of [] \<Rightarrow> 0 | r # _ \<Rightarrow> length r),
                   vals = concat rs\<rparr>"

definition full :: "nat \<Rightarrow> nat \<Rightarrow> 'a \<Rightarrow> 'a ndarray" where
  "full r c v = \<lparr>nrows = r, ncols = c, vals = replicate (r * c) v\<rparr>"

definition amap :: "('a \<Rightarrow> 'b) \<Rightarrow> 'a ndarray \<Rightarrow> 'b ndarray" where
  "amap f A = \<lparr>nrows = nrows A, ncols = ncols A, vals = map f (vals A)\<rparr>"

definition zeros_like :: "'a ndarray \<Rightarrow> 'b::zero ndarray" where
  "zeros_like A = amap (\<lambda>_. 0) A"

subsection \<open>Broadcasting\<close>

text \<open>
  numpy's rule for one axis: equal lengths agree, a length of 1 stretches to the other,
  anything else raises \<open>ValueError\<close> (operands could not be broadcast together).
\<close>

definition bdim :: "nat \<Rightarrow> nat \<Rightarrow> nat option" where
  "bdim a b = (if a = b then Some a else if a = 1 then Some b else if b = 1 then Some a else None)"

definition bidx :: "'a ndarray \<Rightarrow> nat \<Rightarrow> nat \<Rightarrow> 'a" where
  "bidx A i j = nd_at A (if nrows A = 1 then 0 else i) (if ncols A = 1 then 0 else j)"

definition broadcast2 :: "('a \<Rightarrow> 'b \<Rightarrow> 'c) \<Rightarrow> 'a ndarray \<Rightarrow> 'b ndarray \<Rightarrow> py_error + 'c ndarray" where
  "broadcast2 f A B =
     (case bdim (nrows A) (nrows B) of
        None \<Rightarrow> Inl ValueError
      | Some r \<Rightarrow>
          (case bdim (ncols A) (ncols B) of
             None \<Rightarrow> Inl ValueError
           | Some c \<Rightarrow> Inr (tabulate r c (\<lambda>i j. f (bidx A i j) (bidx B i j)))))"

subsection \<open>Boolean-mask assignment\<close>

text \<open>\<open>A[M] = v\<close> for a scalar \<open>v\<close>: the mask must have the array's shape.\<close>

definition bool_assign :: "'a ndarray \<Rightarrow> bool ndarray \<Rightarrow> 'a \<Rightarrow> py_error + 'a ndarray" where
  "bool_assign A M v =
     (if shape M \<noteq> shape A then Inl IndexError
      else Inr (A\<lparr>vals := map2 (\<lambda>x m. if m then v else x) (vals A) (vals M)\<rparr>))"

text \<open>
  \<open>a[mask] = values\<close> on a one-dimensional array with an array of values: the mask must
  have the array's length (\<open>IndexError\<close>), and the values fill the selected positions in
  order, so there must be as many of them as the mask selects (\<open>ValueError\<close>), unless
  there is exactly one, which numpy broadcasts to every selected position.
\<close>

fun mask_fill :: "'a list \<Rightarrow> bool list \<Rightarrow> 'a list \<Rightarrow> 'a list" where
  "mask_fill (x # xs) (True # ms) (v # vs) = v # mask_fill xs ms vs"
| "mask_fill (x # xs) (False # ms) vs = x # mask_fill xs ms vs"
| "mask_fill xs ms vs = xs"

definition mask_assign :: "'a list \<Rightarrow> bool list \<Rightarrow> 'a list \<Rightarrow> py_error + 'a list" where
  "mask_assign xs ms vs =
     (if length ms \<noteq> length xs then Inl IndexError
      else if length vs = 1 then Inr (mask_fill xs ms (replicate (count_list ms True) (hd vs)))
      else if length vs \<noteq> count_list ms True then Inl ValueError
      else Inr (mask_fill xs ms vs))"

declare nd_wf_def [nd_simps] shape_def [nd_simps] nd_at_def [nd_simps] tabulate_def [nd_simps]
  from_rows_def [nd_simps] full_def [nd_simps] amap_def [nd_simps] zeros_like_def [nd_simps]
  bdim_def [nd_simps] bidx_def [nd_simps] broadcast2_def [nd_simps] bool_assign_def [nd_simps]
  mask_assign_def [nd_simps]

subsection \<open>Shape facts\<close>

lemma nd_wf_tabulate [simp]: "nd_wf (tabulate r c g)"
  by (simp add: nd_wf_def tabulate_def)

lemma shape_tabulate [simp]: "nrows (tabulate r c g) = r" "ncols (tabulate r c g) = c"
  by (simp_all add: tabulate_def)

lemma length_vals_tabulate [simp]: "length (vals (tabulate r c g)) = r * c"
  by (simp add: tabulate_def)

lemma nth_vals_tabulate [simp]:
  "k < r * c \<Longrightarrow> vals (tabulate r c g) ! k = g (k div c) (k mod c)"
  by (simp add: tabulate_def)

lemma index_lt_mult: "i < (m::nat) \<Longrightarrow> j < n \<Longrightarrow> i * n + j < m * n"
proof -
  assume "i < m" "j < n"
  then have "i * n + j < (i + 1) * n" by simp
  also have "\<dots> \<le> m * n" using \<open>i < m\<close> by (metis Suc_eq_plus1 Suc_leI mult_le_mono1)
  finally show ?thesis .
qed

lemma tabulate_const:
  assumes "\<And>i j. i < r \<Longrightarrow> j < c \<Longrightarrow> g i j = v"
  shows "tabulate r c g = full r c v"
  using assms row_major_bounds by (simp add: tabulate_def full_def list_eq_iff_nth_eq)

lemma set_vals_tabulate:
  "x \<in> set (vals (tabulate r c g)) \<longleftrightarrow> (\<exists>i j. i < r \<and> j < c \<and> x = g i j)"
proof
  assume "x \<in> set (vals (tabulate r c g))"
  then obtain k where k: "k < r * c" "x = g (k div c) (k mod c)" by (auto simp: tabulate_def)
  with row_major_bounds [OF k(1)] show "\<exists>i j. i < r \<and> j < c \<and> x = g i j" by blast
next
  assume "\<exists>i j. i < r \<and> j < c \<and> x = g i j"
  then obtain i j where ij: "i < r" "j < c" "x = g i j" by blast
  then have k: "i * c + j < r * c" by (simp add: index_lt_mult)
  have "(i * c + j) div c = i" "(i * c + j) mod c = j" using ij by simp_all
  with k ij show "x \<in> set (vals (tabulate r c g))"
    by (force simp: tabulate_def image_iff)
qed

lemma amap_simps [simp]:
  "nrows (amap f A) = nrows A" "ncols (amap f A) = ncols A" "vals (amap f A) = map f (vals A)"
  by (simp_all add: amap_def)

lemma nd_wf_amap [simp]: "nd_wf (amap f A) = nd_wf A"
  by (simp add: nd_wf_def)

lemma amap_comp: "amap f (amap g A) = amap (f \<circ> g) A"
  by (simp add: amap_def)

lemma shape_amap [simp]: "shape (amap f A) = shape A"
  by (simp add: shape_def)

lemma set_vals_full [simp]: "0 < r * c \<Longrightarrow> set (vals (full r c v)) = {v}"
  by (simp add: full_def)

text \<open>
  Reading an operand at a broadcast position of its own shape is reading its buffer:
  the key fact that turns a broadcast of equal shapes into an element-wise \<open>map2\<close>.
\<close>

lemma bidx_flat:
  assumes "nd_wf A" and "shape A = (r, c)" and "k < r * c"
  shows "bidx A (k div c) (k mod c) = vals A ! k"
proof -
  from assms(3) have c: "0 < c" by (cases c) simp_all
  from assms(2) have rc: "nrows A = r" "ncols A = c" by (simp_all add: shape_def)
  show ?thesis
  proof (cases "r = 1")
    case True
    with assms(3) have "k < c" by simp
    then show ?thesis using rc True by (auto simp: bidx_def nd_at_def)
  next
    case False
    then show ?thesis using rc by (auto simp: bidx_def nd_at_def)
  qed
qed

lemma bdim_same [simp]: "bdim a a = Some a"
  by (simp add: bdim_def)

lemma broadcast2_same_shape:
  assumes "nd_wf A" "nd_wf B" "shape A = shape B"
  shows "broadcast2 f A B =
           Inr \<lparr>nrows = nrows A, ncols = ncols A, vals = map2 f (vals A) (vals B)\<rparr>"
proof -
  obtain r c where s: "shape A = (r, c)" by (cases "shape A")
  with assms have sB: "shape B = (r, c)" by simp
  from s sB have rc: "nrows A = r" "ncols A = c" "nrows B = r" "ncols B = c"
    by (simp_all add: shape_def)
  have lens: "length (vals A) = r * c" "length (vals B) = r * c"
    using assms(1,2) rc by (simp_all add: nd_wf_def)
  have "map (\<lambda>k. f (bidx A (k div c) (k mod c)) (bidx B (k div c) (k mod c))) [0..<r * c]
        = map2 f (vals A) (vals B)"
    by (rule map_upt_nth_eq) (simp_all add: lens bidx_flat [OF assms(1) s] bidx_flat [OF assms(2) sB])
  then show ?thesis
    by (simp add: broadcast2_def rc tabulate_def)
qed

lemma broadcast2_wf: "broadcast2 f A B = Inr C \<Longrightarrow> nd_wf C"
  by (auto simp: broadcast2_def split: option.splits)

lemma broadcast2_Inr_iff:
  "(\<exists>C. broadcast2 f A B = Inr C) \<longleftrightarrow>
     bdim (nrows A) (nrows B) \<noteq> None \<and> bdim (ncols A) (ncols B) \<noteq> None"
  by (auto simp: broadcast2_def split: option.splits)

lemma bdim_commute: "bdim a b = bdim b a"
  by (auto simp: bdim_def)

lemma bdim_Some_less: "bdim a b = Some r \<Longrightarrow> a \<noteq> 1 \<Longrightarrow> i < r \<Longrightarrow> i < a"
  by (auto simp: bdim_def split: if_splits)

text \<open>A broadcast read stays inside the operand's buffer, whichever axes are stretched.\<close>

lemma bidx_in_set:
  assumes "nd_wf A" "bdim (nrows A) m = Some r" "bdim (ncols A) n = Some c" "i < r" "j < c"
  shows "bidx A i j \<in> set (vals A)"
proof -
  let ?i = "if nrows A = 1 then 0 else i" and ?j = "if ncols A = 1 then 0 else j"
  have "?i < nrows A" using assms(2,4) by (auto dest: bdim_Some_less)
  moreover have "?j < ncols A" using assms(3,5) by (auto dest: bdim_Some_less)
  ultimately have "?i * ncols A + ?j < length (vals A)"
    using assms(1) by (simp add: nd_wf_def index_lt_mult)
  then show ?thesis by (simp add: bidx_def nd_at_def)
qed

lemma broadcast2_vals:
  assumes "broadcast2 f A B = Inr C" "nd_wf A" "nd_wf B" "x \<in> set (vals C)"
  shows "\<exists>a \<in> set (vals A). \<exists>b \<in> set (vals B). x = f a b"
proof -
  obtain r c where r: "bdim (nrows A) (nrows B) = Some r" and c: "bdim (ncols A) (ncols B) = Some c"
    and C: "C = tabulate r c (\<lambda>i j. f (bidx A i j) (bidx B i j))"
    using assms(1) by (auto simp: broadcast2_def split: option.splits)
  from assms(4) C obtain k where k: "k < r * c" and x: "x = f (bidx A (k div c) (k mod c)) (bidx B (k div c) (k mod c))"
    by (auto simp: tabulate_def)
  have i: "k div c < r" and j: "k mod c < c" using row_major_bounds [OF k] by simp_all
  have rB: "bdim (nrows B) (nrows A) = Some r" and cB: "bdim (ncols B) (ncols A) = Some c"
    using r c by (simp_all add: bdim_commute)
  show ?thesis
    using x bidx_in_set [OF assms(2) r c i j] bidx_in_set [OF assms(3) rB cB i j] by blast
qed

lemma broadcast2_list_all:
  assumes "broadcast2 f A B = Inr C" "nd_wf A" "nd_wf B"
    and "\<And>a b. a \<in> set (vals A) \<Longrightarrow> b \<in> set (vals B) \<Longrightarrow> P (f a b)"
  shows "list_all P (vals C)"
  using broadcast2_vals [OF assms(1-3)] assms(4) by (fastforce simp: list_all_iff)

lemma broadcast2_shape:
  "broadcast2 f A B = Inr C \<Longrightarrow>
     bdim (nrows A) (nrows B) = Some (nrows C) \<and> bdim (ncols A) (ncols B) = Some (ncols C)"
  by (auto simp: broadcast2_def split: option.splits)

lemma bool_assign_shape: "bool_assign A M v = Inr B \<Longrightarrow> shape M = shape A \<and> shape B = shape A"
  by (auto simp: bool_assign_def shape_def split: if_splits)

subsection \<open>Arrays computed pixel-wise from two operands\<close>

text \<open>
  A chain of numpy statements over two operands \<open>A\<close> and \<open>B\<close> of one shape keeps every
  intermediate array in the form \<open>map2 F (vals A) (vals B)\<close>; these rules compute \<open>F\<close>
  for broadcasting, mask assignment and element-wise maps, so a whole sequence of
  statements reduces to one pixel function.
\<close>

lemma pw_broadcast2:
  assumes "length xs = r * c" and "length ys = r * c"
  shows "broadcast2 f \<lparr>nrows = r, ncols = c, vals = map2 G xs ys\<rparr> \<lparr>nrows = r, ncols = c, vals = map2 H xs ys\<rparr>
           = Inr \<lparr>nrows = r, ncols = c, vals = map2 (\<lambda>x y. f (G x y) (H x y)) xs ys\<rparr>"
  using assms by (simp add: broadcast2_same_shape nd_wf_def shape_def map2_map2_map2)

lemma pw_bool_assign:
  "bool_assign \<lparr>nrows = r, ncols = c, vals = map2 G xs ys\<rparr> \<lparr>nrows = r, ncols = c, vals = map2 P xs ys\<rparr> v
     = Inr \<lparr>nrows = r, ncols = c, vals = map2 (\<lambda>x y. if P x y then v else G x y) xs ys\<rparr>"
  by (simp add: bool_assign_def shape_def map2_map2_map2)

lemma pw_amap:
  "amap f \<lparr>nrows = r, ncols = c, vals = map2 G xs ys\<rparr> = \<lparr>nrows = r, ncols = c, vals = map2 (\<lambda>x y. f (G x y)) xs ys\<rparr>"
  by (auto simp: amap_def split: prod.splits)

lemma pw_operands:
  assumes "nd_wf A" "nd_wf B" "shape B = shape A"
  shows "A = \<lparr>nrows = nrows A, ncols = ncols A, vals = map2 (\<lambda>x y. x) (vals A) (vals B)\<rparr>"
    and "B = \<lparr>nrows = nrows A, ncols = ncols A, vals = map2 (\<lambda>x y. y) (vals A) (vals B)\<rparr>"
  using assms by (simp_all add: nd_wf_def shape_def map2_fst map2_snd)

lemma bool_assign_same_shape:
  "shape M = shape A \<Longrightarrow>
     bool_assign A M v = Inr (A\<lparr>vals := map2 (\<lambda>x m. if m then v else x) (vals A) (vals M)\<rparr>)"
  by (simp add: bool_assign_def)

subsection \<open>One-dimensional mask assignment\<close>

lemma length_mask_fill [simp]: "length (mask_fill xs ms vs) = length xs"
  by (induction xs ms vs rule: mask_fill.induct) simp_all

text \<open>
  Filling an array of zeros with non-zero values is invertible: the non-zero positions
  of the result are the mask, and its non-zero entries, in order, are the values.
\<close>

lemma mask_fill_zeros:
  "length ms = n \<Longrightarrow> length vs = count_list ms True \<Longrightarrow> \<forall>v \<in> set vs. v \<noteq> 0 \<Longrightarrow>
     map (\<lambda>x. x \<noteq> 0) (mask_fill (replicate n 0) ms vs) = ms \<and>
     filter (\<lambda>x. x \<noteq> 0) (mask_fill (replicate n 0) ms vs) = vs"
proof (induction ms arbitrary: n vs)
  case Nil
  then show ?case by simp
next
  case (Cons m ms)
  then obtain n' where n: "n = Suc n'" "length ms = n'" by auto
  show ?case
  proof (cases m)
    case True
    with Cons.prems obtain v vs' where "vs = v # vs'" by (cases vs) auto
    then show ?thesis using True Cons.prems Cons.IH [of n' vs'] n by simp
  next
    case False
    then show ?thesis using Cons.prems Cons.IH [of n' vs] n by simp
  qed
qed

lemma mask_fill_nth_unselected:
  "k < length xs \<Longrightarrow> k < length ms \<Longrightarrow> \<not> ms ! k \<Longrightarrow> mask_fill xs ms vs ! k = xs ! k"
proof (induction xs ms vs arbitrary: k rule: mask_fill.induct)
  case (1 x xs ms v vs)
  then show ?case by (cases k) simp_all
next
  case (2 x xs ms vs)
  then show ?case by (cases k) simp_all
qed auto

subsection \<open>Broadcasting a single row\<close>

text \<open>An array of one row broadcast against an array with as many columns: every row of the
  other array meets that one row.\<close>

lemma tabulate_cong:
  assumes "\<And>i j. i < r \<Longrightarrow> j < c \<Longrightarrow> g i j = g' i j"
  shows "tabulate r c g = tabulate r c g'"
  using assms row_major_bounds by (simp add: tabulate_def)

lemma broadcast2_row:
  assumes "nrows A = 1" and "ncols A = ncols B"
  shows "broadcast2 f A B = Inr (tabulate (nrows B) (ncols B) (\<lambda>i j. f (nd_at A 0 j) (nd_at B i j)))"
proof -
  have "bdim (nrows A) (nrows B) = Some (nrows B)" using assms(1) by (simp add: bdim_def)
  moreover have "tabulate (nrows B) (ncols B) (\<lambda>i j. f (bidx A i j) (bidx B i j)) =
                 tabulate (nrows B) (ncols B) (\<lambda>i j. f (nd_at A 0 j) (nd_at B i j))"
    using assms by (intro tabulate_cong) (auto simp: bidx_def)
  ultimately show ?thesis using assms(2) by (simp add: broadcast2_def)
qed

lemma broadcast2_row_right:
  assumes "nrows B = 1" and "ncols B = ncols A"
  shows "broadcast2 f A B = Inr (tabulate (nrows A) (ncols A) (\<lambda>i j. f (nd_at A i j) (nd_at B 0 j)))"
proof -
  have "bdim (nrows A) (nrows B) = Some (nrows A)" using assms(1) by (simp add: bdim_def)
  moreover have "tabulate (nrows A) (ncols A) (\<lambda>i j. f (bidx A i j) (bidx B i j)) =
                 tabulate (nrows A) (ncols A) (\<lambda>i j. f (nd_at A i j) (nd_at B 0 j))"
    using assms by (intro tabulate_cong) (auto simp: bidx_def)
  ultimately show ?thesis using assms(2) by (simp add: broadcast2_def bdim_def)
qed

lemma bool_assign_zeros_tabulate:
  assumes "nd_wf A"
  shows "bool_assign (zeros_like A) (tabulate (nrows A) (ncols A) g) v =
           Inr (tabulate (nrows A) (ncols A) (\<lambda>i j. if g i j then v else 0))"
  using assms by (simp add: bool_assign_def zeros_like_def amap_def tabulate_def shape_def nd_wf_def
                     list_eq_iff_nth_eq)

end
