(* ===== verification/Float_Model.thy ===== *)
theory Float_Model
  imports Prelude
begin

text \<open>
  The pixel values of the float32 arrays the scripts compute with. A value is a finite
  number or one of IEEE 754's special values; the special values matter because the
  scripts' safe division (\<open>np.where((nir + red) != 0, \<dots>, 0)\<close>) exists only to keep
  \<open>0/0 = NaN\<close> and \<open>x/0 = \<plusminus>inf\<close> out of the output. Finite arithmetic is exact
  (rounding to 24 bits is not modelled, nor is overflow to infinity, nor the sign of
  zero: a zero divisor behaves as \<open>+0\<close>). Comparisons follow IEEE: every ordered comparison
  with NaN is false, and \<open>NaN != x\<close> is true.
\<close>

datatype fval = Fin real | PInf | NInf | NaN

fun fneg :: "fval \<Rightarrow> fval" where
  "fneg (Fin a) = Fin (- a)"
| "fneg PInf = NInf"
| "fneg NInf = PInf"
| "fneg NaN = NaN"

fun fadd :: "fval \<Rightarrow> fval \<Rightarrow> fval" where
  "fadd (Fin a) (Fin b) = Fin (a + b)"
| "fadd NaN _ = NaN"
| "fadd _ NaN = NaN"
| "fadd PInf NInf = NaN"
| "fadd NInf PInf = NaN"
| "fadd PInf _ = PInf"
| "fadd NInf _ = NInf"
| "fadd (Fin _) y = y"

definition fsub :: "fval \<Rightarrow> fval \<Rightarrow> fval" where
  "fsub x y = fadd x (fneg y)"

fun fdiv :: "fval \<Rightarrow> fval \<Rightarrow> fval" where
  "fdiv (Fin a) (Fin b) =
     (if b = 0 then (if 0 < a then PInf else if a < 0 then NInf else NaN)
      else Fin (a / b))"
| "fdiv NaN _ = NaN"
| "fdiv _ NaN = NaN"
| "fdiv (Fin _) _ = Fin 0"
| "fdiv PInf (Fin b) = (if b < 0 then NInf else PInf)"
| "fdiv NInf (Fin b) = (if b < 0 then PInf else NInf)"
| "fdiv _ _ = NaN"

fun fmul :: "fval \<Rightarrow> fval \<Rightarrow> fval" where
  "fmul (Fin a) (Fin b) = Fin (a * b)"
| "fmul NaN _ = NaN"
| "fmul _ NaN = NaN"
| "fmul (Fin a) y = (if a = 0 then NaN else if 0 < a then y else fneg y)"
| "fmul x (Fin b) = (if b = 0 then NaN else if 0 < b then x else fneg x)"
| "fmul PInf y = y"
| "fmul NInf y = fneg y"

fun feq :: "fval \<Rightarrow> fval \<Rightarrow> bool" where
  "feq (Fin a) (Fin b) = (a = b)"
| "feq PInf PInf = True"
| "feq NInf NInf = True"
| "feq _ _ = False"

definition fne :: "fval \<Rightarrow> fval \<Rightarrow> bool" where
  "fne x y = (\<not> feq x y)"

fun fless :: "fval \<Rightarrow> fval \<Rightarrow> bool" where
  "fless NaN _ = False"
| "fless _ NaN = False"
| "fless (Fin a) (Fin b) = (a < b)"
| "fless NInf y = (y \<noteq> NInf)"
| "fless x PInf = (x \<noteq> PInf)"
| "fless _ _ = False"

definition fle :: "fval \<Rightarrow> fval \<Rightarrow> bool" where
  "fle x y = (fless x y \<or> feq x y)"

definition isnan :: "fval \<Rightarrow> bool" where
  "isnan x = (x = NaN)"

definition is_finite :: "fval \<Rightarrow> bool" where
  "is_finite x = (case x of Fin a \<Rightarrow> True | _ \<Rightarrow> False)"

text \<open>Executable predicates on pixel values.\<close>

definition fin_nonneg :: "fval \<Rightarrow> bool" where
  "fin_nonneg x = (case x of Fin a \<Rightarrow> 0 \<le> a | _ \<Rightarrow> False)"

definition in_range :: "real \<Rightarrow> real \<Rightarrow> fval \<Rightarrow> bool" where
  "in_range lo hi x = (case x of Fin a \<Rightarrow> lo \<le> a \<and> a \<le> hi | _ \<Rightarrow> False)"

declare fin_nonneg_def [fval_simps] in_range_def [fval_simps]

declare fsub_def [fval_simps] fne_def [fval_simps] fle_def [fval_simps]
  isnan_def [fval_simps]

subsection \<open>Facts about the value model\<close>

lemma fsub_Fin [simp]: "fsub (Fin a) (Fin b) = Fin (a - b)"
  by (simp add: fsub_def)

lemma fdiv_Fin_nonzero [simp]: "b \<noteq> 0 \<Longrightarrow> fdiv (Fin a) (Fin b) = Fin (a / b)"
  by simp

lemma fle_Fin [simp]: "fle (Fin a) (Fin b) \<longleftrightarrow> a \<le> b"
  by (auto simp: fle_def)

lemma fne_Fin [simp]: "fne (Fin a) (Fin b) \<longleftrightarrow> a \<noteq> b"
  by (simp add: fne_def)

lemma feq_refl_iff: "feq x x \<longleftrightarrow> x \<noteq> NaN"
  by (cases x) simp_all

lemma feq_sym: "feq x y = feq y x"
  by (cases x; cases y) auto

lemma fne_sym: "fne x y = fne y x"
  by (simp add: fne_def feq_sym)

lemma fless_NaN_right [simp]: "\<not> fless x NaN"
  by (cases x) simp_all

lemma fle_NaN [simp]: "\<not> fle NaN x" "\<not> fle x NaN"
  by (cases x; simp add: fle_def)+

lemma is_finite_iff [fval_simps]: "is_finite x \<longleftrightarrow> (\<exists>a. x = Fin a)"
  by (cases x) (simp_all add: is_finite_def)

lemma is_finite_Fin [simp]: "is_finite (Fin a)"
  by (simp add: is_finite_def)

lemma fin_nonneg_iff: "fin_nonneg x \<longleftrightarrow> (\<exists>a. x = Fin a \<and> 0 \<le> a)"
  by (cases x) (simp_all add: fin_nonneg_def)

lemma in_range_iff: "in_range lo hi x \<longleftrightarrow> (\<exists>a. x = Fin a \<and> lo \<le> a \<and> a \<le> hi)"
  by (cases x) (simp_all add: in_range_def)

lemma is_finite_cases: "is_finite x \<Longrightarrow> (\<And>a. x = Fin a \<Longrightarrow> P) \<Longrightarrow> P"
  by (auto simp: is_finite_iff)

text \<open>
  The three ordered comparisons the change classifier makes against a threshold are
  exclusive and exhaustive on finite values with a non-negative threshold, and all false
  on NaN.
\<close>

lemma fless_trichotomy_Fin:
  "fless (Fin d) (Fin (- t)) \<or> fless (Fin t) (Fin d) \<or> (fle (Fin (- t)) (Fin d) \<and> fle (Fin d) (Fin t))"
  by auto

text \<open>Multiplying by a positive gain keeps a value finite, NaN or zero exactly when it was.\<close>

lemma fmul_gain_nan: "0 < a \<Longrightarrow> isnan (fmul (Fin a) x) = isnan x"
  by (cases x) (simp_all add: isnan_def)

lemma fmul_gain_zero: "0 < a \<Longrightarrow> feq (fmul (Fin a) x) (Fin 0) = feq x (Fin 0)"
  by (cases x) simp_all

lemma fmul_gain_finite: "0 < a \<Longrightarrow> is_finite (fmul (Fin a) x) = is_finite x"
  by (cases x) (simp_all add: is_finite_def)

end
