(* ===== verification/Raster_IO.thy ===== *)
theory Raster_IO
  imports NDArray Float_Model
begin

text \<open>
  The raster storage collaborator (rasterio) as an explicit store: a map from file paths to
  datasets, each a profile (the metadata dict \<open>src.profile\<close>) and its bands. The scripts
  read band 1 of a file with \<open>src.read(1)\<close>, copy the profile, update a few keys and write
  one band with \<open>rasterio.open(path, 'w', **profile)\<close> and \<open>dst.write(arr, 1)\<close>.
  Reading a missing file raises rasterio's I/O error; writing a band whose shape is not the
  profile's height and width raises too. Pixel values are held as \<open>fval\<close>: an integer band
  (uint8, uint16) holds finite integral values, which the scripts' \<open>.astype(np.float32)\<close>
  keeps exactly (every integer below \<open>2^24\<close> is a float32), so that cast is the identity
  here. A uint8 array in memory is an \<open>8 word ndarray\<close> and is written through
  \<open>u8_to_fval\<close>.
\<close>

datatype dtype = DT_uint8 | DT_uint16 | DT_float32

text \<open>rasterio's \<open>Affine(a, b, c, d, e, f)\<close>: \<open>x = a*col + b*row + c\<close>, \<open>y = d*col + e*row + f\<close>.\<close>

record affine =
  aff_a :: real
  aff_b :: real
  aff_c :: real
  aff_d :: real
  aff_e :: real
  aff_f :: real

record profile =
  p_driver :: string
  p_dtype :: dtype
  p_count :: nat
  p_nodata :: "real option"
  p_height :: nat
  p_width :: nat
  p_transform :: affine
  p_crs :: string

text \<open>
  A dataset holds its profile and its first band: every file the scripts write has
  \<open>count=1\<close>, and every read takes band 1 (\<open>src.read(1)\<close>, or \<open>src.read(...)[0]\<close>).
\<close>

record dataset =
  ds_profile :: profile
  ds_band :: "fval ndarray"

type_synonym store = "path \<rightharpoonup> dataset"

definition u8_to_fval :: "8 word \<Rightarrow> fval" where
  "u8_to_fval w = Fin (real (unat w))"

text \<open>\<open>with rasterio.open(p) as src: band = src.read(1); profile = src.profile.copy()\<close>\<close>

definition read_band1 :: "store \<Rightarrow> path \<Rightarrow> py_error + fval ndarray \<times> profile" where
  "read_band1 st p =
     (case st p of
        None \<Rightarrow> Inl RasterioIOError
      | Some ds \<Rightarrow> Inr (ds_band ds, ds_profile ds))"

text \<open>\<open>with rasterio.open(p, 'w', **profile) as dst: dst.write(arr, 1)\<close>\<close>

definition write_band1 :: "store \<Rightarrow> path \<Rightarrow> profile \<Rightarrow> fval ndarray \<Rightarrow> py_error + store" where
  "write_band1 st p prof A =
     (if shape A \<noteq> (p_height prof, p_width prof) \<or> \<not> nd_wf A then Inl WriteShapeError
      else Inr (st(p \<mapsto> \<lparr>ds_profile = prof, ds_band = A\<rparr>)))"

definition write_band1_u8 :: "store \<Rightarrow> path \<Rightarrow> profile \<Rightarrow> 8 word ndarray \<Rightarrow> py_error + store" where
  "write_band1_u8 st p prof A = write_band1 st p prof (amap u8_to_fval A)"

text \<open>The profile updates the scripts make before writing an index or a label raster.\<close>

definition float_profile :: "profile \<Rightarrow> profile" where
  "float_profile prof = prof\<lparr>p_dtype := DT_float32, p_count := 1, p_nodata := Some (-9999)\<rparr>"

definition uint8_profile :: "profile \<Rightarrow> profile" where
  "uint8_profile prof = prof\<lparr>p_dtype := DT_uint8, p_count := 1, p_nodata := Some 0\<rparr>"

definition file_exists :: "store \<Rightarrow> path \<Rightarrow> bool" where
  "file_exists st p = (st p \<noteq> None)"

text \<open>
  The store invariant: every stored band is a well-formed array of its profile's shape.
  Every write of the scripts keeps it (\<open>write_band1\<close> checks the shape as rasterio does).
\<close>

definition ds_wf :: "dataset \<Rightarrow> bool" where
  "ds_wf ds = (nd_wf (ds_band ds) \<and> shape (ds_band ds) = (p_height (ds_profile ds), p_width (ds_profile ds)))"

definition store_wf :: "store \<Rightarrow> bool" where
  "store_wf st = (\<forall>ds \<in> ran st. ds_wf ds)"

text \<open>
  Fixtures for the witnesses: the profile of an \<open>h \<times> w\<close> uint16 tile in UTM zone 43N with
  10 m pixels (the shape of a Sentinel-2 B4 or B8 file), and a one-band dataset.
\<close>

abbreviation tile_profile :: "nat \<Rightarrow> nat \<Rightarrow> profile" where
  "tile_profile h w \<equiv>
     \<lparr>p_driver = ''GTiff'', p_dtype = DT_uint16, p_count = 1, p_nodata = None, p_height = h,
      p_width = w, p_transform = \<lparr>aff_a = 10, aff_b = 0, aff_c = 500000, aff_d = 0, aff_e = -10,
      aff_f = 2500000\<rparr>, p_crs = ''EPSG:32643''\<rparr>"

abbreviation band_file :: "profile \<Rightarrow> fval ndarray \<Rightarrow> dataset" where
  "band_file prof A \<equiv> \<lparr>ds_profile = prof, ds_band = A\<rparr>"

declare u8_to_fval_def [nd_simps] read_band1_def [nd_simps] write_band1_def [nd_simps]
  write_band1_u8_def [nd_simps] float_profile_def [nd_simps] uint8_profile_def [nd_simps]
  file_exists_def [nd_simps] ds_wf_def [nd_simps] store_wf_def [nd_simps]

subsection \<open>Store facts\<close>

lemma write_band1_Inr:
  "write_band1 st p prof A = Inr st' \<longleftrightarrow>
     shape A = (p_height prof, p_width prof) \<and> nd_wf A \<and> st' = st(p \<mapsto> \<lparr>ds_profile = prof, ds_band = A\<rparr>)"
  by (auto simp: write_band1_def)

lemma write_band1_frame:
  "write_band1 st p prof A = Inr st' \<Longrightarrow> q \<noteq> p \<Longrightarrow> st' q = st q"
  by (auto simp: write_band1_Inr)

lemma read_after_write:
  "write_band1 st p prof A = Inr st' \<Longrightarrow> read_band1 st' p = Inr (A, prof)"
  by (auto simp: write_band1_Inr read_band1_def)

lemma read_band1_Inr_exists: "read_band1 st p = Inr x \<Longrightarrow> file_exists st p"
  by (auto simp: read_band1_def file_exists_def split: option.splits)

lemma read_band1_Inr_iff: "(\<exists>x. read_band1 st p = Inr x) \<longleftrightarrow> file_exists st p"
  by (auto simp: read_band1_def file_exists_def split: option.splits)

lemma read_band1_missing [simp]: "st p = None \<Longrightarrow> read_band1 st p = Inl RasterioIOError"
  by (simp add: read_band1_def)

lemma float_profile_shape [simp]:
  "p_height (float_profile prof) = p_height prof" "p_width (float_profile prof) = p_width prof"
  "p_transform (float_profile prof) = p_transform prof"
  by (simp_all add: float_profile_def)

lemma uint8_profile_shape [simp]:
  "p_height (uint8_profile prof) = p_height prof" "p_width (uint8_profile prof) = p_width prof"
  "p_transform (uint8_profile prof) = p_transform prof"
  by (simp_all add: uint8_profile_def)

lemma store_wf_write:
  assumes "write_band1 st p prof A = Inr st'" and "store_wf st"
  shows "store_wf st'"
proof -
  from assms(1) have A: "shape A = (p_height prof, p_width prof)" "nd_wf A"
    and st': "st' = st(p \<mapsto> \<lparr>ds_profile = prof, ds_band = A\<rparr>)"
    by (simp_all add: write_band1_Inr)
  have "ran st' \<subseteq> insert \<lparr>ds_profile = prof, ds_band = A\<rparr> (ran st)"
    using st' by (auto simp: ran_def)
  then show ?thesis
    using assms(2) A by (auto simp: store_wf_def ds_wf_def)
qed

lemma store_wf_read:
  assumes "store_wf st" and "read_band1 st p = Inr (A, prof)"
  shows "nd_wf A" and "shape A = (p_height prof, p_width prof)"
proof -
  from assms(2) obtain ds where "st p = Some ds" "A = ds_band ds" "prof = ds_profile ds"
    by (auto simp: read_band1_def split: option.splits)
  moreover from \<open>st p = Some ds\<close> have "ds \<in> ran st" by (auto simp: ran_def)
  ultimately show "nd_wf A" and "shape A = (p_height prof, p_width prof)"
    using assms(1) by (auto simp: store_wf_def ds_wf_def)
qed

lemma store_wf_upd [intro]: "store_wf st \<Longrightarrow> ds_wf ds \<Longrightarrow> store_wf (st(p \<mapsto> ds))"
  by (auto simp: store_wf_def ran_def)

lemma store_wf_empty [simp, intro]: "store_wf Map.empty"
  by (simp add: store_wf_def)

lemma store_wf_write_u8: "write_band1_u8 st p prof A = Inr st' \<Longrightarrow> store_wf st \<Longrightarrow> store_wf st'"
  unfolding write_band1_u8_def by (rule store_wf_write)

lemmas store_wf_writes = store_wf_write store_wf_write_u8

end
