(* ===== verification/Spectral_Index.thy ===== *)
theory Spectral_Index
  imports Raster_IO
begin

text \<open>
  The spectral indices of \<open>src/calculate_ndvi.py\<close> and \<open>src/urban_extraction.py\<close>. Both
  scripts compute a normalized difference with the same safe-division idiom,
  \<open>np.where((a + b) != 0, (a - b) / (a + b), 0)\<close>: numpy evaluates the quotient on every
  pixel (producing NaN or an infinity where \<open>a + b = 0\<close>) and \<open>np.where\<close> then picks 0 on
  those pixels. \<open>norm_diff_px\<close> is that expression on one pixel; an array operation is its
  broadcast over the two operand arrays (the three sub-expressions broadcast the same two
  operands, so broadcasting the fused pixel function once is the same array).
\<close>

definition np_where :: "bool \<Rightarrow> 'a \<Rightarrow> 'a \<Rightarrow> 'a" where
  "np_where c x y = (if c then x else y)"

definition norm_diff_px :: "fval \<Rightarrow> fval \<Rightarrow> fval" where
  "norm_diff_px a b = np_where (fne (fadd a b) (Fin 0)) (fdiv (fsub a b) (fadd a b)) (Fin 0)"

text \<open>\<open>calculate_ndvi(red_band_path, nir_band_path, output_path)\<close>, lines 13--39.\<close>

definition calculate_ndvi ::
  "store \<Rightarrow> path \<Rightarrow> path \<Rightarrow> path \<Rightarrow> py_error + store \<times> fval ndarray" where
  "calculate_ndvi st red_path nir_path output_path =
     sbind (read_band1 st red_path) (\<lambda>(red, profile).
     sbind (read_band1 st nir_path) (\<lambda>(nir, _).
     sbind (broadcast2 norm_diff_px nir red) (\<lambda>ndvi.
     sbind (write_band1 st output_path (float_profile profile) ndvi) (\<lambda>st'.
     Inr (st', ndvi)))))"

declare np_where_def [fval_simps] norm_diff_px_def [fval_simps]

subsection \<open>The normalized difference on one pixel\<close>

lemma ratio_bounds:
  fixes a b :: real
  assumes "0 \<le> a" "0 \<le> b" "a + b \<noteq> 0"
  shows "-1 \<le> (a - b) / (a + b)" and "(a - b) / (a + b) \<le> 1"
proof -
  from assms have pos: "0 < a + b" by simp
  show "-1 \<le> (a - b) / (a + b)"
    using pos assms by (simp add: le_divide_eq)
  show "(a - b) / (a + b) \<le> 1"
    using pos assms by (simp add: divide_le_eq)
qed

lemma norm_diff_px_Fin:
  "norm_diff_px (Fin a) (Fin b) = Fin (if a + b \<noteq> 0 then (a - b) / (a + b) else 0)"
  by (simp add: norm_diff_px_def np_where_def)

lemma norm_diff_px_swap: "norm_diff_px (Fin b) (Fin a) = fneg (norm_diff_px (Fin a) (Fin b))"
  by (simp add: norm_diff_px_Fin add.commute minus_divide_left)

lemma norm_diff_px_in_range:
  "0 \<le> a \<Longrightarrow> 0 \<le> b \<Longrightarrow> in_range (-1) 1 (norm_diff_px (Fin a) (Fin b))"
  using ratio_bounds by (simp add: norm_diff_px_Fin in_range_def)

lemma norm_diff_px_sum_zero: "fadd a b = Fin 0 \<Longrightarrow> norm_diff_px a b = Fin 0"
  by (simp add: norm_diff_px_def np_where_def fne_def)

lemma norm_diff_px_finite: "is_finite (norm_diff_px (Fin a) (Fin b))"
  by (simp add: norm_diff_px_Fin)

subsection \<open>\<open>calculate_ndvi\<close>\<close>

text \<open>
  A successful run read both bands, broadcast them, and wrote what it returns; the lemmas
  about the output go through this inversion.
\<close>

lemma calculate_ndvi_Inr:
  assumes "calculate_ndvi st red_path nir_path output_path = Inr (st', ndvi)"
  obtains red prof nir nir_prof where
    "read_band1 st red_path = Inr (red, prof)" "read_band1 st nir_path = Inr (nir, nir_prof)"
    "broadcast2 norm_diff_px nir red = Inr ndvi"
    "write_band1 st output_path (float_profile prof) ndvi = Inr st'"
  using assms by (auto simp: calculate_ndvi_def sbind_eq_Inr)

lemma calculate_ndvi_broadcast:
  assumes "calculate_ndvi st red_path nir_path output_path = Inr (st', ndvi)"
    and "read_band1 st red_path = Inr (red, prof)" and "read_band1 st nir_path = Inr (nir, nir_prof)"
  shows "broadcast2 norm_diff_px nir red = Inr ndvi"
    and "write_band1 st output_path (float_profile prof) ndvi = Inr st'"
proof -
  from assms(1) obtain red' prof' nir' np' where
    "read_band1 st red_path = Inr (red', prof')" "read_band1 st nir_path = Inr (nir', np')"
    and b: "broadcast2 norm_diff_px nir' red' = Inr ndvi"
    and w: "write_band1 st output_path (float_profile prof') ndvi = Inr st'"
    by (rule calculate_ndvi_Inr)
  with assms(2,3) show "broadcast2 norm_diff_px nir red = Inr ndvi"
    and "write_band1 st output_path (float_profile prof) ndvi = Inr st'" by simp_all
qed

lemma calculate_ndvi_values:
  assumes "calculate_ndvi st red_path nir_path output_path = Inr (st', ndvi)"
    and "read_band1 st red_path = Inr (red, prof)" and "read_band1 st nir_path = Inr (nir, nir_prof)"
    and "nd_wf red" and "nd_wf nir"
    and "\<And>a b. a \<in> set (vals nir) \<Longrightarrow> b \<in> set (vals red) \<Longrightarrow> P (norm_diff_px a b)"
  shows "list_all P (vals ndvi)"
  using calculate_ndvi_broadcast(1) [OF assms(1-3)]
  by (rule broadcast2_list_all [where P = P]) (simp_all add: assms(4-6))

lemma calculate_ndvi_same_shape:
  assumes "read_band1 st red_path = Inr (red, prof)" and "read_band1 st nir_path = Inr (nir, nir_prof)"
    and "nd_wf red" and "nd_wf nir" and "shape nir = shape red"
  shows "broadcast2 norm_diff_px nir red =
           Inr \<lparr>nrows = nrows red, ncols = ncols red, vals = map2 norm_diff_px (vals nir) (vals red)\<rparr>"
  using broadcast2_same_shape [OF assms(4,3,5)] assms(5) by (simp add: shape_def)

text \<open>
  C1: every value \<open>calculate_ndvi\<close> returns and writes is a finite number in \<open>[-1, 1]\<close>
  when the red and near-infrared bands hold non-negative reflectances, whatever their
  shapes (numpy may broadcast them).
\<close>

theorem calculate_ndvi_bounds:
  assumes "calculate_ndvi st red_path nir_path output_path = Inr (st', ndvi)"
    and "read_band1 st red_path = Inr (red, prof)" and "read_band1 st nir_path = Inr (nir, nir_prof)"
    and "nd_wf red" and "nd_wf nir"
    and "list_all fin_nonneg (vals red)" and "list_all fin_nonneg (vals nir)"
  shows "list_all (in_range (-1) 1) (vals ndvi) \<and>
         st' output_path = Some \<lparr>ds_profile = float_profile prof, ds_band = ndvi\<rparr>"
proof
  show "list_all (in_range (-1) 1) (vals ndvi)"
    using assms(1-5)
  proof (rule calculate_ndvi_values)
    fix a b assume "a \<in> set (vals nir)" "b \<in> set (vals red)"
    with assms(6,7) have "fin_nonneg a" "fin_nonneg b" by (simp_all add: list_all_iff)
    then show "in_range (-1) 1 (norm_diff_px a b)" by (auto simp: fin_nonneg_iff norm_diff_px_in_range)
  qed
  from calculate_ndvi_broadcast(2) [OF assms(1-3)] show "st' output_path = Some \<lparr>ds_profile = float_profile prof, ds_band = ndvi\<rparr>"
    by (auto simp: write_band1_Inr)
qed

lemma calculate_ndvi_bounds_witness:
  "\<exists>st' ndvi. calculate_ndvi
       [''B4.tif'' \<mapsto> band_file (tile_profile 1 2) \<lparr>nrows = 1, ncols = 2, vals = [Fin 0, Fin 30]\<rparr>,
        ''B8.tif'' \<mapsto> band_file (tile_profile 1 2) \<lparr>nrows = 1, ncols = 2, vals = [Fin 0, Fin 90]\<rparr>]
       ''B4.tif'' ''B8.tif'' ''ndvi.tif'' = Inr (st', ndvi) \<and> list_all (in_range (-1) 1) (vals ndvi)"
proof -
  let ?red = "\<lparr>nrows = 1, ncols = 2, vals = [Fin 0, Fin 30]\<rparr>"
    and ?nir = "\<lparr>nrows = 1, ncols = 2, vals = [Fin 0, Fin 90]\<rparr>"
  let ?st = "[''B4.tif'' \<mapsto> band_file (tile_profile 1 2) ?red, ''B8.tif'' \<mapsto> band_file (tile_profile 1 2) ?nir]"
  have "\<exists>st' ndvi. calculate_ndvi ?st ''B4.tif'' ''B8.tif'' ''ndvi.tif'' = Inr (st', ndvi)"
    by (simp add: calculate_ndvi_def nd_simps fval_simps upt_rec)
  then obtain st' ndvi where run: "calculate_ndvi ?st ''B4.tif'' ''B8.tif'' ''ndvi.tif'' = Inr (st', ndvi)"
    by blast
  have "list_all (in_range (-1) 1) (vals ndvi)"
    using calculate_ndvi_bounds [OF run, where red = ?red and prof = "tile_profile 1 2"
        and nir = ?nir and nir_prof = "tile_profile 1 2"]
    by (simp add: nd_simps fval_simps)
  with run show ?thesis by blast
qed

text \<open>
  The zero-sum rule. Where the two bands sum to exactly zero on every pixel (two
  all-zero bands, for instance) the NDVI is zero everywhere, never NaN.
\<close>

lemma calculate_ndvi_zero_sum:
  assumes "calculate_ndvi st red_path nir_path output_path = Inr (st', ndvi)"
    and "read_band1 st red_path = Inr (red, prof)" and "read_band1 st nir_path = Inr (nir, nir_prof)"
    and "nd_wf red" and "nd_wf nir" and "shape nir = shape red"
    and "list_all2 (\<lambda>n r. fadd n r = Fin 0) (vals nir) (vals red)"
  shows "list_all (\<lambda>x. x = Fin 0) (vals ndvi)"
proof -
  have "broadcast2 norm_diff_px nir red = Inr ndvi"
    by (rule calculate_ndvi_broadcast(1) [OF assms(1-3)])
  then have "ndvi = \<lparr>nrows = nrows red, ncols = ncols red, vals = map2 norm_diff_px (vals nir) (vals red)\<rparr>"
    using calculate_ndvi_same_shape [OF assms(2-6)] by simp
  then have "vals ndvi = map2 norm_diff_px (vals nir) (vals red)" by simp
  then show ?thesis
    using assms(7) by (simp add: list_all_map2 norm_diff_px_sum_zero)
qed

lemma calculate_ndvi_zero_sum_witness:
  "\<exists>st' ndvi. calculate_ndvi
       [''B4.tif'' \<mapsto> band_file (tile_profile 1 2) \<lparr>nrows = 1, ncols = 2, vals = [Fin 0, Fin 0]\<rparr>,
        ''B8.tif'' \<mapsto> band_file (tile_profile 1 2) \<lparr>nrows = 1, ncols = 2, vals = [Fin 0, Fin 0]\<rparr>]
       ''B4.tif'' ''B8.tif'' ''ndvi.tif'' = Inr (st', ndvi) \<and> list_all (\<lambda>x. x = Fin 0) (vals ndvi)"
proof -
  let ?z = "\<lparr>nrows = 1, ncols = 2, vals = [Fin 0, Fin 0]\<rparr>"
  let ?st = "[''B4.tif'' \<mapsto> band_file (tile_profile 1 2) ?z, ''B8.tif'' \<mapsto> band_file (tile_profile 1 2) ?z]"
  have "\<exists>st' ndvi. calculate_ndvi ?st ''B4.tif'' ''B8.tif'' ''ndvi.tif'' = Inr (st', ndvi)"
    by (simp add: calculate_ndvi_def nd_simps fval_simps upt_rec)
  then obtain st' ndvi where run: "calculate_ndvi ?st ''B4.tif'' ''B8.tif'' ''ndvi.tif'' = Inr (st', ndvi)"
    by blast
  have "list_all (\<lambda>x. x = Fin 0) (vals ndvi)"
    using calculate_ndvi_zero_sum [OF run, where red = ?z and prof = "tile_profile 1 2"
        and nir = ?z and nir_prof = "tile_profile 1 2"]
    by (simp add: nd_simps fval_simps)
  with run show ?thesis by blast
qed

text \<open>
  In exact arithmetic, finite bands of any sign give a finite NDVI on every pixel (in
  float32, \<open>nir - red\<close> may overflow to an infinity on extreme values).
\<close>

lemma calculate_ndvi_finite:
  assumes "calculate_ndvi st red_path nir_path output_path = Inr (st', ndvi)"
    and "read_band1 st red_path = Inr (red, prof)" and "read_band1 st nir_path = Inr (nir, nir_prof)"
    and "nd_wf red" and "nd_wf nir"
    and "list_all is_finite (vals red)" and "list_all is_finite (vals nir)"
  shows "list_all is_finite (vals ndvi)"
  using assms(1-5)
proof (rule calculate_ndvi_values)
  fix a b assume "a \<in> set (vals nir)" "b \<in> set (vals red)"
  with assms(6,7) have "is_finite a" "is_finite b" by (simp_all add: list_all_iff)
  then show "is_finite (norm_diff_px a b)"
    by (auto simp: is_finite_iff norm_diff_px_finite [unfolded is_finite_iff])
qed

lemma calculate_ndvi_finite_witness:
  "\<exists>st' ndvi. calculate_ndvi
       [''B4.tif'' \<mapsto> band_file (tile_profile 1 2) \<lparr>nrows = 1, ncols = 2, vals = [Fin 5, Fin 0]\<rparr>,
        ''B8.tif'' \<mapsto> band_file (tile_profile 1 2) \<lparr>nrows = 1, ncols = 2, vals = [Fin (-5), Fin 0]\<rparr>]
       ''B4.tif'' ''B8.tif'' ''ndvi.tif'' = Inr (st', ndvi) \<and> list_all is_finite (vals ndvi)"
proof -
  let ?red = "\<lparr>nrows = 1, ncols = 2, vals = [Fin 5, Fin 0]\<rparr>"
    and ?nir = "\<lparr>nrows = 1, ncols = 2, vals = [Fin (-5), Fin 0]\<rparr>"
  let ?st = "[''B4.tif'' \<mapsto> band_file (tile_profile 1 2) ?red, ''B8.tif'' \<mapsto> band_file (tile_profile 1 2) ?nir]"
  have "\<exists>st' ndvi. calculate_ndvi ?st ''B4.tif'' ''B8.tif'' ''ndvi.tif'' = Inr (st', ndvi)"
    by (simp add: calculate_ndvi_def nd_simps fval_simps upt_rec)
  then obtain st' ndvi where run: "calculate_ndvi ?st ''B4.tif'' ''B8.tif'' ''ndvi.tif'' = Inr (st', ndvi)"
    by blast
  have "list_all is_finite (vals ndvi)"
    using calculate_ndvi_finite [OF run, where red = ?red and prof = "tile_profile 1 2"
        and nir = ?nir and nir_prof = "tile_profile 1 2"]
    by (simp add: nd_simps fval_simps)
  with run show ?thesis by blast
qed

text \<open>
  C3: safe division keeps NaN out of the output: on finite bands of any sign no NDVI pixel
  is NaN, the zero-sum pixels where \<open>0/0\<close> would give NaN included. (This holds in float32
  as well: \<open>nir - red\<close> and \<open>nir + red\<close> cannot both overflow, so no \<open>inf/inf\<close> arises.)
\<close>

theorem calculate_ndvi_no_nan:
  assumes "calculate_ndvi st red_path nir_path output_path = Inr (st', ndvi)"
    and "read_band1 st red_path = Inr (red, prof)" and "read_band1 st nir_path = Inr (nir, nir_prof)"
    and "nd_wf red" and "nd_wf nir"
    and "list_all is_finite (vals red)" and "list_all is_finite (vals nir)"
  shows "list_all (\<lambda>x. \<not> isnan x) (vals ndvi)"
proof -
  have "list_all is_finite (vals ndvi)" by (rule calculate_ndvi_finite [OF assms])
  then show ?thesis by (auto simp: list_all_iff is_finite_iff isnan_def)
qed

lemma calculate_ndvi_no_nan_witness:
  "\<exists>st' ndvi. calculate_ndvi
       [''B4.tif'' \<mapsto> band_file (tile_profile 1 2) \<lparr>nrows = 1, ncols = 2, vals = [Fin 5, Fin 0]\<rparr>,
        ''B8.tif'' \<mapsto> band_file (tile_profile 1 2) \<lparr>nrows = 1, ncols = 2, vals = [Fin (-5), Fin 0]\<rparr>]
       ''B4.tif'' ''B8.tif'' ''ndvi.tif'' = Inr (st', ndvi) \<and> list_all (\<lambda>x. \<not> isnan x) (vals ndvi)"
proof -
  let ?red = "\<lparr>nrows = 1, ncols = 2, vals = [Fin 5, Fin 0]\<rparr>"
    and ?nir = "\<lparr>nrows = 1, ncols = 2, vals = [Fin (-5), Fin 0]\<rparr>"
  let ?st = "[''B4.tif'' \<mapsto> band_file (tile_profile 1 2) ?red, ''B8.tif'' \<mapsto> band_file (tile_profile 1 2) ?nir]"
  have "\<exists>st' ndvi. calculate_ndvi ?st ''B4.tif'' ''B8.tif'' ''ndvi.tif'' = Inr (st', ndvi)"
    by (simp add: calculate_ndvi_def nd_simps fval_simps upt_rec)
  then obtain st' ndvi where run: "calculate_ndvi ?st ''B4.tif'' ''B8.tif'' ''ndvi.tif'' = Inr (st', ndvi)"
    by blast
  have "list_all (\<lambda>x. \<not> isnan x) (vals ndvi)"
    using calculate_ndvi_no_nan [OF run, where red = ?red and prof = "tile_profile 1 2"
        and nir = ?nir and nir_prof = "tile_profile 1 2"]
    by (simp add: nd_simps fval_simps)
  with run show ?thesis by blast
qed

text \<open>
  C4: on two bands of the same shape as the red band's profile, \<open>calculate_ndvi\<close> returns
  the pixel-wise safe normalized difference and stores it at the output path under the red
  band's profile, switched to float32 with nodata \<open>-9999\<close>; no other file changes.
\<close>

theorem calculate_ndvi_result:
  assumes "read_band1 st red_path = Inr (red, prof)" and "read_band1 st nir_path = Inr (nir, nir_prof)"
    and "nd_wf red" and "nd_wf nir" and "shape nir = shape red"
    and "shape red = (p_height prof, p_width prof)"
  shows "calculate_ndvi st red_path nir_path output_path =
           Inr (st(output_path \<mapsto> band_file (float_profile prof)
                  \<lparr>nrows = nrows red, ncols = ncols red, vals = map2 norm_diff_px (vals nir) (vals red)\<rparr>),
                \<lparr>nrows = nrows red, ncols = ncols red, vals = map2 norm_diff_px (vals nir) (vals red)\<rparr>)"
proof -
  have len: "length (map2 norm_diff_px (vals nir) (vals red)) = nrows red * ncols red"
    using assms(3-5) by (simp add: nd_wf_def shape_def)
  show ?thesis
    using assms(1,2,6) len
    by (simp add: calculate_ndvi_def calculate_ndvi_same_shape [OF assms(1-5)] write_band1_def
        shape_def nd_wf_def)
qed

lemma calculate_ndvi_result_witness:
  "calculate_ndvi
     [''B4.tif'' \<mapsto> band_file (tile_profile 1 2) \<lparr>nrows = 1, ncols = 2, vals = [Fin 10, Fin 30]\<rparr>,
      ''B8.tif'' \<mapsto> band_file (tile_profile 1 2) \<lparr>nrows = 1, ncols = 2, vals = [Fin 30, Fin 90]\<rparr>]
     ''B4.tif'' ''B8.tif'' ''ndvi.tif'' =
   Inr ([''B4.tif'' \<mapsto> band_file (tile_profile 1 2) \<lparr>nrows = 1, ncols = 2, vals = [Fin 10, Fin 30]\<rparr>,
         ''B8.tif'' \<mapsto> band_file (tile_profile 1 2) \<lparr>nrows = 1, ncols = 2, vals = [Fin 30, Fin 90]\<rparr>,
         ''ndvi.tif'' \<mapsto> band_file (float_profile (tile_profile 1 2)) \<lparr>nrows = 1, ncols = 2, vals = [Fin (1/2), Fin (1/2)]\<rparr>],
        \<lparr>nrows = 1, ncols = 2, vals = [Fin (1/2), Fin (1/2)]\<rparr>)"
proof -
  let ?red = "\<lparr>nrows = 1, ncols = 2, vals = [Fin 10, Fin 30]\<rparr> :: fval ndarray"
    and ?nir = "\<lparr>nrows = 1, ncols = 2, vals = [Fin 30, Fin 90]\<rparr> :: fval ndarray"
  let ?st = "[''B4.tif'' \<mapsto> band_file (tile_profile 1 2) ?red, ''B8.tif'' \<mapsto> band_file (tile_profile 1 2) ?nir]"
  have "calculate_ndvi ?st ''B4.tif'' ''B8.tif'' ''ndvi.tif'' =
          Inr (?st(''ndvi.tif'' \<mapsto> band_file (float_profile (tile_profile 1 2))
                 \<lparr>nrows = nrows ?red, ncols = ncols ?red, vals = map2 norm_diff_px (vals ?nir) (vals ?red)\<rparr>),
               \<lparr>nrows = nrows ?red, ncols = ncols ?red, vals = map2 norm_diff_px (vals ?nir) (vals ?red)\<rparr>)"
    by (rule calculate_ndvi_result) (simp_all add: nd_simps)
  then show ?thesis by (simp add: fval_simps)
qed

text \<open>
  A missing band file makes \<open>calculate_ndvi\<close> raise rasterio's I/O error; nothing is
  written (the main loop checks existence first and skips the year).
\<close>

lemma calculate_ndvi_missing_input:
  assumes "\<not> file_exists st red_path \<or> \<not> file_exists st nir_path"
  shows "calculate_ndvi st red_path nir_path output_path = Inl RasterioIOError"
  using assms
  by (auto simp: calculate_ndvi_def read_band1_def file_exists_def split: option.splits)

lemma calculate_ndvi_missing_input_witness:
  "file_exists [''B4.tif'' \<mapsto> band_file (tile_profile 1 1) \<lparr>nrows = 1, ncols = 1, vals = [Fin 7]\<rparr>] ''B4.tif''
   \<and> \<not> file_exists [''B4.tif'' \<mapsto> band_file (tile_profile 1 1) \<lparr>nrows = 1, ncols = 1, vals = [Fin 7]\<rparr>] ''B8.tif''
   \<and> calculate_ndvi [''B4.tif'' \<mapsto> band_file (tile_profile 1 1) \<lparr>nrows = 1, ncols = 1, vals = [Fin 7]\<rparr>]
       ''B4.tif'' ''B8.tif'' ''ndvi.tif'' = Inl RasterioIOError"
  using calculate_ndvi_missing_input [of "[''B4.tif'' \<mapsto> band_file (tile_profile 1 1) \<lparr>nrows = 1, ncols = 1, vals = [Fin 7]\<rparr>]"
      "''B4.tif''" "''B8.tif''" "''ndvi.tif''"]
  by (simp add: file_exists_def)

text \<open>
  C6: the shapes of the two bands are not checked against each other. For any red band
  and any near-infrared band of one row with as many columns, \<open>calculate_ndvi\<close> succeeds:
  every row of the red band is paired with the single near-infrared row, and the result,
  of the red band's shape, is written under the red band's float32 profile. The
  specification requires a shape-mismatch error.
\<close>

theorem calculate_ndvi_accepts_broadcast:
  assumes "st red_path = Some R" and "st nir_path = Some N" and "ds_wf R"
    and "nrows (ds_band N) = 1" and "ncols (ds_band N) = ncols (ds_band R)"
  shows "calculate_ndvi st red_path nir_path output_path =
           Inr (st(output_path \<mapsto> \<lparr>ds_profile = float_profile (ds_profile R),
                                  ds_band = tabulate (nrows (ds_band R)) (ncols (ds_band R))
                                    (\<lambda>i j. norm_diff_px (nd_at (ds_band N) 0 j) (nd_at (ds_band R) i j))\<rparr>),
                tabulate (nrows (ds_band R)) (ncols (ds_band R))
                  (\<lambda>i j. norm_diff_px (nd_at (ds_band N) 0 j) (nd_at (ds_band R) i j)))"
  using assms
  by (simp add: calculate_ndvi_def read_band1_def write_band1_def ds_wf_def shape_def broadcast2_row [OF assms(4,5)])

lemma calculate_ndvi_accepts_broadcast_witness:
  "calculate_ndvi
       [''B4.tif'' \<mapsto> band_file (tile_profile 2 2) \<lparr>nrows = 2, ncols = 2, vals = [Fin 1, Fin 2, Fin 3, Fin 4]\<rparr>,
        ''B8.tif'' \<mapsto> band_file (tile_profile 1 2) \<lparr>nrows = 1, ncols = 2, vals = [Fin 5, Fin 6]\<rparr>]
       ''B4.tif'' ''B8.tif'' ''ndvi.tif'' =
     Inr ([''B4.tif'' \<mapsto> band_file (tile_profile 2 2) \<lparr>nrows = 2, ncols = 2, vals = [Fin 1, Fin 2, Fin 3, Fin 4]\<rparr>,
           ''B8.tif'' \<mapsto> band_file (tile_profile 1 2) \<lparr>nrows = 1, ncols = 2, vals = [Fin 5, Fin 6]\<rparr>,
           ''ndvi.tif'' \<mapsto> band_file (float_profile (tile_profile 2 2))
              \<lparr>nrows = 2, ncols = 2, vals = [Fin (2/3), Fin (1/2), Fin (1/4), Fin (1/5)]\<rparr>],
          \<lparr>nrows = 2, ncols = 2, vals = [Fin (2/3), Fin (1/2), Fin (1/4), Fin (1/5)]\<rparr>)"
proof -
  have "tabulate 2 2 (\<lambda>i j. norm_diff_px (nd_at \<lparr>nrows = 1, ncols = 2, vals = [Fin 5, Fin 6]\<rparr> 0 j)
                        (nd_at \<lparr>nrows = 2, ncols = 2, vals = [Fin 1, Fin 2, Fin 3, Fin (4::real)]\<rparr> i j))
        = \<lparr>nrows = 2, ncols = 2, vals = [Fin (2/3), Fin (1/2), Fin (1/4), Fin (1/5)]\<rparr>"
    by (simp add: tabulate_def nd_at_def upt_rec fval_simps)
  with calculate_ndvi_accepts_broadcast [of
      "[''B4.tif'' \<mapsto> band_file (tile_profile 2 2) \<lparr>nrows = 2, ncols = 2, vals = [Fin 1, Fin 2, Fin 3, Fin 4]\<rparr>,
        ''B8.tif'' \<mapsto> band_file (tile_profile 1 2) \<lparr>nrows = 1, ncols = 2, vals = [Fin 5, Fin 6]\<rparr>]"
      "''B4.tif''" _ "''B8.tif''"]
  show ?thesis by (simp add: ds_wf_def nd_wf_def shape_def)
qed

subsection \<open>The store invariant\<close>

text \<open>Every write goes through \<open>write_band1\<close>, which refuses a band of the wrong shape, so
  \<open>store_wf\<close> holds after each function of this part whenever it held before.\<close>

lemma calculate_ndvi_store_wf:
  "calculate_ndvi st r n p = Inr (st', x) \<Longrightarrow> store_wf st \<Longrightarrow> store_wf st'"
  by (auto simp: calculate_ndvi_def sbind_eq_Inr split: prod.splits intro: store_wf_writes)

end
