(* ===== verification/Change_Detection.thy ===== *)
theory Change_Detection
  imports Spectral_Index
begin

text \<open>
  \<open>src/change_detection.py\<close>: the NDVI difference of two years, its classification
  against a threshold, and the comparison of two classification rasters.
  \<open>classify_changes\<close> is three boolean-mask assignments into a uint8 array of zeros, in
  the source's order (decrease 1, increase 2, no change 3); a later assignment overwrites an
  earlier one. \<open>change_code\<close> is the per-pixel reading of that sequence, and
  \<open>change_spec\<close> is the specification's three-way classification (section 4.5):
  \<open>diff < -\<tau>\<close> is a decrease, \<open>diff > \<tau>\<close> an increase, anything else no change.
\<close>

text \<open>\<open>calculate_ndvi_difference(ndvi_2021_path, ndvi_2025_path, output_path)\<close>, lines 16--39.\<close>

definition calculate_ndvi_difference ::
  "store \<Rightarrow> path \<Rightarrow> path \<Rightarrow> path \<Rightarrow> py_error + store \<times> fval ndarray" where
  "calculate_ndvi_difference st ndvi_2021_path ndvi_2025_path output_path =
     sbind (read_band1 st ndvi_2021_path) (\<lambda>(ndvi_2021, profile).
     sbind (read_band1 st ndvi_2025_path) (\<lambda>(ndvi_2025, _).
     sbind (broadcast2 fsub ndvi_2025 ndvi_2021) (\<lambda>ndvi_diff.
     sbind (write_band1 st output_path (float_profile profile) ndvi_diff) (\<lambda>st'.
     Inr (st', ndvi_diff)))))"

text \<open>\<open>classify_changes(ndvi_diff, threshold=0.1)\<close>, lines 41--59.\<close>

definition classify_changes :: "fval ndarray \<Rightarrow> real \<Rightarrow> py_error + 8 word ndarray" where
  "classify_changes ndvi_diff threshold =
     sbind (bool_assign (zeros_like ndvi_diff) (amap (\<lambda>d. fless d (Fin (- threshold))) ndvi_diff) 1)
       (\<lambda>changes.
     sbind (bool_assign changes (amap (\<lambda>d. fless (Fin threshold) d) ndvi_diff) 2) (\<lambda>changes.
     bool_assign changes
       (amap (\<lambda>d. fle (Fin (- threshold)) d \<and> fle d (Fin threshold)) ndvi_diff) 3))"

text \<open>\<open>compare_classifications(class_2021_path, class_2025_path, output_path)\<close>, lines 61--87.\<close>

definition compare_classifications ::
  "store \<Rightarrow> path \<Rightarrow> path \<Rightarrow> path \<Rightarrow> py_error + store \<times> 8 word ndarray" where
  "compare_classifications st class_2021_path class_2025_path output_path =
     sbind (read_band1 st class_2021_path) (\<lambda>(class_2021, profile).
     sbind (read_band1 st class_2025_path) (\<lambda>(class_2025, _).
     sbind (broadcast2 fne class_2021 class_2025) (\<lambda>mask.
     sbind (bool_assign (zeros_like class_2021) mask 1) (\<lambda>change_matrix.
     sbind (write_band1_u8 st output_path (uint8_profile profile) change_matrix) (\<lambda>st'.
     Inr (st', change_matrix))))))"

text \<open>What the three assignments of \<open>classify_changes\<close> leave in one pixel.\<close>

definition change_code :: "real \<Rightarrow> fval \<Rightarrow> 8 word" where
  "change_code threshold d =
     (if fle (Fin (- threshold)) d \<and> fle d (Fin threshold) then 3
      else if fless (Fin threshold) d then 2
      else if fless d (Fin (- threshold)) then 1 else 0)"

text \<open>The specification's classes and their codes in the change raster.\<close>

datatype change_class = Decrease | Increase | NoChange

definition change_spec :: "real \<Rightarrow> real \<Rightarrow> change_class" where
  "change_spec tau diff = (if diff < - tau then Decrease else if diff > tau then Increase else NoChange)"

fun change_class_code :: "change_class \<Rightarrow> 8 word" where
  "change_class_code Decrease = 1"
| "change_class_code Increase = 2"
| "change_class_code NoChange = 3"

declare calculate_ndvi_difference_def [nd_simps] classify_changes_def [nd_simps]
  compare_classifications_def [nd_simps] change_code_def [fval_simps] change_spec_def [fval_simps]

subsection \<open>\<open>classify_changes\<close>\<close>

text \<open>
  The three masks are computed from \<open>ndvi_diff\<close> itself, so they always have the shape of
  \<open>changes\<close>: the assignments never raise, and the sequence is the per-pixel code.
\<close>

lemma classify_changes_eq: "classify_changes ndvi_diff threshold = Inr (amap (change_code threshold) ndvi_diff)"
  by (simp add: classify_changes_def bool_assign_same_shape shape_def zeros_like_def amap_def map2_map_map
      change_code_def)

lemma change_code_spec:
  "0 \<le> tau \<Longrightarrow> change_code tau (Fin x) = change_class_code (change_spec tau x)"
  by (auto simp: change_code_def change_spec_def)

lemma change_code_cases: "change_code tau d \<in> {0, 1, 2, 3}"
  by (simp add: change_code_def)

lemma change_code_NaN: "change_code tau NaN = 0"
  by (simp add: change_code_def fle_def)

text \<open>
  C7: \<open>classify_changes\<close> refines the specification's classification: with a non-negative
  threshold, every finite difference gets the code of its class (decrease 1, increase 2,
  no change 3), and the change raster has the difference raster's shape.
\<close>

theorem classify_changes_refines:
  assumes "0 \<le> tau" and "k < length (vals ndvi_diff)" and "vals ndvi_diff ! k = Fin x"
  shows "\<exists>changes. classify_changes ndvi_diff tau = Inr changes \<and> shape changes = shape ndvi_diff
           \<and> vals changes ! k = change_class_code (change_spec tau x)"
  using assms by (simp add: classify_changes_eq change_code_spec)

lemma classify_changes_refines_witness:
  "0 \<le> (1/10::real) \<and> 2 < length [Fin (-1/2), Fin 0, Fin (1/2)] \<and> [Fin (-1/2), Fin 0, Fin (1/2)] ! 2 = Fin (1/2)
   \<and> (\<exists>changes. classify_changes \<lparr>nrows = 1, ncols = 3, vals = [Fin (-1/2), Fin 0, Fin (1/2)]\<rparr> (1/10) = Inr changes
        \<and> shape changes = (1, 3) \<and> vals changes ! 2 = 2)"
  using classify_changes_refines [of "1/10" 2 "\<lparr>nrows = 1, ncols = 3, vals = [Fin (-1/2), Fin 0, Fin (1/2)]\<rparr>" "1/2"]
  by (simp add: change_spec_def shape_def)

text \<open>
  The boundary is closed. A difference of exactly \<open>\<tau>\<close> or \<open>-\<tau>\<close> is classified as no
  change (code 3).
\<close>

lemma classify_changes_boundary:
  assumes "0 \<le> tau" and "classify_changes ndvi_diff tau = Inr changes"
    and "k < length (vals ndvi_diff)" and "vals ndvi_diff ! k = Fin tau \<or> vals ndvi_diff ! k = Fin (- tau)"
  shows "vals changes ! k = 3"
  using assms by (auto simp: classify_changes_eq change_code_def)

lemma classify_changes_boundary_witness:
  "0 \<le> (1/10::real) \<and> classify_changes \<lparr>nrows = 1, ncols = 2, vals = [Fin (1/10), Fin (-1/10)]\<rparr> (1/10) =
     Inr \<lparr>nrows = 1, ncols = 2, vals = [3, 3]\<rparr>
   \<and> 0 < length [Fin (1/10), Fin (-1/10::real)] \<and> [Fin (1/10), Fin (-1/10)] ! 0 = Fin (1/10)
   \<and> vals \<lparr>nrows = 1, ncols = 2, vals = [3, 3 :: 8 word]\<rparr> ! 0 = 3"
proof -
  have run: "classify_changes \<lparr>nrows = 1, ncols = 2, vals = [Fin (1/10), Fin (-1/10)]\<rparr> (1/10) =
     Inr \<lparr>nrows = 1, ncols = 2, vals = [3, 3]\<rparr>"
    by (simp add: classify_changes_eq change_code_def amap_def)
  have "vals \<lparr>nrows = 1, ncols = 2, vals = [3, 3 :: 8 word]\<rparr> ! 0 = 3"
    by (rule classify_changes_boundary [OF _ run]) simp_all
  with run show ?thesis by simp
qed

text \<open>
  With a non-negative threshold the change raster holds only the three class codes
  1, 2 and 3 on every pixel whose difference is a number (finite or infinite).
\<close>

lemma classify_changes_codes:
  assumes "0 \<le> tau" and "classify_changes ndvi_diff tau = Inr changes" and "NaN \<notin> set (vals ndvi_diff)"
  shows "set (vals changes) \<subseteq> {1, 2, 3}"
proof
  fix c assume "c \<in> set (vals changes)"
  with assms(2) obtain d where d: "d \<in> set (vals ndvi_diff)" and c: "c = change_code tau d"
    by (auto simp: classify_changes_eq)
  with assms(3) have "d \<noteq> NaN" by auto
  then show "c \<in> {1, 2, 3}"
    using assms(1) c by (cases d) (auto simp: change_code_def)
qed

lemma classify_changes_codes_witness:
  "0 \<le> (1/10::real) \<and> classify_changes \<lparr>nrows = 1, ncols = 3, vals = [Fin (-1), PInf, Fin 0]\<rparr> (1/10) =
     Inr \<lparr>nrows = 1, ncols = 3, vals = [1, 2, 3]\<rparr>
   \<and> NaN \<notin> set [Fin (-1), PInf, Fin 0] \<and> set [1, 2, 3 :: 8 word] \<subseteq> {1, 2, 3}"
proof -
  have run: "classify_changes \<lparr>nrows = 1, ncols = 3, vals = [Fin (-1), PInf, Fin 0]\<rparr> (1/10) =
     Inr \<lparr>nrows = 1, ncols = 3, vals = [1, 2, 3]\<rparr>"
    by (simp add: classify_changes_eq change_code_def amap_def fle_def)
  have "set (vals \<lparr>nrows = 1, ncols = 3, vals = [1, 2, 3 :: 8 word]\<rparr>) \<subseteq> {1, 2, 3}"
    by (rule classify_changes_codes [OF _ run]) simp_all
  with run show ?thesis by simp
qed

text \<open>
  C10: a NaN difference is left at 0, the raster's nodata value, by all three assignments:
  the change raster is not limited to the three classes the specification names.
\<close>

theorem classify_changes_nan:
  assumes "classify_changes ndvi_diff tau = Inr changes"
    and "k < length (vals ndvi_diff)" and "vals ndvi_diff ! k = NaN"
  shows "vals changes ! k = 0"
proof -
  from assms(1) have "changes = amap (change_code tau) ndvi_diff" by (simp add: classify_changes_eq)
  with assms(2,3) show ?thesis by (simp add: change_code_NaN)
qed

lemma classify_changes_nan_witness:
  "classify_changes \<lparr>nrows = 1, ncols = 2, vals = [NaN, Fin 1]\<rparr> (1/10) = Inr \<lparr>nrows = 1, ncols = 2, vals = [0, 2]\<rparr>
   \<and> 0 < length [NaN, Fin (1::real)] \<and> [NaN, Fin 1] ! 0 = NaN
   \<and> vals \<lparr>nrows = 1, ncols = 2, vals = [0, 2 :: 8 word]\<rparr> ! 0 = 0"
proof -
  have run: "classify_changes \<lparr>nrows = 1, ncols = 2, vals = [NaN, Fin 1]\<rparr> (1/10) =
     Inr \<lparr>nrows = 1, ncols = 2, vals = [0, 2]\<rparr>"
    by (simp add: classify_changes_eq change_code_def amap_def fle_def)
  have "vals \<lparr>nrows = 1, ncols = 2, vals = [0, 2 :: 8 word]\<rparr> ! 0 = 0"
    by (rule classify_changes_nan [OF run]) simp_all
  with run show ?thesis by simp
qed

text \<open>
  The threshold is not required to be non-negative, and for a negative one the order of
  the assignments decides. With \<open>\<tau> = -0.1\<close> a zero difference is below \<open>-\<tau>\<close>, which the
  specification's rule calls a decrease, but the later "increase" assignment overwrites it.
\<close>

lemma classify_changes_negative_threshold:
  "classify_changes \<lparr>nrows = 1, ncols = 1, vals = [Fin 0]\<rparr> (-1/10) = Inr \<lparr>nrows = 1, ncols = 1, vals = [2]\<rparr>
   \<and> change_spec (-1/10) 0 = Decrease"
  by (simp add: classify_changes_eq change_code_def change_spec_def amap_def)

subsection \<open>\<open>compare_classifications\<close>\<close>

lemma compare_classifications_Inr:
  assumes "compare_classifications st p q output_path = Inr (st', change_matrix)"
  obtains A prof B prof' mask where
    "read_band1 st p = Inr (A, prof)" "read_band1 st q = Inr (B, prof')"
    "broadcast2 fne A B = Inr mask" "bool_assign (zeros_like A) mask 1 = Inr change_matrix"
    "write_band1_u8 st output_path (uint8_profile prof) change_matrix = Inr st'"
  using assms by (auto simp: compare_classifications_def sbind_eq_Inr)

lemma compare_classifications_same_shape:
  assumes "nd_wf A" and "nd_wf B" and "shape B = shape A"
  shows "sbind (broadcast2 fne A B) (\<lambda>mask. bool_assign (zeros_like A) mask (1::8 word)) =
           Inr \<lparr>nrows = nrows A, ncols = ncols A,
                vals = map2 (\<lambda>a b. if fne a b then 1 else 0) (vals A) (vals B)\<rparr>"
  using assms
  by (simp add: broadcast2_same_shape bool_assign_same_shape shape_def zeros_like_def amap_def
      map2_map_map2)

text \<open>
  C12: on two label rasters of the same shape, \<open>compare_classifications\<close> returns the
  binary change matrix (1 where the labels differ, 0 where they agree) and stores it as a
  uint8 raster under the first raster's profile with nodata 0.
\<close>

theorem compare_classifications_result:
  assumes "store_wf st"
    and "read_band1 st class_2021_path = Inr (class_2021, profile)"
    and "read_band1 st class_2025_path = Inr (class_2025, profile_2025)"
    and "shape class_2025 = shape class_2021"
  shows "compare_classifications st class_2021_path class_2025_path output_path =
           Inr (st(output_path \<mapsto> band_file (uint8_profile profile)
                  (amap u8_to_fval \<lparr>nrows = nrows class_2021, ncols = ncols class_2021,
                     vals = map2 (\<lambda>a b. if fne a b then 1 else 0) (vals class_2021) (vals class_2025)\<rparr>)),
                \<lparr>nrows = nrows class_2021, ncols = ncols class_2021,
                 vals = map2 (\<lambda>a b. if fne a b then 1 else 0) (vals class_2021) (vals class_2025)\<rparr>)"
proof -
  note wf21 = store_wf_read [OF assms(1,2)] and wf25 = store_wf_read [OF assms(1,3)]
  have len: "length (map2 (\<lambda>a b. if fne a b then 1 else (0::8 word)) (vals class_2021) (vals class_2025))
               = nrows class_2021 * ncols class_2021"
    using wf21(1) wf25(1) assms(4) by (simp add: nd_wf_def shape_def)
  have "sbind (broadcast2 fne class_2021 class_2025) (\<lambda>mask. bool_assign (zeros_like class_2021) mask (1::8 word)) =
           Inr \<lparr>nrows = nrows class_2021, ncols = ncols class_2021,
                vals = map2 (\<lambda>a b. if fne a b then 1 else 0) (vals class_2021) (vals class_2025)\<rparr>"
    by (rule compare_classifications_same_shape [OF wf21(1) wf25(1) assms(4)])
  then show ?thesis
    using assms(2,3) wf21(2) len
    by (auto simp: compare_classifications_def sbind_eq_Inr write_band1_u8_def write_band1_def
        shape_def nd_wf_def)
qed

lemma compare_classifications_result_witness:
  "\<exists>st' change_matrix. compare_classifications
       [''classification_2021.tif'' \<mapsto> band_file (tile_profile 2 2) \<lparr>nrows = 2, ncols = 2, vals = [Fin 1, Fin 1, Fin 2, Fin 2]\<rparr>,
        ''classification_2025.tif'' \<mapsto> band_file (tile_profile 2 2) \<lparr>nrows = 2, ncols = 2, vals = [Fin 1, Fin 2, Fin 2, Fin 2]\<rparr>]
       ''classification_2021.tif'' ''classification_2025.tif'' ''classification_changes.tif''
     = Inr (st', change_matrix) \<and> vals change_matrix = [0, 1, 0, 0]"
proof -
  let ?A = "\<lparr>nrows = 2, ncols = 2, vals = [Fin 1, Fin 1, Fin 2, Fin 2]\<rparr> :: fval ndarray"
    and ?B = "\<lparr>nrows = 2, ncols = 2, vals = [Fin 1, Fin 2, Fin 2, Fin 2]\<rparr> :: fval ndarray"
  let ?st = "[''classification_2021.tif'' \<mapsto> band_file (tile_profile 2 2) ?A,
              ''classification_2025.tif'' \<mapsto> band_file (tile_profile 2 2) ?B]"
  have wf: "store_wf ?st"
    by (intro store_wf_upd store_wf_empty) (simp_all add: ds_wf_def nd_wf_def shape_def)
  have r21: "read_band1 ?st ''classification_2021.tif'' = Inr (?A, tile_profile 2 2)"
    and r25: "read_band1 ?st ''classification_2025.tif'' = Inr (?B, tile_profile 2 2)"
    by (simp_all add: read_band1_def)
  note run = compare_classifications_result [OF wf r21 r25, of "''classification_changes.tif''"]
  show ?thesis
    using run by (simp add: shape_def)
qed

text \<open>
  C13: the comparison is symmetric. Whenever both \<open>(A, B)\<close> and \<open>(B, A)\<close> succeed on a
  well-formed store, they return the same change matrix.
\<close>

theorem compare_classifications_symmetric:
  assumes "store_wf st"
    and "compare_classifications st p q output_path = Inr (st1, M1)"
    and "compare_classifications st q p output_path' = Inr (st2, M2)"
  shows "M1 = M2"
proof -
  from assms(2) obtain A prof B prof' mask1 where
    rA: "read_band1 st p = Inr (A, prof)" and rB: "read_band1 st q = Inr (B, prof')"
    and m1: "broadcast2 fne A B = Inr mask1" and a1: "bool_assign (zeros_like A) mask1 1 = Inr M1"
    by (rule compare_classifications_Inr)
  from assms(3) obtain B' profB A' profA mask2 where
    rB': "read_band1 st q = Inr (B', profB)" and rA': "read_band1 st p = Inr (A', profA)"
    and m2: "broadcast2 fne B' A' = Inr mask2" and a2: "bool_assign (zeros_like B') mask2 1 = Inr M2"
    by (rule compare_classifications_Inr)
  from rA rA' rB rB' have AB: "A' = A" "B' = B" by simp_all
  note wfA = store_wf_read(1) [OF assms(1) rA] and wfB = store_wf_read(1) [OF assms(1) rB]
  from m1 m2 AB have "nrows mask1 = nrows mask2 \<and> ncols mask1 = ncols mask2"
    by (auto dest!: broadcast2_shape simp: bdim_commute)
  moreover from a1 a2 AB have "shape mask1 = shape A" "shape mask2 = shape B"
    by (auto dest!: bool_assign_shape simp: zeros_like_def)
  ultimately have sh: "shape B = shape A" by (simp add: shape_def)
  have "Inr M1 = Inr \<lparr>nrows = nrows A, ncols = ncols A,
                vals = map2 (\<lambda>a b. if fne a b then 1 else 0) (vals A) (vals B)\<rparr>"
    using compare_classifications_same_shape [OF wfA wfB sh] m1 a1 by simp
  moreover have "Inr M2 = Inr \<lparr>nrows = nrows B, ncols = ncols B,
                vals = map2 (\<lambda>a b. if fne a b then 1 else 0) (vals B) (vals A)\<rparr>"
    using compare_classifications_same_shape [OF wfB wfA sh [symmetric]] m2 a2 AB by simp
  ultimately show ?thesis
    using sh by (simp add: shape_def map2_commute [of _ "vals B"] fne_sym)
qed

lemma compare_classifications_symmetric_witness:
  "store_wf [''a.tif'' \<mapsto> band_file (tile_profile 1 2) \<lparr>nrows = 1, ncols = 2, vals = [Fin 1, Fin 3]\<rparr>,
             ''b.tif'' \<mapsto> band_file (tile_profile 1 2) \<lparr>nrows = 1, ncols = 2, vals = [Fin 1, Fin 4]\<rparr>]
   \<and> (\<exists>st1 st2 M1 M2.
       compare_classifications [''a.tif'' \<mapsto> band_file (tile_profile 1 2) \<lparr>nrows = 1, ncols = 2, vals = [Fin 1, Fin 3]\<rparr>,
             ''b.tif'' \<mapsto> band_file (tile_profile 1 2) \<lparr>nrows = 1, ncols = 2, vals = [Fin 1, Fin 4]\<rparr>]
         ''a.tif'' ''b.tif'' ''ab.tif'' = Inr (st1, M1)
     \<and> compare_classifications [''a.tif'' \<mapsto> band_file (tile_profile 1 2) \<lparr>nrows = 1, ncols = 2, vals = [Fin 1, Fin 3]\<rparr>,
             ''b.tif'' \<mapsto> band_file (tile_profile 1 2) \<lparr>nrows = 1, ncols = 2, vals = [Fin 1, Fin 4]\<rparr>]
         ''b.tif'' ''a.tif'' ''ba.tif'' = Inr (st2, M2)
     \<and> M1 = M2)"
proof -
  let ?A = "\<lparr>nrows = 1, ncols = 2, vals = [Fin 1, Fin 3]\<rparr> :: fval ndarray"
    and ?B = "\<lparr>nrows = 1, ncols = 2, vals = [Fin 1, Fin 4]\<rparr> :: fval ndarray"
  let ?st = "[''a.tif'' \<mapsto> band_file (tile_profile 1 2) ?A, ''b.tif'' \<mapsto> band_file (tile_profile 1 2) ?B]"
  have wf: "store_wf ?st"
    by (intro store_wf_upd store_wf_empty) (simp_all add: ds_wf_def nd_wf_def shape_def)
  have "\<exists>st1 M1. compare_classifications ?st ''a.tif'' ''b.tif'' ''ab.tif'' = Inr (st1, M1)"
    and "\<exists>st2 M2. compare_classifications ?st ''b.tif'' ''a.tif'' ''ba.tif'' = Inr (st2, M2)"
    by (simp_all add: compare_classifications_def nd_simps fval_simps upt_rec)
  then obtain st1 M1 st2 M2 where
    r1: "compare_classifications ?st ''a.tif'' ''b.tif'' ''ab.tif'' = Inr (st1, M1)"
    and r2: "compare_classifications ?st ''b.tif'' ''a.tif'' ''ba.tif'' = Inr (st2, M2)"
    by blast
  have "M1 = M2" by (rule compare_classifications_symmetric [OF wf r1 r2])
  with wf r1 r2 show ?thesis by blast
qed

text \<open>
  C14: the two label rasters' shapes are not checked against each other. For any earlier
  raster of two or more rows and any later raster of one row with as many columns, the
  comparison succeeds: every row of the earlier raster is compared with the single later
  row, and the change matrix, of the earlier raster's shape, is written under its uint8
  profile. The same pair in the other order raises \<open>IndexError\<close> (the broadcast mask does
  not fit the one-row change matrix). The specification requires a shape-mismatch error
  both ways.
\<close>

theorem compare_classifications_broadcast_asymmetry:
  assumes "st p = Some DA" and "st q = Some DB" and "ds_wf DA"
    and "nrows (ds_band DB) = 1" and "ncols (ds_band DB) = ncols (ds_band DA)" and "1 < nrows (ds_band DA)"
  shows "compare_classifications st p q out =
           Inr (st(out \<mapsto> \<lparr>ds_profile = uint8_profile (ds_profile DA),
                          ds_band = amap u8_to_fval (tabulate (nrows (ds_band DA)) (ncols (ds_band DA))
                            (\<lambda>i j. if fne (nd_at (ds_band DA) i j) (nd_at (ds_band DB) 0 j) then 1 else 0))\<rparr>),
                tabulate (nrows (ds_band DA)) (ncols (ds_band DA))
                  (\<lambda>i j. if fne (nd_at (ds_band DA) i j) (nd_at (ds_band DB) 0 j) then 1 else 0))
         \<and> compare_classifications st q p out' = Inl IndexError"
proof
  have wf: "nd_wf (ds_band DA)" using assms(3) by (simp add: ds_wf_def)
  show "compare_classifications st p q out = Inr (st(out \<mapsto> \<lparr>ds_profile = uint8_profile (ds_profile DA),
                          ds_band = amap u8_to_fval (tabulate (nrows (ds_band DA)) (ncols (ds_band DA))
                            (\<lambda>i j. if fne (nd_at (ds_band DA) i j) (nd_at (ds_band DB) 0 j) then 1 else 0))\<rparr>),
                tabulate (nrows (ds_band DA)) (ncols (ds_band DA))
                  (\<lambda>i j. if fne (nd_at (ds_band DA) i j) (nd_at (ds_band DB) 0 j) then 1 else 0))"
  proof -
    let ?T = "tabulate (nrows (ds_band DA)) (ncols (ds_band DA))
                (\<lambda>i j. fne (nd_at (ds_band DA) i j) (nd_at (ds_band DB) 0 j))"
    let ?M = "tabulate (nrows (ds_band DA)) (ncols (ds_band DA))
                (\<lambda>i j. if fne (nd_at (ds_band DA) i j) (nd_at (ds_band DB) 0 j) then 1 else (0::8 word))"
    have b: "broadcast2 fne (ds_band DA) (ds_band DB) = Inr ?T" by (rule broadcast2_row_right [OF assms(4,5)])
    have c: "bool_assign (zeros_like (ds_band DA)) ?T 1 = Inr ?M" by (rule bool_assign_zeros_tabulate [OF wf])
    have w: "write_band1_u8 st out (uint8_profile (ds_profile DA)) ?M =
               Inr (st(out \<mapsto> \<lparr>ds_profile = uint8_profile (ds_profile DA), ds_band = amap u8_to_fval ?M\<rparr>))"
      using assms(3) by (simp add: write_band1_u8_def write_band1_def ds_wf_def shape_def)
    show ?thesis using assms(1,2) b c w by (simp add: compare_classifications_def read_band1_def)
  qed
next
  have "broadcast2 fne (ds_band DB) (ds_band DA) =
          Inr (tabulate (nrows (ds_band DA)) (ncols (ds_band DA))
                 (\<lambda>i j. fne (nd_at (ds_band DB) 0 j) (nd_at (ds_band DA) i j)))"
    by (rule broadcast2_row [OF assms(4,5)])
  then show "compare_classifications st q p out' = Inl IndexError"
    using assms(1,2,4,6)
    by (simp add: compare_classifications_def read_band1_def bool_assign_def zeros_like_def amap_def shape_def)
qed

lemma compare_classifications_broadcast_asymmetry_witness:
  "compare_classifications
       [''a.tif'' \<mapsto> band_file (tile_profile 2 2) \<lparr>nrows = 2, ncols = 2, vals = [Fin 1, Fin 1, Fin 2, Fin 2]\<rparr>,
        ''b.tif'' \<mapsto> band_file (tile_profile 1 2) \<lparr>nrows = 1, ncols = 2, vals = [Fin 1, Fin 2]\<rparr>]
       ''a.tif'' ''b.tif'' ''ab.tif'' =
     Inr ([''a.tif'' \<mapsto> band_file (tile_profile 2 2) \<lparr>nrows = 2, ncols = 2, vals = [Fin 1, Fin 1, Fin 2, Fin 2]\<rparr>,
           ''b.tif'' \<mapsto> band_file (tile_profile 1 2) \<lparr>nrows = 1, ncols = 2, vals = [Fin 1, Fin 2]\<rparr>,
           ''ab.tif'' \<mapsto> band_file (uint8_profile (tile_profile 2 2))
              \<lparr>nrows = 2, ncols = 2, vals = [Fin 0, Fin 1, Fin 1, Fin 0]\<rparr>],
          \<lparr>nrows = 2, ncols = 2, vals = [0, 1, 1, 0]\<rparr>)
   \<and> compare_classifications
       [''a.tif'' \<mapsto> band_file (tile_profile 2 2) \<lparr>nrows = 2, ncols = 2, vals = [Fin 1, Fin 1, Fin 2, Fin 2]\<rparr>,
        ''b.tif'' \<mapsto> band_file (tile_profile 1 2) \<lparr>nrows = 1, ncols = 2, vals = [Fin 1, Fin 2]\<rparr>]
       ''b.tif'' ''a.tif'' ''ba.tif'' = Inl IndexError"
proof -
  have M: "tabulate 2 2 (\<lambda>i j. if fne (nd_at \<lparr>nrows = 2, ncols = 2, vals = [Fin 1, Fin 1, Fin 2, Fin (2::real)]\<rparr> i j)
                                   (nd_at \<lparr>nrows = 1, ncols = 2, vals = [Fin 1, Fin 2]\<rparr> 0 j) then 1 else 0)
        = \<lparr>nrows = 2, ncols = 2, vals = [0, 1, 1, 0 :: 8 word]\<rparr>"
    by (simp add: tabulate_def nd_at_def upt_rec fval_simps)
  have "amap u8_to_fval \<lparr>nrows = 2, ncols = 2, vals = [0, 1, 1, 0 :: 8 word]\<rparr> =
          \<lparr>nrows = 2, ncols = 2, vals = [Fin 0, Fin 1, Fin 1, Fin 0]\<rparr>"
    by (simp add: amap_def u8_to_fval_def)
  with M compare_classifications_broadcast_asymmetry [of
      "[''a.tif'' \<mapsto> band_file (tile_profile 2 2) \<lparr>nrows = 2, ncols = 2, vals = [Fin 1, Fin 1, Fin 2, Fin 2]\<rparr>,
        ''b.tif'' \<mapsto> band_file (tile_profile 1 2) \<lparr>nrows = 1, ncols = 2, vals = [Fin 1, Fin 2]\<rparr>]"
      "''a.tif''" _ "''b.tif''"]
  show ?thesis by (simp add: ds_wf_def nd_wf_def shape_def)
qed

subsection \<open>The store invariant\<close>

text \<open>Every write goes through \<open>write_band1\<close>, which refuses a band of the wrong shape, so
  \<open>store_wf\<close> holds after each function of this part whenever it held before.\<close>

lemma calculate_ndvi_difference_store_wf:
  "calculate_ndvi_difference st a b p = Inr (st', x) \<Longrightarrow> store_wf st \<Longrightarrow> store_wf st'"
  by (auto simp: calculate_ndvi_difference_def sbind_eq_Inr split: prod.splits intro: store_wf_writes)

lemma compare_classifications_store_wf:
  "compare_classifications st a b p = Inr (st', x) \<Longrightarrow> store_wf st \<Longrightarrow> store_wf st'"
  by (auto simp: compare_classifications_def sbind_eq_Inr split: prod.splits intro: store_wf_writes)

end
