(* ===== verification/Resample.thy ===== *)
theory Resample
  imports Raster_IO
begin

text \<open>
  Band alignment: \<open>resample_to_match(src_path, match_path)\<close> of
  \<open>src/urban_extraction.py\<close> (lines 22--33) reads the whole source band with
  \<open>out_shape=(src.count, match.height, match.width)\<close> and bilinear resampling, and returns
  band 0. The kernel is GDAL's, modelled from its documented behaviour: output pixel
  \<open>(i, j)\<close> samples the source at its centre, \<open>y = (i + 1/2) * H_src / H_dst - 1/2\<close> (and
  likewise \<open>x\<close>), interpolating the four neighbouring source pixels, with indices past an
  edge clamped to the edge. \<open>src_coord\<close> computes the integer part and the fraction exactly
  in integer arithmetic. For an integer band (uint8, uint16) GDAL rounds the interpolated
  value to the nearest integer; a float32 band keeps it. A source of zero extent is refused.
  The coordinate reference system is not looked at, as in the code.
\<close>

definition src_coord :: "nat \<Rightarrow> nat \<Rightarrow> nat \<Rightarrow> int \<times> real" where
  "src_coord i n_src n_dst =
     (let num = (2 * int i + 1) * int n_src - int n_dst; den = 2 * int n_dst
      in (num div den, real_of_int (num mod den) / real_of_int den))"

definition clamp_idx :: "int \<Rightarrow> nat \<Rightarrow> nat" where
  "clamp_idx k n = nat (max 0 (min k (int n - 1)))"

definition lerp :: "fval \<Rightarrow> fval \<Rightarrow> real \<Rightarrow> fval" where
  "lerp a b t = fadd (fmul (Fin (1 - t)) a) (fmul (Fin t) b)"

definition bilinear_px :: "fval ndarray \<Rightarrow> nat \<Rightarrow> nat \<Rightarrow> nat \<Rightarrow> nat \<Rightarrow> fval" where
  "bilinear_px S h w i j =
     (let (y0, fy) = src_coord i (nrows S) h; (x0, fx) = src_coord j (ncols S) w;
          r0 = clamp_idx y0 (nrows S); r1 = clamp_idx (y0 + 1) (nrows S);
          c0 = clamp_idx x0 (ncols S); c1 = clamp_idx (x0 + 1) (ncols S)
      in lerp (lerp (nd_at S r0 c0) (nd_at S r0 c1) fx) (lerp (nd_at S r1 c0) (nd_at S r1 c1) fx) fy)"

fun round_to_dtype :: "dtype \<Rightarrow> fval \<Rightarrow> fval" where
  "round_to_dtype DT_float32 v = v"
| "round_to_dtype _ (Fin a) = Fin (of_int \<lfloor>a + 1/2\<rfloor>)"
| "round_to_dtype _ v = v"

definition bilinear_read :: "dtype \<Rightarrow> fval ndarray \<Rightarrow> nat \<Rightarrow> nat \<Rightarrow> py_error + fval ndarray" where
  "bilinear_read dt S h w =
     (if nrows S = 0 \<or> ncols S = 0 then Inl ValueError
      else Inr (tabulate h w (\<lambda>i j. round_to_dtype dt (bilinear_px S h w i j))))"

definition resample_to_match :: "store \<Rightarrow> path \<Rightarrow> path \<Rightarrow> py_error + fval ndarray" where
  "resample_to_match st src_path match_path =
     (case st src_path of
        None \<Rightarrow> Inl RasterioIOError
      | Some src \<Rightarrow>
          (case st match_path of
             None \<Rightarrow> Inl RasterioIOError
           | Some match \<Rightarrow>
               bilinear_read (p_dtype (ds_profile src)) (ds_band src)
                 (p_height (ds_profile match)) (p_width (ds_profile match))))"

text \<open>A value its band's dtype holds exactly: finite, and integral for an integer dtype.\<close>

definition dtype_exact :: "dtype \<Rightarrow> fval \<Rightarrow> bool" where
  "dtype_exact dt x = (case x of Fin a \<Rightarrow> dt = DT_float32 \<or> of_int \<lfloor>a\<rfloor> = a | _ \<Rightarrow> False)"

declare src_coord_def [nd_simps] clamp_idx_def [nd_simps] lerp_def [fval_simps]
  bilinear_px_def [nd_simps] bilinear_read_def [nd_simps] resample_to_match_def [nd_simps]
  dtype_exact_def [fval_simps]

subsection \<open>The kernel\<close>

lemma src_coord_frac:
  assumes "0 < n_dst"
  shows "0 \<le> snd (src_coord i n_src n_dst)" and "snd (src_coord i n_src n_dst) < 1"
proof -
  let ?num = "(2 * int i + 1) * int n_src - int n_dst" and ?den = "2 * int n_dst"
  from assms have den: "0 < ?den" by simp
  then have "0 \<le> ?num mod ?den" "?num mod ?den < ?den" by simp_all
  then have "0 \<le> real_of_int (?num mod ?den)" "real_of_int (?num mod ?den) < real_of_int ?den"
    by linarith+
  with den show "0 \<le> snd (src_coord i n_src n_dst)" and "snd (src_coord i n_src n_dst) < 1"
    by (simp_all add: src_coord_def Let_def)
qed

lemma src_coord_same: "0 < n \<Longrightarrow> src_coord i n n = (int i, 0)"
proof -
  assume "0 < n"
  have "(2 * int i + 1) * int n - int n = int i * (2 * int n)" by (simp add: algebra_simps)
  with \<open>0 < n\<close> show ?thesis by (simp add: src_coord_def Let_def)
qed

lemma clamp_idx_less: "0 < n \<Longrightarrow> clamp_idx k n < n"
  by (simp add: clamp_idx_def)

lemma clamp_idx_id [simp]: "i < n \<Longrightarrow> clamp_idx (int i) n = i"
  by (simp add: clamp_idx_def)

lemma lerp_Fin [simp]: "lerp (Fin a) (Fin b) t = Fin ((1 - t) * a + t * b)"
  by (simp add: lerp_def)

lemma convex_bounds:
  fixes a b t lo hi :: real
  assumes "lo \<le> a" "a \<le> hi" "lo \<le> b" "b \<le> hi" "0 \<le> t" "t \<le> 1"
  shows "lo \<le> (1 - t) * a + t * b" and "(1 - t) * a + t * b \<le> hi"
proof -
  have "(1 - t) * lo + t * lo \<le> (1 - t) * a + t * b"
    using assms by (intro add_mono mult_left_mono) simp_all
  then show "lo \<le> (1 - t) * a + t * b" by (simp add: algebra_simps)
  have "(1 - t) * a + t * b \<le> (1 - t) * hi + t * hi"
    using assms by (intro add_mono mult_left_mono) simp_all
  then show "(1 - t) * a + t * b \<le> hi" by (simp add: algebra_simps)
qed

lemma nd_at_in_set: "nd_wf S \<Longrightarrow> r < nrows S \<Longrightarrow> c < ncols S \<Longrightarrow> nd_at S r c \<in> set (vals S)"
  by (simp add: nd_at_def nd_wf_def index_lt_mult)

text \<open>
  Every output pixel is a convex combination of four source pixels, so any interval of
  reals holding every source value holds the interpolated value.
\<close>

lemma bilinear_px_within:
  assumes "nd_wf S" "0 < nrows S" "0 < ncols S" "0 < h" "0 < w"
    and "\<And>x. x \<in> set (vals S) \<Longrightarrow> \<exists>a. x = Fin a \<and> lo \<le> a \<and> a \<le> hi"
  shows "\<exists>v. bilinear_px S h w i j = Fin v \<and> lo \<le> v \<and> v \<le> hi"
proof -
  obtain y0 fy where y: "src_coord i (nrows S) h = (y0, fy)" by (cases "src_coord i (nrows S) h")
  obtain x0 fx where x: "src_coord j (ncols S) w = (x0, fx)" by (cases "src_coord j (ncols S) w")
  have fy: "0 \<le> fy" "fy \<le> 1" using src_coord_frac [OF assms(4), of i "nrows S"] y by simp_all
  have fx: "0 \<le> fx" "fx \<le> 1" using src_coord_frac [OF assms(5), of j "ncols S"] x by simp_all
  have pix: "\<exists>a. nd_at S (clamp_idx r (nrows S)) (clamp_idx c (ncols S)) = Fin a \<and> lo \<le> a \<and> a \<le> hi"
    for r c
    using assms(6) [OF nd_at_in_set [OF assms(1) clamp_idx_less [OF assms(2)] clamp_idx_less [OF assms(3)]]] .
  obtain a00 a01 a10 a11 where
    "nd_at S (clamp_idx y0 (nrows S)) (clamp_idx x0 (ncols S)) = Fin a00" "lo \<le> a00" "a00 \<le> hi"
    "nd_at S (clamp_idx y0 (nrows S)) (clamp_idx (x0 + 1) (ncols S)) = Fin a01" "lo \<le> a01" "a01 \<le> hi"
    "nd_at S (clamp_idx (y0 + 1) (nrows S)) (clamp_idx x0 (ncols S)) = Fin a10" "lo \<le> a10" "a10 \<le> hi"
    "nd_at S (clamp_idx (y0 + 1) (nrows S)) (clamp_idx (x0 + 1) (ncols S)) = Fin a11" "lo \<le> a11" "a11 \<le> hi"
    using pix by metis
  moreover note row0 = convex_bounds [of lo a00 hi a01 fx] and row1 = convex_bounds [of lo a10 hi a11 fx]
  ultimately show ?thesis
    using y x fx fy convex_bounds [of lo "(1 - fx) * a00 + fx * a01" hi "(1 - fx) * a10 + fx * a11" fy]
    by (simp add: bilinear_px_def)
qed

lemma round_to_dtype_within:
  assumes "of_int l \<le> v" "v \<le> of_int u"
  shows "\<exists>v'. round_to_dtype dt (Fin v) = Fin v' \<and> of_int l \<le> v' \<and> v' \<le> (of_int u :: real)"
proof (cases dt)
  case DT_float32
  with assms show ?thesis by simp
next
  case DT_uint8
  from assms have "l \<le> \<lfloor>v + 1/2\<rfloor>" "\<lfloor>v + 1/2\<rfloor> \<le> u" by linarith+
  with DT_uint8 show ?thesis by simp
next
  case DT_uint16
  from assms have "l \<le> \<lfloor>v + 1/2\<rfloor>" "\<lfloor>v + 1/2\<rfloor> \<le> u" by linarith+
  with DT_uint16 show ?thesis by simp
qed

lemma dtype_exact_finite: "dtype_exact dt x \<Longrightarrow> is_finite x"
  by (cases x) (simp_all add: dtype_exact_def)

lemma floor_half_integral:
  assumes "of_int \<lfloor>a\<rfloor> = a"
  shows "\<lfloor>a + 1/2\<rfloor> = \<lfloor>a::real\<rfloor>"
proof -
  have "of_int \<lfloor>a\<rfloor> \<le> a + 1/2" and "a + 1/2 < of_int \<lfloor>a\<rfloor> + 1"
    using assms by linarith+
  then show ?thesis by (rule floor_eq_iff [THEN iffD2, OF conjI])
qed

lemma round_to_dtype_exact: "dtype_exact dt (Fin a) \<Longrightarrow> round_to_dtype dt (Fin a) = Fin a"
  by (cases dt) (simp_all add: dtype_exact_def floor_half_integral)

lemma bilinear_px_same_shape:
  assumes "nd_wf S" "i < nrows S" "j < ncols S" and fin: "list_all is_finite (vals S)"
  shows "bilinear_px S (nrows S) (ncols S) i j = nd_at S i j"
proof -
  have r: "0 < nrows S" and c: "0 < ncols S" using assms(2,3) by simp_all
  have pix: "\<exists>a. nd_at S (clamp_idx y (nrows S)) (clamp_idx x (ncols S)) = Fin a" for y x
    using fin nd_at_in_set [OF assms(1) clamp_idx_less [OF r] clamp_idx_less [OF c]]
    by (auto simp: list_all_iff is_finite_iff)
  obtain a b where "nd_at S (clamp_idx (int i + 1) (nrows S)) (clamp_idx (int j) (ncols S)) = Fin a"
    and "nd_at S (clamp_idx (int i + 1) (nrows S)) (clamp_idx (int j + 1) (ncols S)) = Fin b"
    using pix by metis
  moreover obtain d e where "nd_at S i j = Fin d"
    and "nd_at S (clamp_idx (int i) (nrows S)) (clamp_idx (int j + 1) (ncols S)) = Fin e"
    using pix [of "int i" "int j"] pix [of "int i" "int j + 1"] assms(2,3) by auto
  ultimately show ?thesis
    using assms(2,3) by (simp add: bilinear_px_def src_coord_same r c)
qed

lemma tabulate_nd_at: "nd_wf S \<Longrightarrow> tabulate (nrows S) (ncols S) (nd_at S) = S"
  by (cases S) (simp add: tabulate_def nd_wf_def nd_at_def map_upt_nth_eq)

lemma bilinear_read_Inr:
  "bilinear_read dt S h w = Inr A \<Longrightarrow> shape A = (h, w) \<and> nd_wf A"
  by (auto simp: bilinear_read_def shape_def split: if_splits)

subsection \<open>\<open>resample_to_match\<close>\<close>

lemma resample_to_match_Inr:
  assumes "resample_to_match st src_path match_path = Inr A"
  obtains src match where "st src_path = Some src" "st match_path = Some match"
    "bilinear_read (p_dtype (ds_profile src)) (ds_band src) (p_height (ds_profile match)) (p_width (ds_profile match)) = Inr A"
  using assms by (auto simp: resample_to_match_def split: option.splits)

lemma resample_to_match_values:
  assumes "resample_to_match st src_path match_path = Inr A" and "st src_path = Some src"
    and "store_wf st" and "list_all (in_range (of_int l) (of_int u)) (vals (ds_band src))"
  shows "list_all (in_range (of_int l) (of_int u)) (vals A)"
proof -
  from assms(1) obtain src' match where "st src_path = Some src'" "st match_path = Some match"
    and rd: "bilinear_read (p_dtype (ds_profile src')) (ds_band src') (p_height (ds_profile match))
               (p_width (ds_profile match)) = Inr A"
    by (rule resample_to_match_Inr)
  with assms(2) have rd: "bilinear_read (p_dtype (ds_profile src)) (ds_band src) (p_height (ds_profile match))
               (p_width (ds_profile match)) = Inr A" by simp
  let ?S = "ds_band src" and ?h = "p_height (ds_profile match)" and ?w = "p_width (ds_profile match)"
  have wf: "nd_wf ?S" using store_wf_read(1) [OF assms(3), of src_path] assms(2) by (simp add: read_band1_def)
  from rd have ext: "0 < nrows ?S" "0 < ncols ?S" and A: "A = tabulate ?h ?w
      (\<lambda>i j. round_to_dtype (p_dtype (ds_profile src)) (bilinear_px ?S ?h ?w i j))"
    by (auto simp: bilinear_read_def split: if_splits)
  have vals: "\<And>x. x \<in> set (vals ?S) \<Longrightarrow> \<exists>a. x = Fin a \<and> of_int l \<le> a \<and> a \<le> of_int u"
    using assms(4) by (auto simp: list_all_iff in_range_iff)
  show ?thesis
  proof (unfold list_all_iff, rule ballI)
    fix x assume "x \<in> set (vals A)"
    then obtain i j where "i < ?h" "j < ?w"
      and x: "x = round_to_dtype (p_dtype (ds_profile src)) (bilinear_px ?S ?h ?w i j)"
      using A by (auto simp: set_vals_tabulate)
    then have "0 < ?h" "0 < ?w" by simp_all
    then obtain v where "bilinear_px ?S ?h ?w i j = Fin v" "of_int l \<le> v" "v \<le> of_int u"
      using bilinear_px_within [OF wf ext _ _ vals] by blast
    with x show "in_range (of_int l) (of_int u) x"
      using round_to_dtype_within by (fastforce simp: in_range_iff)
  qed
qed

text \<open>
  C15: the aligned band has the reference band's shape (its profile's height and width),
  whatever the source's shape.
\<close>

theorem resample_to_match_shape:
  assumes "resample_to_match st src_path match_path = Inr A"
  shows "\<exists>match. st match_path = Some match \<and>
           shape A = (p_height (ds_profile match), p_width (ds_profile match)) \<and> nd_wf A"
  using assms by (auto elim!: resample_to_match_Inr dest: bilinear_read_Inr)

lemma resample_to_match_shape_witness:
  "\<exists>A. resample_to_match [''B11.tif'' \<mapsto> band_file (tile_profile 1 1) \<lparr>nrows = 1, ncols = 1, vals = [Fin 7]\<rparr>,
          ''B8.tif'' \<mapsto> band_file (tile_profile 2 2) (full 2 2 (Fin 1))] ''B11.tif'' ''B8.tif'' = Inr A
     \<and> shape A = (2, 2)"
proof -
  let ?st = "[''B11.tif'' \<mapsto> band_file (tile_profile 1 1) \<lparr>nrows = 1, ncols = 1, vals = [Fin 7]\<rparr>,
          ''B8.tif'' \<mapsto> band_file (tile_profile 2 2) (full 2 2 (Fin 1))]"
  have "\<exists>A. resample_to_match ?st ''B11.tif'' ''B8.tif'' = Inr A"
    by (simp add: resample_to_match_def bilinear_read_def)
  then obtain A where run: "resample_to_match ?st ''B11.tif'' ''B8.tif'' = Inr A" by blast
  from resample_to_match_shape [OF run] have "shape A = (2, 2)" by simp
  with run show ?thesis by blast
qed

text \<open>
  C16: aligning a band that already has the reference's shape returns it unchanged
  (specification section 8: idempotence), for a band of exact values of its dtype.
\<close>

theorem resample_to_match_identity:
  assumes "store_wf st" and "st src_path = Some src" and "st match_path = Some match"
    and "p_height (ds_profile match) = p_height (ds_profile src)"
    and "p_width (ds_profile match) = p_width (ds_profile src)"
    and "0 < p_height (ds_profile src)" and "0 < p_width (ds_profile src)"
    and "list_all (dtype_exact (p_dtype (ds_profile src))) (vals (ds_band src))"
  shows "resample_to_match st src_path match_path = Inr (ds_band src)"
proof -
  let ?S = "ds_band src" and ?dt = "p_dtype (ds_profile src)"
  have wf: "nd_wf ?S" and sh: "shape ?S = (p_height (ds_profile src), p_width (ds_profile src))"
    using store_wf_read [OF assms(1), of src_path] assms(2) by (simp_all add: read_band1_def)
  have fin: "list_all is_finite (vals ?S)"
    using assms(8) by (auto simp: list_all_iff dtype_exact_finite)
  have px: "round_to_dtype ?dt (bilinear_px ?S (nrows ?S) (ncols ?S) i j) = nd_at ?S i j"
    if "i < nrows ?S" "j < ncols ?S" for i j
  proof -
    have "nd_at ?S i j \<in> set (vals ?S)" by (rule nd_at_in_set [OF wf that])
    with assms(8) have ex: "dtype_exact ?dt (nd_at ?S i j)" by (simp add: list_all_iff)
    then obtain a where "nd_at ?S i j = Fin a"
      by (auto dest: dtype_exact_finite elim: is_finite_cases)
    with ex show ?thesis
      using bilinear_px_same_shape [OF wf that fin] by (simp add: round_to_dtype_exact)
  qed
  have "tabulate (nrows ?S) (ncols ?S) (\<lambda>i j. round_to_dtype ?dt (bilinear_px ?S (nrows ?S) (ncols ?S) i j))
        = tabulate (nrows ?S) (ncols ?S) (nd_at ?S)"
  proof -
    have "round_to_dtype ?dt (bilinear_px ?S (nrows ?S) (ncols ?S) (k div ncols ?S) (k mod ncols ?S))
          = nd_at ?S (k div ncols ?S) (k mod ncols ?S)" if "k < nrows ?S * ncols ?S" for k
      using px row_major_bounds [OF that] by blast
    then show ?thesis by (simp add: tabulate_def)
  qed
  also have "\<dots> = ?S" by (rule tabulate_nd_at [OF wf])
  finally show ?thesis
    using assms(2-7) sh by (simp add: resample_to_match_def bilinear_read_def shape_def)
qed

lemma resample_to_match_identity_witness:
  "resample_to_match [''B11.tif'' \<mapsto> band_file (tile_profile 1 2) \<lparr>nrows = 1, ncols = 2, vals = [Fin 3, Fin 8]\<rparr>,
      ''B8.tif'' \<mapsto> band_file (tile_profile 1 2) \<lparr>nrows = 1, ncols = 2, vals = [Fin 1, Fin 1]\<rparr>]
      ''B11.tif'' ''B8.tif'' = Inr \<lparr>nrows = 1, ncols = 2, vals = [Fin 3, Fin 8]\<rparr>"
proof -
  let ?S = "\<lparr>nrows = 1, ncols = 2, vals = [Fin 3, Fin 8]\<rparr> :: fval ndarray"
    and ?M = "\<lparr>nrows = 1, ncols = 2, vals = [Fin 1, Fin 1]\<rparr> :: fval ndarray"
  let ?st = "[''B11.tif'' \<mapsto> band_file (tile_profile 1 2) ?S, ''B8.tif'' \<mapsto> band_file (tile_profile 1 2) ?M]"
  have wf: "store_wf ?st"
    by (intro store_wf_upd store_wf_empty) (simp_all add: ds_wf_def nd_wf_def shape_def)
  have "resample_to_match ?st ''B11.tif'' ''B8.tif'' = Inr (ds_band (band_file (tile_profile 1 2) ?S))"
    by (rule resample_to_match_identity [OF wf, where src = "band_file (tile_profile 1 2) ?S"
          and match = "band_file (tile_profile 1 2) ?M"]) (simp_all add: dtype_exact_def)
  then show ?thesis by simp
qed

text \<open>
  A constant band stays constant at any reference shape (specification section 8,
  scenario 2: a 20 \<times> 20 band of 5 aligned to a 10 \<times> 10 reference is a 10 \<times> 10 band of 5).
\<close>

lemma resample_to_match_constant:
  assumes "store_wf st" and "st src_path = Some src" and "st match_path = Some match"
    and "0 < nrows (ds_band src)" and "0 < ncols (ds_band src)"
    and "list_all (\<lambda>x. x = Fin c) (vals (ds_band src))" and "dtype_exact (p_dtype (ds_profile src)) (Fin c)"
  shows "resample_to_match st src_path match_path =
           Inr (full (p_height (ds_profile match)) (p_width (ds_profile match)) (Fin c))"
proof -
  let ?S = "ds_band src" and ?dt = "p_dtype (ds_profile src)"
    and ?h = "p_height (ds_profile match)" and ?w = "p_width (ds_profile match)"
  have wf: "nd_wf ?S" using store_wf_read(1) [OF assms(1), of src_path] assms(2) by (simp add: read_band1_def)
  have vals: "\<And>x. x \<in> set (vals ?S) \<Longrightarrow> \<exists>a. x = Fin a \<and> c \<le> a \<and> a \<le> c"
    using assms(6) by (auto simp: list_all_iff)
  have "round_to_dtype ?dt (bilinear_px ?S ?h ?w i j) = Fin c" if "i < ?h" "j < ?w" for i j
  proof -
    from that have "0 < ?h" "0 < ?w" by simp_all
    from bilinear_px_within [OF wf assms(4,5) this vals] have "bilinear_px ?S ?h ?w i j = Fin c"
      by force
    then show ?thesis using assms(7) by (simp add: round_to_dtype_exact)
  qed
  then have "tabulate ?h ?w (\<lambda>i j. round_to_dtype ?dt (bilinear_px ?S ?h ?w i j)) = full ?h ?w (Fin c)"
    by (rule tabulate_const)
  then show ?thesis
    using assms(2-5) by (simp add: resample_to_match_def bilinear_read_def)
qed

lemma resample_to_match_constant_witness:
  "resample_to_match [''B11.tif'' \<mapsto> band_file (tile_profile 20 20) (full 20 20 (Fin 5)),
      ''B8.tif'' \<mapsto> band_file (tile_profile 10 10) (full 10 10 (Fin 1))] ''B11.tif'' ''B8.tif''
   = Inr (full 10 10 (Fin 5))"
proof -
  let ?st = "[''B11.tif'' \<mapsto> band_file (tile_profile 20 20) (full 20 20 (Fin 5)),
      ''B8.tif'' \<mapsto> band_file (tile_profile 10 10) (full 10 10 (Fin 1))]"
  have wf: "store_wf ?st"
    by (intro store_wf_upd store_wf_empty) (simp_all add: ds_wf_def nd_wf_def shape_def full_def)
  have "resample_to_match ?st ''B11.tif'' ''B8.tif'' =
          Inr (full (p_height (ds_profile (band_file (tile_profile 10 10) (full 10 10 (Fin 1)))))
                    (p_width (ds_profile (band_file (tile_profile 10 10) (full 10 10 (Fin 1))))) (Fin 5))"
    by (rule resample_to_match_constant [OF wf, where src = "band_file (tile_profile 20 20) (full 20 20 (Fin 5))"
          and match = "band_file (tile_profile 10 10) (full 10 10 (Fin 1))"])
       (simp_all add: full_def dtype_exact_def list_all_iff)
  then show ?thesis by simp
qed

text \<open>
  C35: alignment creates no new values: in a well-formed store, if every value of the
  source band lies in an interval with integer ends, so does every value of the band
  \<open>resample_to_match\<close> returns (bilinear weights form a convex combination and the rounding
  to the integer dtype stays between the ends), so a non-negative reflectance band stays
  non-negative and a uint16 band stays within 0--65535.
\<close>

theorem resample_to_match_bounds:
  assumes "store_wf st" and "st src_path = Some src"
    and "list_all (in_range (of_int l) (of_int u)) (vals (ds_band src))"
    and "resample_to_match st src_path match_path = Inr A"
  shows "list_all (in_range (of_int l) (of_int u)) (vals A)"
  by (rule resample_to_match_values [OF assms(4,2,1,3)])

lemma resample_to_match_bounds_witness:
  "\<exists>A. resample_to_match [''B11.tif'' \<mapsto> band_file (tile_profile 1 2) \<lparr>nrows = 1, ncols = 2, vals = [Fin 0, Fin 100]\<rparr>,
          ''B8.tif'' \<mapsto> band_file (tile_profile 1 4) (full 1 4 (Fin 1))] ''B11.tif'' ''B8.tif'' = Inr A
     \<and> list_all (in_range 0 100) (vals A)"
proof -
  let ?S = "\<lparr>nrows = 1, ncols = 2, vals = [Fin 0, Fin 100]\<rparr> :: fval ndarray"
  let ?st = "[''B11.tif'' \<mapsto> band_file (tile_profile 1 2) ?S, ''B8.tif'' \<mapsto> band_file (tile_profile 1 4) (full 1 4 (Fin 1))]"
  have wf: "store_wf ?st"
    by (intro store_wf_upd store_wf_empty) (simp_all add: ds_wf_def nd_wf_def shape_def full_def)
  have "\<exists>A. resample_to_match ?st ''B11.tif'' ''B8.tif'' = Inr A"
    by (simp add: resample_to_match_def bilinear_read_def)
  then obtain A where run: "resample_to_match ?st ''B11.tif'' ''B8.tif'' = Inr A" by blast
  have "list_all (in_range (of_int 0) (of_int 100)) (vals A)"
    by (rule resample_to_match_bounds [OF wf _ _ run, where src = "band_file (tile_profile 1 2) ?S"])
       (simp_all add: in_range_def)
  with run show ?thesis by auto
qed

end
