(* ===== verification/Statistics.thy ===== *)
theory Statistics
  imports Raster_IO "HOL-Library.Multiset"
begin

text \<open>
  The statistics the scripts print about a label raster: \<open>np.unique(a, return_counts=True)\<close>
  and the per-class table built from it (count, percentage of all pixels, area). numpy
  computes \<open>np.unique\<close> by sorting the flattened array and cutting it into runs of equal
  values; \<open>runs\<close> is that cut and \<open>np_unique_counts\<close> the composition. The lemmas show it
  equal to the reference "each distinct value, in increasing order, with the number of its
  occurrences". A percentage is numpy's \<open>count / total * 100\<close> on scalars, so an empty raster
  gives \<open>0 / 0 = NaN\<close>.
\<close>

fun runs :: "'a list \<Rightarrow> ('a \<times> nat) list" where
  "runs [] = []"
| "runs (x # xs) =
     (case runs xs of
        [] \<Rightarrow> [(x, 1)]
      | (y, n) # rs \<Rightarrow> if x = y then (y, Suc n) # rs else (x, 1) # (y, n) # rs)"

definition np_unique_counts :: "'a::linorder list \<Rightarrow> ('a \<times> nat) list" where
  "np_unique_counts xs = runs (sort xs)"

definition percentage :: "nat \<Rightarrow> nat \<Rightarrow> fval" where
  "percentage n_class n_total = fmul (fdiv (Fin (real n_class)) (Fin (real n_total))) (Fin 100)"

declare np_unique_counts_def [nd_simps] percentage_def [fval_simps]

subsection \<open>\<open>np.unique\<close> with counts\<close>

lemma sorted_distinct_remdups_adj: "sorted xs \<Longrightarrow> distinct (remdups_adj xs)"
proof (induction xs rule: remdups_adj.induct)
  case (3 x y xs)
  show ?case
  proof (cases "x = y")
    case True
    with 3 show ?thesis by simp
  next
    case False
    from "3.prems" have "\<forall>z \<in> set (y # xs). x \<le> z" and "sorted (y # xs)" by auto
    with False have "x \<notin> set (y # xs)" by (auto simp: antisym)
    with False "3.IH"(2) \<open>sorted (y # xs)\<close> show ?thesis by simp
  qed
qed simp_all

lemma map_count_list_Cons_notin:
  "x \<notin> set vs \<Longrightarrow> map (\<lambda>v. (v, count_list (x # xs) v)) vs = map (\<lambda>v. (v, count_list xs v)) vs"
  by (induction vs) auto

lemma runs_sorted: "sorted ys \<Longrightarrow> runs ys = map (\<lambda>v. (v, count_list ys v)) (remdups_adj ys)"
proof (induction ys)
  case Nil
  then show ?case by simp
next
  case (Cons x xs)
  show ?case
  proof (cases xs)
    case Nil
    then show ?thesis by simp
  next
    case (Cons y zs)
    obtain R where R: "remdups_adj xs = y # R"
      using remdups_adj_Cons_alt [of y zs] Cons by metis
    have sxs: "sorted xs" and le: "\<forall>z \<in> set xs. x \<le> z" using Cons.prems by simp_all
    have dist: "distinct (y # R)" using sorted_distinct_remdups_adj [OF sxs] R by simp
    have yR: "\<forall>v \<in> set R. y < v"
      using sorted_remdups_adj [OF sxs] dist R by (auto simp: order.order_iff_strict)
    have IH: "runs xs = (y, count_list xs y) # map (\<lambda>v. (v, count_list xs v)) R"
      using Cons.IH [OF sxs] R by simp
    show ?thesis
    proof (cases "x = y")
      case True
      with yR have "x \<notin> set R" by auto
      have "runs (x # xs) = (y, Suc (count_list xs y)) # map (\<lambda>v. (v, count_list xs v)) R"
        using IH True by simp
      moreover have "remdups_adj (x # xs) = y # R"
        using R True by (simp add: remdups_adj_Cons)
      ultimately show ?thesis
        using True \<open>x \<notin> set R\<close> by (auto simp: map_count_list_Cons_notin)
    next
      case False
      with le Cons have "x < y" by (auto simp: order.order_iff_strict)
      with yR have "x \<notin> set R" by auto
      have "x \<notin> set xs" using le \<open>x < y\<close> Cons sxs by (auto simp: antisym)
      have "runs (x # xs) = (x, 1) # (y, count_list xs y) # map (\<lambda>v. (v, count_list xs v)) R"
        using IH False by simp
      moreover have "remdups_adj (x # xs) = x # y # R"
        using R False by (simp add: remdups_adj_Cons)
      ultimately show ?thesis
        using False \<open>x \<notin> set R\<close> \<open>x \<notin> set xs\<close>
        by (auto simp: map_count_list_Cons_notin count_list_0_iff)
    qed
  qed
qed

lemma remdups_adj_sort: "remdups_adj (sort xs) = sorted_list_of_set (set xs)"
  by (rule sorted_distinct_set_unique)
     (simp_all add: sorted_distinct_remdups_adj)

lemma count_list_sort [simp]: "count_list (sort xs) v = count_list xs v"
  by (metis count_mset mset_sort)

theorem np_unique_counts_eq:
  "np_unique_counts xs = map (\<lambda>v. (v, count_list xs v)) (sorted_list_of_set (set xs))"
  by (simp add: np_unique_counts_def runs_sorted remdups_adj_sort)

lemma np_unique_counts_total: "sum_list (map snd (np_unique_counts xs)) = length xs"
proof -
  have "sum_list (map snd (np_unique_counts xs)) = sum_list (map (count_list xs) (sorted_list_of_set (set xs)))"
    by (simp add: np_unique_counts_eq comp_def)
  also have "\<dots> = sum (count_list xs) (set xs)"
    by (simp add: sum_list_distinct_conv_sum_set)
  also have "\<dots> = length xs"
    by (simp add: sum_count_set)
  finally show ?thesis .
qed

lemma map_of_np_unique_counts:
  "map_of (np_unique_counts xs) v = (if v \<in> set xs then Some (count_list xs v) else None)"
  by (simp add: np_unique_counts_eq map_of_map_restrict restrict_map_def)

end
