(* ===== verification/Urban_Extraction.thy ===== *)
theory Urban_Extraction
  imports Spectral_Index Resample Statistics
begin

text \<open>
  \<open>src/urban_extraction.py\<close>. \<open>calculate_built_up_index\<close> aligns SWIR (B11, 20 m) onto the
  NIR grid with \<open>resample_to_match\<close>, then computes NDVI and NDBI with the safe normalized
  difference and \<open>BUI = NDBI - NDVI\<close>. \<open>extract_urban_areas\<close> is four boolean-mask
  assignments into a uint8 array of zeros, in the source's order (urban 1, vegetation 2,
  water 3, bare soil 4); the last one only fills pixels still 0. \<open>urban_class\<close> is the
  per-pixel reading of that sequence; \<open>land_cover_spec\<close> is the decision list the code's
  comments describe, against which it is proved for any thresholds.
  \<open>calculate_urban_statistics\<close> returns the class table it prints and the urban summary;
  \<open>save_urban_areas\<close> writes the binary urban raster. The GridFS connection opened at
  import time and \<open>upload_file\<close>/\<open>download_file\<close> are external I/O and not modelled.
\<close>

text \<open>\<open>calculate_built_up_index(red_band_path, nir_band_path, swir_band_path, output_path)\<close>,
  lines 35--69; it returns \<open>(bui, ndvi, ndbi)\<close>.\<close>

definition calculate_built_up_index ::
  "store \<Rightarrow> path \<Rightarrow> path \<Rightarrow> path \<Rightarrow> path
     \<Rightarrow> py_error + store \<times> fval ndarray \<times> fval ndarray \<times> fval ndarray" where
  "calculate_built_up_index st red_band_path nir_band_path swir_band_path output_path =
     sbind (read_band1 st red_band_path) (\<lambda>(red, profile).
     sbind (read_band1 st nir_band_path) (\<lambda>(nir, _).
     sbind (resample_to_match st swir_band_path nir_band_path) (\<lambda>swir.
     sbind (broadcast2 norm_diff_px nir red) (\<lambda>ndvi.
     sbind (broadcast2 norm_diff_px swir nir) (\<lambda>ndbi.
     sbind (broadcast2 fsub ndbi ndvi) (\<lambda>bui.
     sbind (write_band1 st output_path (float_profile profile) bui) (\<lambda>st'.
     Inr (st', bui, ndvi, ndbi))))))))"

text \<open>\<open>extract_urban_areas(ndvi, bui, ndvi_threshold=0.3, bui_threshold=0.1)\<close>, lines 71--92.\<close>

definition extract_urban_areas :: "fval ndarray \<Rightarrow> fval ndarray \<Rightarrow> real \<Rightarrow> real \<Rightarrow> py_error + 8 word ndarray" where
  "extract_urban_areas ndvi bui ndvi_threshold bui_threshold =
     sbind (broadcast2 (\<lambda>n b. fless n (Fin ndvi_threshold) \<and> fless (Fin bui_threshold) b) ndvi bui) (\<lambda>m.
     sbind (bool_assign (zeros_like ndvi) m 1) (\<lambda>urban_mask.
     sbind (bool_assign urban_mask (amap (\<lambda>n. fless (Fin (4/10)) n) ndvi) 2) (\<lambda>urban_mask.
     sbind (broadcast2 (\<lambda>n b. fless n (Fin (1/10)) \<and> fless b (Fin (5/100))) ndvi bui) (\<lambda>m.
     sbind (bool_assign urban_mask m 3) (\<lambda>urban_mask.
     sbind (broadcast2 (\<lambda>n b. fless n (Fin (2/10)) \<and> fless b (Fin (1/10))) ndvi bui) (\<lambda>m.
     sbind (broadcast2 (\<and>) m (amap (\<lambda>c. c = 0) urban_mask)) (\<lambda>m.
     bool_assign urban_mask m 4)))))))"

text \<open>What the four assignments leave in one pixel.\<close>

definition urban_class :: "real \<Rightarrow> real \<Rightarrow> fval \<Rightarrow> fval \<Rightarrow> 8 word" where
  "urban_class ndvi_threshold bui_threshold n b =
     (let c1 = (if fless n (Fin ndvi_threshold) \<and> fless (Fin bui_threshold) b then 1 else 0);
          c2 = (if fless (Fin (4/10)) n then 2 else c1);
          c3 = (if fless n (Fin (1/10)) \<and> fless b (Fin (5/100)) then 3 else c2)
      in if fless n (Fin (2/10)) \<and> fless b (Fin (1/10)) \<and> c3 = 0 then 4 else c3)"

text \<open>The classes of the legend (\<open>class_labels\<close>, lines 103--109) and the decision list the
  comments of \<open>extract_urban_areas\<close> describe, first match wins.\<close>

datatype land_cover = Unclassified | Urban | Vegetation | Water | Bare_Soil

fun land_cover_code :: "land_cover \<Rightarrow> 8 word" where
  "land_cover_code Unclassified = 0"
| "land_cover_code Urban = 1"
| "land_cover_code Vegetation = 2"
| "land_cover_code Water = 3"
| "land_cover_code Bare_Soil = 4"

definition land_cover_spec :: "real \<Rightarrow> real \<Rightarrow> real \<Rightarrow> real \<Rightarrow> land_cover" where
  "land_cover_spec ndvi_threshold bui_threshold ndvi bui =
     (if ndvi < 1/10 \<and> bui < 5/100 then Water
      else if ndvi > 4/10 then Vegetation
      else if ndvi < ndvi_threshold \<and> bui > bui_threshold then Urban
      else if ndvi < 2/10 \<and> bui < 1/10 then Bare_Soil
      else Unclassified)"

text \<open>\<open>calculate_urban_statistics(urban_mask, pixel_area_m2=100)\<close>, lines 94--130: the
  printed table (class, count, percentage, area in km\<open>\<^sup>2\<close>) and the returned triple.\<close>

definition calculate_urban_statistics ::
  "8 word ndarray \<Rightarrow> real \<Rightarrow> (8 word \<times> nat \<times> fval \<times> real) list \<times> nat \<times> fval \<times> real" where
  "calculate_urban_statistics urban_mask pixel_area_m2 =
     (let uc = np_unique_counts (vals urban_mask);
          total_pixels = sum_list (map snd uc);
          table = map (\<lambda>(class_id, n). (class_id, n, percentage n total_pixels,
                                         real n * pixel_area_m2 / 1000000)) uc;
          urban_pixels = (case map_of uc 1 of Some n \<Rightarrow> n | None \<Rightarrow> 0)
      in (table, urban_pixels, percentage urban_pixels total_pixels,
          real urban_pixels * pixel_area_m2 / 1000000))"

text \<open>\<open>save_urban_areas(urban_mask, output_path, profile)\<close>, lines 184--198.\<close>

definition save_urban_areas :: "store \<Rightarrow> 8 word ndarray \<Rightarrow> path \<Rightarrow> profile \<Rightarrow> py_error + store" where
  "save_urban_areas st urban_mask output_path profile =
     write_band1_u8 st output_path (uint8_profile profile) (amap (\<lambda>c. if c = 1 then 1 else 0) urban_mask)"

declare calculate_built_up_index_def [nd_simps] extract_urban_areas_def [nd_simps]
  urban_class_def [fval_simps] land_cover_spec_def [fval_simps]
  calculate_urban_statistics_def [nd_simps] save_urban_areas_def [nd_simps]

subsection \<open>\<open>extract_urban_areas\<close>\<close>

lemma extract_urban_areas_pw:
  assumes "length xs = r * c" and "length ys = r * c"
  shows "extract_urban_areas \<lparr>nrows = r, ncols = c, vals = map2 (\<lambda>x y. x) xs ys\<rparr>
           \<lparr>nrows = r, ncols = c, vals = map2 (\<lambda>x y. y) xs ys\<rparr> nt bt =
         Inr \<lparr>nrows = r, ncols = c, vals = map2 (urban_class nt bt) xs ys\<rparr>"
  unfolding extract_urban_areas_def zeros_like_def
  apply (simp only: pw_amap pw_broadcast2 [OF assms] pw_bool_assign sbind_Inr)
  apply (auto simp: urban_class_def Let_def split: prod.splits)
  done

lemma extract_urban_areas_eq:
  assumes "nd_wf ndvi" and "nd_wf bui" and "shape bui = shape ndvi"
  shows "extract_urban_areas ndvi bui nt bt =
           Inr \<lparr>nrows = nrows ndvi, ncols = ncols ndvi, vals = map2 (urban_class nt bt) (vals ndvi) (vals bui)\<rparr>"
proof -
  have len: "length (vals ndvi) = nrows ndvi * ncols ndvi" "length (vals bui) = nrows ndvi * ncols ndvi"
    using assms by (simp_all add: nd_wf_def shape_def)
  show ?thesis
    by (subst pw_operands(1) [OF assms], subst pw_operands(2) [OF assms])
      (rule extract_urban_areas_pw [OF len])
qed

lemma urban_class_Fin:
  "urban_class nt bt (Fin a) (Fin b) = land_cover_code (land_cover_spec nt bt a b)"
  by (simp add: urban_class_def land_cover_spec_def Let_def)

lemma urban_class_codes: "urban_class nt bt n b \<in> {0, 1, 2, 3, 4}"
  by (simp add: urban_class_def Let_def)

lemma extract_urban_areas_nth:
  assumes "nd_wf ndvi" and "nd_wf bui" and "shape bui = shape ndvi"
  shows "\<exists>M. extract_urban_areas ndvi bui nt bt = Inr M \<and> shape M = shape ndvi \<and> nd_wf M \<and>
           length (vals M) = length (vals ndvi) \<and>
           (\<forall>k < length (vals ndvi). vals M ! k = urban_class nt bt (vals ndvi ! k) (vals bui ! k))"
proof -
  have len: "length (vals bui) = length (vals ndvi)"
    using assms by (simp add: nd_wf_def shape_def)
  then show ?thesis
    using extract_urban_areas_eq [OF assms] assms(1) by (simp add: shape_def nd_wf_def)
qed

subsection \<open>\<open>calculate_built_up_index\<close>\<close>

lemma calculate_built_up_index_Inr:
  assumes "calculate_built_up_index st red_path nir_path swir_path output_path = Inr (st', bui, ndvi, ndbi)"
  obtains red prof nir nir_prof swir where
    "read_band1 st red_path = Inr (red, prof)" "read_band1 st nir_path = Inr (nir, nir_prof)"
    "resample_to_match st swir_path nir_path = Inr swir"
    "broadcast2 norm_diff_px nir red = Inr ndvi" "broadcast2 norm_diff_px swir nir = Inr ndbi"
    "broadcast2 fsub ndbi ndvi = Inr bui" "write_band1 st output_path (float_profile prof) bui = Inr st'"
  using assms by (auto simp: calculate_built_up_index_def sbind_eq_Inr)

lemma in_range_fin_nonneg: "in_range 0 h x \<Longrightarrow> fin_nonneg x"
  by (auto simp: in_range_iff fin_nonneg_iff)

lemma norm_diff_px_nonneg_in_range:
  "fin_nonneg a \<Longrightarrow> fin_nonneg b \<Longrightarrow> in_range (-1) 1 (norm_diff_px a b)"
  by (auto simp: fin_nonneg_iff norm_diff_px_in_range)

lemma fsub_in_range:
  "in_range (-1) 1 a \<Longrightarrow> in_range (-1) 1 b \<Longrightarrow> in_range (-2) 2 (fsub a b)"
  by (auto simp: in_range_iff)

lemma resample_to_match_wf: "resample_to_match st src_path match_path = Inr A \<Longrightarrow> nd_wf A"
  by (auto elim!: resample_to_match_Inr dest: bilinear_read_Inr)

text \<open>
  C19: \<open>extract_urban_areas\<close> implements the land-cover decision list: on two arrays of one
  shape it returns a mask of that shape whose pixel, wherever NDVI and BUI are finite, is
  the code of the first matching class among water, vegetation, urban (by the given
  thresholds) and bare soil, and unclassified otherwise.
\<close>

theorem extract_urban_areas_refines:
  assumes "nd_wf ndvi" and "nd_wf bui" and "shape bui = shape ndvi"
    and "k < length (vals ndvi)" and "vals ndvi ! k = Fin a" and "vals bui ! k = Fin b"
  shows "\<exists>M. extract_urban_areas ndvi bui nt bt = Inr M \<and> shape M = shape ndvi \<and>
           vals M ! k = land_cover_code (land_cover_spec nt bt a b)"
  using extract_urban_areas_nth [OF assms(1-3), of nt bt] assms(4-6) by (auto simp: urban_class_Fin)

lemma extract_urban_areas_refines_witness:
  "\<exists>M. extract_urban_areas \<lparr>nrows = 1, ncols = 3, vals = [Fin (1/20), Fin (1/5), Fin (1/2)]\<rparr>
          \<lparr>nrows = 1, ncols = 3, vals = [Fin 0, Fin (3/10), Fin 0]\<rparr> (3/10) (1/10) = Inr M
     \<and> shape M = (1, 3) \<and> vals M ! 1 = 1"
  using extract_urban_areas_refines [where ndvi = "\<lparr>nrows = 1, ncols = 3, vals = [Fin (1/20), Fin (1/5), Fin (1/2)]\<rparr>"
      and bui = "\<lparr>nrows = 1, ncols = 3, vals = [Fin 0, Fin (3/10), Fin 0]\<rparr>" and k = 1
      and a = "1/5" and b = "3/10" and nt = "3/10" and bt = "1/10"]
  by (simp add: nd_wf_def shape_def land_cover_spec_def)

text \<open>
  Every pixel of the urban mask is one of the five legend codes 0--4, NaN pixels
  included (they match no condition and stay 0).
\<close>

lemma extract_urban_areas_codes:
  assumes "nd_wf ndvi" and "nd_wf bui" and "shape bui = shape ndvi"
  shows "\<exists>M. extract_urban_areas ndvi bui nt bt = Inr M \<and> set (vals M) \<subseteq> {0, 1, 2, 3, 4}"
  using extract_urban_areas_eq [OF assms, of nt bt] urban_class_codes
  by (auto dest: set_zip_leftD)

lemma extract_urban_areas_codes_witness:
  "\<exists>M. extract_urban_areas \<lparr>nrows = 1, ncols = 2, vals = [NaN, Fin (1/2)]\<rparr>
          \<lparr>nrows = 1, ncols = 2, vals = [Fin 0, NaN]\<rparr> (3/10) (1/10) = Inr M
     \<and> set (vals M) \<subseteq> {0, 1, 2, 3, 4}"
  using extract_urban_areas_codes [where ndvi = "\<lparr>nrows = 1, ncols = 2, vals = [NaN, Fin (1/2)]\<rparr>"
      and bui = "\<lparr>nrows = 1, ncols = 2, vals = [Fin 0, NaN]\<rparr>" and nt = "3/10" and bt = "1/10"]
  by (simp add: nd_wf_def shape_def)

text \<open>
  C21: on non-negative reflectance bands (the SWIR band bounded above, as a uint16 band
  is), NDVI and NDBI lie in \<open>[-1, 1]\<close>, the built-up index in \<open>[-2, 2]\<close>, and the index is
  the band written to the output path with the red band's profile as float32.
\<close>

theorem calculate_built_up_index_bounds:
  assumes run: "calculate_built_up_index st red_path nir_path swir_path output_path = Inr (st', bui, ndvi, ndbi)"
    and wf: "store_wf st"
    and R: "st red_path = Some R" and N: "st nir_path = Some N" and S: "st swir_path = Some S"
    and "list_all fin_nonneg (vals (ds_band R))" and "list_all fin_nonneg (vals (ds_band N))"
    and "list_all (in_range 0 (of_int u)) (vals (ds_band S))"
  shows "list_all (in_range (-1) 1) (vals ndvi) \<and> list_all (in_range (-1) 1) (vals ndbi) \<and>
         list_all (in_range (-2) 2) (vals bui) \<and>
         st' output_path = Some \<lparr>ds_profile = float_profile (ds_profile R), ds_band = bui\<rparr>"
proof -
  from run obtain red prof nir nir_prof swir where
    rr: "read_band1 st red_path = Inr (red, prof)" and rn: "read_band1 st nir_path = Inr (nir, nir_prof)"
    and rs: "resample_to_match st swir_path nir_path = Inr swir"
    and b1: "broadcast2 norm_diff_px nir red = Inr ndvi" and b2: "broadcast2 norm_diff_px swir nir = Inr ndbi"
    and b3: "broadcast2 fsub ndbi ndvi = Inr bui"
    and w: "write_band1 st output_path (float_profile prof) bui = Inr st'"
    by (rule calculate_built_up_index_Inr)
  have red: "red = ds_band R" "prof = ds_profile R" and nir: "nir = ds_band N"
    using rr rn R N by (simp_all add: read_band1_def)
  have wf_red: "nd_wf red" and wf_nir: "nd_wf nir"
    using store_wf_read(1) [OF wf rr] store_wf_read(1) [OF wf rn] .
  have "list_all (in_range (of_int 0) (of_int u)) (vals swir)"
    by (rule resample_to_match_values [OF rs S wf]) (simp add: assms(8))
  then have sw: "list_all fin_nonneg (vals swir)"
    by (auto simp: list_all_iff intro: in_range_fin_nonneg)
  have ndvi: "list_all (in_range (-1) 1) (vals ndvi)"
    by (rule broadcast2_list_all [OF b1 wf_nir wf_red])
       (use assms(6,7) red nir in \<open>auto simp: list_all_iff intro: norm_diff_px_nonneg_in_range\<close>)
  have ndbi: "list_all (in_range (-1) 1) (vals ndbi)"
    by (rule broadcast2_list_all [OF b2 resample_to_match_wf [OF rs] wf_nir])
       (use assms(7) sw nir in \<open>auto simp: list_all_iff intro: norm_diff_px_nonneg_in_range\<close>)
  have bui: "list_all (in_range (-2) 2) (vals bui)"
    by (rule broadcast2_list_all [OF b3 broadcast2_wf [OF b2] broadcast2_wf [OF b1]])
       (use ndvi ndbi in \<open>auto simp: list_all_iff intro: fsub_in_range\<close>)
  from w red have "st' output_path = Some \<lparr>ds_profile = float_profile (ds_profile R), ds_band = bui\<rparr>"
    by (auto simp: write_band1_Inr)
  with ndvi ndbi bui show ?thesis by simp
qed

lemma calculate_built_up_index_bounds_witness:
  "\<exists>st' bui ndvi ndbi.
     calculate_built_up_index
       [''B4.tif'' \<mapsto> band_file (tile_profile 1 2) \<lparr>nrows = 1, ncols = 2, vals = [Fin 0, Fin 3]\<rparr>,
        ''B8.tif'' \<mapsto> band_file (tile_profile 1 2) \<lparr>nrows = 1, ncols = 2, vals = [Fin 5, Fin 1]\<rparr>,
        ''B11.tif'' \<mapsto> band_file (tile_profile 1 1) \<lparr>nrows = 1, ncols = 1, vals = [Fin 4]\<rparr>]
       ''B4.tif'' ''B8.tif'' ''B11.tif'' ''bui.tif'' = Inr (st', bui, ndvi, ndbi)
     \<and> list_all (in_range (-2) 2) (vals bui)"
proof -
  let ?R = "band_file (tile_profile 1 2) \<lparr>nrows = 1, ncols = 2, vals = [Fin 0, Fin 3]\<rparr>"
    and ?N = "band_file (tile_profile 1 2) \<lparr>nrows = 1, ncols = 2, vals = [Fin 5, Fin 1]\<rparr>"
    and ?S = "band_file (tile_profile 1 1) \<lparr>nrows = 1, ncols = 1, vals = [Fin 4]\<rparr>"
  let ?st = "[''B4.tif'' \<mapsto> ?R, ''B8.tif'' \<mapsto> ?N, ''B11.tif'' \<mapsto> ?S]"
  have wf: "store_wf ?st"
    by (intro store_wf_upd store_wf_empty) (simp_all add: ds_wf_def nd_wf_def shape_def)
  have "\<exists>x. calculate_built_up_index ?st ''B4.tif'' ''B8.tif'' ''B11.tif'' ''bui.tif'' = Inr x"
    by (simp add: calculate_built_up_index_def resample_to_match_def bilinear_read_def read_band1_def
        broadcast2_def bdim_def write_band1_def shape_def nd_wf_def)
  then obtain st' bui ndvi ndbi where
    run: "calculate_built_up_index ?st ''B4.tif'' ''B8.tif'' ''B11.tif'' ''bui.tif'' = Inr (st', bui, ndvi, ndbi)"
    by auto
  have "list_all (in_range (-2) 2) (vals bui)"
    using calculate_built_up_index_bounds [OF run wf, where R = ?R and N = ?N and S = ?S and u = 10]
    by (simp add: fin_nonneg_def in_range_def)
  with run show ?thesis by blast
qed

text \<open>
  A missing red, near-infrared or SWIR file makes \<open>calculate_built_up_index\<close> raise
  rasterio's I/O error, and nothing is written.
\<close>

lemma calculate_built_up_index_missing_input:
  assumes "\<not> file_exists st red_path \<or> \<not> file_exists st nir_path \<or> \<not> file_exists st swir_path"
  shows "calculate_built_up_index st red_path nir_path swir_path output_path = Inl RasterioIOError"
  using assms
  by (auto simp: calculate_built_up_index_def resample_to_match_def read_band1_def file_exists_def
      split: option.splits)

lemma calculate_built_up_index_missing_input_witness:
  "file_exists [''B4.tif'' \<mapsto> band_file (tile_profile 1 1) (full 1 1 (Fin 1)),
                ''B8.tif'' \<mapsto> band_file (tile_profile 1 1) (full 1 1 (Fin 2))] ''B4.tif''
   \<and> \<not> file_exists [''B4.tif'' \<mapsto> band_file (tile_profile 1 1) (full 1 1 (Fin 1)),
                ''B8.tif'' \<mapsto> band_file (tile_profile 1 1) (full 1 1 (Fin 2))] ''B11.tif''
   \<and> calculate_built_up_index [''B4.tif'' \<mapsto> band_file (tile_profile 1 1) (full 1 1 (Fin 1)),
                ''B8.tif'' \<mapsto> band_file (tile_profile 1 1) (full 1 1 (Fin 2))]
       ''B4.tif'' ''B8.tif'' ''B11.tif'' ''bui.tif'' = Inl RasterioIOError"
  using calculate_built_up_index_missing_input
    [where st = "[''B4.tif'' \<mapsto> band_file (tile_profile 1 1) (full 1 1 (Fin 1)),
                ''B8.tif'' \<mapsto> band_file (tile_profile 1 1) (full 1 1 (Fin 2))]"
      and red_path = "''B4.tif''" and nir_path = "''B8.tif''" and swir_path = "''B11.tif''"
      and output_path = "''bui.tif''"]
  by (simp add: file_exists_def)

subsection \<open>\<open>calculate_urban_statistics\<close> and \<open>save_urban_areas\<close>\<close>

text \<open>
  C23: the urban summary counts the pixels of class 1, gives their share of all pixels in
  percent and their area in km\<open>\<^sup>2\<close> for the given pixel area.
\<close>

theorem calculate_urban_statistics_urban:
  assumes "calculate_urban_statistics urban_mask pixel_area_m2 = (table, urban_pixels, urban_percentage, urban_area_km2)"
    and "vals urban_mask \<noteq> []"
  shows "urban_pixels = count_list (vals urban_mask) 1 \<and>
         urban_percentage = Fin (real urban_pixels / real (length (vals urban_mask)) * 100) \<and>
         urban_area_km2 = real urban_pixels * pixel_area_m2 / 1000000"
proof -
  have up: "urban_pixels = count_list (vals urban_mask) 1"
    using assms(1) by (auto simp: calculate_urban_statistics_def Let_def map_of_np_unique_counts count_list_0_iff)
  have "urban_percentage = percentage urban_pixels (length (vals urban_mask))"
    using assms(1) by (simp add: calculate_urban_statistics_def Let_def np_unique_counts_total up
        map_of_np_unique_counts count_list_0_iff split: if_splits)
  with assms(2) have "urban_percentage = Fin (real urban_pixels / real (length (vals urban_mask)) * 100)"
    by (simp add: percentage_def)
  moreover have "urban_area_km2 = real urban_pixels * pixel_area_m2 / 1000000"
    using assms(1) up by (auto simp: calculate_urban_statistics_def Let_def map_of_np_unique_counts count_list_0_iff)
  ultimately show ?thesis using up by simp
qed

lemma calculate_urban_statistics_urban_witness:
  "\<exists>table. calculate_urban_statistics \<lparr>nrows = 2, ncols = 2, vals = [1, 2, 1, 0]\<rparr> 100 =
     (table, 2, Fin 50, 1 / 5000)"
proof -
  obtain table up pc area where
    run: "calculate_urban_statistics \<lparr>nrows = 2, ncols = 2, vals = [1, 2, 1, 0 :: 8 word]\<rparr> 100 = (table, up, pc, area)"
    by (cases "calculate_urban_statistics \<lparr>nrows = 2, ncols = 2, vals = [1, 2, 1, 0 :: 8 word]\<rparr> 100") auto
  have "up = 2 \<and> pc = Fin 50 \<and> area = 1 / 5000"
    using calculate_urban_statistics_urban [OF run] by simp
  with run show ?thesis by blast
qed

text \<open>
  C20: the class table \<open>calculate_urban_statistics\<close> prints is \<open>np.unique\<close> with counts read
  correctly: it lists each class present in the mask once, in increasing order, with its
  exact number of pixels, and the counts add up to the number of pixels.
\<close>

theorem calculate_urban_statistics_table:
  assumes "calculate_urban_statistics urban_mask pixel_area_m2 = (table, summary)"
  shows "map fst table = sorted_list_of_set (set (vals urban_mask)) \<and>
         (\<forall>(class_id, n, _) \<in> set table. n = count_list (vals urban_mask) class_id) \<and>
         sum_list (map (fst \<circ> snd) table) = length (vals urban_mask)"
proof -
  let ?uc = "np_unique_counts (vals urban_mask)"
  have t: "table = map (\<lambda>(class_id, n). (class_id, n, percentage n (length (vals urban_mask)),
                          real n * pixel_area_m2 / 1000000)) ?uc"
    using assms by (simp add: calculate_urban_statistics_def Let_def np_unique_counts_total)
  have "map fst table = map fst ?uc" and "map (fst \<circ> snd) table = map snd ?uc"
    by (simp_all add: t comp_def case_prod_beta)
  moreover have "\<forall>(class_id, n, _) \<in> set table. n = count_list (vals urban_mask) class_id"
    by (auto simp: t np_unique_counts_eq)
  ultimately show ?thesis
    by (simp add: np_unique_counts_total) (simp add: np_unique_counts_eq comp_def)
qed

lemma calculate_urban_statistics_table_witness:
  "map fst (fst (calculate_urban_statistics \<lparr>nrows = 1, ncols = 3, vals = [4, 1, 4]\<rparr> 100)) = [1, 4]
   \<and> sum_list (map (fst \<circ> snd) (fst (calculate_urban_statistics \<lparr>nrows = 1, ncols = 3, vals = [4, 1, 4 :: 8 word]\<rparr> 100))) = 3"
  using calculate_urban_statistics_table
    [of "\<lparr>nrows = 1, ncols = 3, vals = [4, 1, 4 :: 8 word]\<rparr>" 100
        "fst (calculate_urban_statistics \<lparr>nrows = 1, ncols = 3, vals = [4, 1, 4 :: 8 word]\<rparr> 100)"
        "snd (calculate_urban_statistics \<lparr>nrows = 1, ncols = 3, vals = [4, 1, 4 :: 8 word]\<rparr> 100)"]
  by (simp add: insert_Diff_if word_le_nat_alt)

text \<open>
  On a mask with no pixels the urban percentage is NaN (numpy's \<open>0 / 0\<close>), while the
  pixel count and the area are 0 and the table is empty.
\<close>

theorem calculate_urban_statistics_empty:
  "calculate_urban_statistics \<lparr>nrows = r, ncols = c, vals = []\<rparr> pixel_area_m2 = ([], 0, NaN, 0)"
  by (simp add: calculate_urban_statistics_def np_unique_counts_def percentage_def)

text \<open>
  \<open>save_urban_areas\<close> succeeds exactly when the mask has the profile's shape, and then
  stores, under the uint8 profile, the binary raster that is 1 where the mask is urban
  (code 1) and 0 everywhere else; no other file changes.
\<close>

lemma save_urban_areas_binary:
  "save_urban_areas st urban_mask output_path profile = Inr st' \<longleftrightarrow>
     nd_wf urban_mask \<and> shape urban_mask = (p_height profile, p_width profile) \<and>
     st' = st(output_path \<mapsto> \<lparr>ds_profile = uint8_profile profile,
                              ds_band = amap (\<lambda>c. if c = 1 then Fin 1 else Fin 0) urban_mask\<rparr>)"
proof -
  have "amap u8_to_fval (amap (\<lambda>c. if c = 1 then 1 else 0) urban_mask) =
          amap (\<lambda>c. if c = 1 then Fin 1 else Fin 0) urban_mask"
    by (simp add: amap_comp comp_def u8_to_fval_def if_distrib)
  then show ?thesis
    by (auto simp: save_urban_areas_def write_band1_u8_def write_band1_Inr)
qed

lemma save_urban_areas_binary_witness:
  "save_urban_areas Map.empty \<lparr>nrows = 1, ncols = 3, vals = [3, 1, 4]\<rparr> ''urban.tif'' (tile_profile 1 3) =
     Inr [''urban.tif'' \<mapsto> \<lparr>ds_profile = uint8_profile (tile_profile 1 3),
                              ds_band = \<lparr>nrows = 1, ncols = 3, vals = [Fin 0, Fin 1, Fin 0]\<rparr>\<rparr>]"
  using save_urban_areas_binary [of Map.empty "\<lparr>nrows = 1, ncols = 3, vals = [3, 1, 4 :: 8 word]\<rparr>"
      "''urban.tif''" "tile_profile 1 3"]
  by (simp add: nd_wf_def shape_def amap_def)

subsection \<open>The store invariant\<close>

text \<open>Every write goes through \<open>write_band1\<close>, which refuses a band of the wrong shape, so
  \<open>store_wf\<close> holds after each function of this part whenever it held before.\<close>

lemma calculate_built_up_index_store_wf:
  "calculate_built_up_index st a b c p = Inr (st', x) \<Longrightarrow> store_wf st \<Longrightarrow> store_wf st'"
  by (auto simp: calculate_built_up_index_def sbind_eq_Inr split: prod.splits intro: store_wf_writes)

end
