(* ===== verification/Classification.thy ===== *)
theory Classification
  imports Raster_IO
begin

text \<open>
  \<open>src/land_cover_classification.py\<close>. \<open>prepare_classification_data\<close> takes the shape of the
  first band, computes a window of \<open>window_size\<close> pixels centred on the grid's midpoint and
  clamped to its edges (\<open>center_window\<close>), reads that window of every band
  (\<open>read_windows\<close>), flattens the stack to one vector per pixel (\<open>transpose\<close> of the band
  buffers, numpy's \<open>stacked.reshape(n_bands, -1).T\<close>) and keeps the pixels where no band is
  zero or NaN (\<open>valid_pixel\<close>). The clusterer is a parameter \<open>clusterer\<close> here, constrained by
  \<open>clusterer_ok\<close>: the properties hold for any clusterer that returns one label per data
  row, and \<open>Clustering\<close> shows that \<open>perform_classification\<close> (scikit-learn's
  \<open>StandardScaler\<close>, then \<open>KMeans\<close>) is one. \<open>create_classification_map\<close> scatters
  \<open>labels + 1\<close> into a uint8 array of zeros at the valid positions (\<open>mask_assign\<close>; the
  int-to-uint8 store wraps modulo 256) and writes it. \<open>classify_year\<close> is one iteration
  of \<open>main\<close>'s loop and \<open>classification_main\<close> the loop over the two years.
  \<open>plot_classification\<close> (matplotlib) and the printed class distribution are not modelled.
\<close>

text \<open>rasterio's \<open>Window(col_off, row_off, width, height)\<close>.\<close>

record window =
  col_off :: nat
  row_off :: nat
  win_width :: nat
  win_height :: nat

text \<open>Lines 29--37. Python's \<open>center_y - half_win\<close> may be negative; it is computed in \<open>int\<close>.\<close>

definition center_window :: "nat \<Rightarrow> nat \<Rightarrow> nat \<Rightarrow> window" where
  "center_window height width window_size =
     (let center_y = height div 2; center_x = width div 2; half_win = window_size div 2;
          y1 = nat (max (int center_y - int half_win) 0); y2 = min (center_y + half_win) height;
          x1 = nat (max (int center_x - int half_win) 0); x2 = min (center_x + half_win) width
      in \<lparr>col_off = x1, row_off = y1, win_width = x2 - x1, win_height = y2 - y1\<rparr>)"

text \<open>
  \<open>src.read(1, window=window)\<close>. A window that does not fit the band fails: rasterio crops
  it to the band, and \<open>np.stack\<close> then raises \<open>ValueError\<close> on the unequal shapes.
\<close>

definition read_window :: "fval ndarray \<Rightarrow> window \<Rightarrow> py_error + fval ndarray" where
  "read_window A w =
     (if row_off w + win_height w \<le> nrows A \<and> col_off w + win_width w \<le> ncols A
      then Inr (tabulate (win_height w) (win_width w) (\<lambda>i j. nd_at A (row_off w + i) (col_off w + j)))
      else Inl ValueError)"

text \<open>Lines 41--44: the loop reading the window of every band, in order.\<close>

fun read_windows :: "store \<Rightarrow> path list \<Rightarrow> window \<Rightarrow> py_error + fval ndarray list" where
  "read_windows st [] w = Inr []"
| "read_windows st (p # ps) w =
     sbind (read_band1 st p) (\<lambda>(band, _).
     sbind (read_window band w) (\<lambda>B.
     sbind (read_windows st ps w) (\<lambda>Bs. Inr (B # Bs))))"

text \<open>Line 53: \<open>~np.any(np.isnan(reshaped) | (reshaped == 0), axis=1)\<close> on one pixel vector.\<close>

definition valid_pixel :: "fval list \<Rightarrow> bool" where
  "valid_pixel v = (\<not> list_ex (\<lambda>x. isnan x \<or> feq x (Fin 0)) v)"

text \<open>\<open>prepare_classification_data(band_paths, roi_path=None, window_size=100)\<close>, lines 17--57;
  it returns \<open>(valid_data, valid_pixels, (height, width), profile)\<close>.\<close>

definition prepare_classification_data ::
  "store \<Rightarrow> path list \<Rightarrow> nat \<Rightarrow> py_error + fval list list \<times> bool list \<times> (nat \<times> nat) \<times> profile" where
  "prepare_classification_data st band_paths window_size =
     (case band_paths of
        [] \<Rightarrow> Inl IndexError
      | p0 # _ \<Rightarrow>
          sbind (read_band1 st p0) (\<lambda>(_, src_profile).
            let window = center_window (p_height src_profile) (p_width src_profile) window_size;
                profile = src_profile\<lparr>p_height := win_height window, p_width := win_width window\<rparr>
            in sbind (read_windows st band_paths window) (\<lambda>bands_data.
                 let reshaped = transpose (map vals bands_data);
                     valid_pixels = map valid_pixel reshaped
                 in Inr (filter valid_pixel reshaped, valid_pixels,
                         (win_height window, win_width window), profile))))"

text \<open>\<open>create_classification_map(labels, valid_pixels, original_shape, output_path, profile)\<close>,
  lines 75--94. The cluster ids are non-negative; \<open>labels + 1\<close> is stored into uint8.\<close>

definition create_classification_map ::
  "store \<Rightarrow> nat list \<Rightarrow> bool list \<Rightarrow> nat \<times> nat \<Rightarrow> path \<Rightarrow> profile
     \<Rightarrow> py_error + store \<times> 8 word ndarray" where
  "create_classification_map st labels valid_pixels original_shape output_path profile =
     (let (h, w) = original_shape in
      sbind (mask_assign (replicate (h * w) 0) valid_pixels (map (\<lambda>l. of_nat (l + 1)) labels)) (\<lambda>full_map.
        let classification_map = \<lparr>nrows = h, ncols = w, vals = full_map\<rparr>
        in sbind (write_band1_u8 st output_path (uint8_profile profile) classification_map) (\<lambda>st'.
             Inr (st', classification_map))))"

text \<open>Lines 131--136: the four bands of a year, in the order that fixes the feature index.\<close>

definition classification_band_paths :: "string \<Rightarrow> path list" where
  "classification_band_paths year =
     [''data/'' @ year @ ''/B2.tif'', ''data/'' @ year @ ''/B3.tif'',
      ''data/'' @ year @ ''/B4.tif'', ''data/'' @ year @ ''/B8.tif'']"

text \<open>One iteration of \<open>main\<close>'s loop, lines 128--164.\<close>

definition classify_year ::
  "(fval list list \<Rightarrow> py_error + nat list) \<Rightarrow> store \<Rightarrow> string \<Rightarrow> store \<times> py_error option" where
  "classify_year clusterer st year =
     (let band_paths = classification_band_paths year in
      if \<not> list_all (file_exists st) band_paths then (st, None)
      else case prepare_classification_data st band_paths 100 of
        Inl e \<Rightarrow> (st, Some e)
      | Inr (data, valid_pixels, original_shape, profile) \<Rightarrow>
          if data = [] then (st, None)
          else case clusterer data of
            Inl e \<Rightarrow> (st, Some e)
          | Inr labels \<Rightarrow>
              unit_of st (sbind (create_classification_map st labels valid_pixels original_shape
                                   (''data/output/classification_'' @ year @ ''.tif'') profile)
                                (\<lambda>(st', _). Inr st')))"

definition classification_main ::
  "(fval list list \<Rightarrow> py_error + nat list) \<Rightarrow> store \<Rightarrow> store \<times> py_error option" where
  "classification_main clusterer st = run_units (classify_year clusterer) st [''2021'', ''2025'']"

text \<open>The interface the clusterer is assumed to meet: one label below \<open>n\<close> per data row.\<close>

definition clusterer_ok :: "(fval list list \<Rightarrow> py_error + nat list) \<Rightarrow> nat \<Rightarrow> bool" where
  "clusterer_ok clusterer n =
     (\<forall>data labels. clusterer data = Inr labels \<longrightarrow> length labels = length data \<and> (\<forall>l \<in> set labels. l < n))"

text \<open>
  Fixture for the witnesses: the four bands of 2021 as 2 \<times> 2 tiles; pixel 2 of B4 is 0 (no
  data), so three of the four pixels are valid.
\<close>

abbreviation stack_2021 :: store where
  "stack_2021 \<equiv>
     [''data/2021/B2.tif'' \<mapsto> band_file (tile_profile 2 2) \<lparr>nrows = 2, ncols = 2, vals = [Fin 5, Fin 6, Fin 7, Fin 8]\<rparr>,
      ''data/2021/B3.tif'' \<mapsto> band_file (tile_profile 2 2) \<lparr>nrows = 2, ncols = 2, vals = [Fin 5, Fin 6, Fin 7, Fin 8]\<rparr>,
      ''data/2021/B4.tif'' \<mapsto> band_file (tile_profile 2 2) \<lparr>nrows = 2, ncols = 2, vals = [Fin 1, Fin 2, Fin 0, Fin 4]\<rparr>,
      ''data/2021/B8.tif'' \<mapsto> band_file (tile_profile 2 2) \<lparr>nrows = 2, ncols = 2, vals = [Fin 9, Fin 9, Fin 9, Fin 9]\<rparr>]"

subsection \<open>The centred window\<close>

lemma nat_max_diff: "nat (max (int a - int b) 0) = a - b"
  by (simp add: max_def nat_minus_as_int)

lemma window_axis:
  fixes a b c n :: nat
  assumes "a \<le> n" and "2 * b \<le> c"
  shows "a - b \<le> a \<and> a \<le> (a - b) + (min (a + b) n - (a - b)) \<and>
         (a - b) + (min (a + b) n - (a - b)) \<le> n \<and> min (a + b) n - (a - b) \<le> c"
  using assms by linarith

lemma half_split: "\<exists>m. (n::nat) = 2 * (n div 2) + m \<and> m < 2"
  by (intro exI [of _ "n mod 2"]) simp

lemma center_window_fields:
  "row_off (center_window h wd ws) = h div 2 - ws div 2"
  "win_height (center_window h wd ws) = min (h div 2 + ws div 2) h - (h div 2 - ws div 2)"
  "col_off (center_window h wd ws) = wd div 2 - ws div 2"
  "win_width (center_window h wd ws) = min (wd div 2 + ws div 2) wd - (wd div 2 - ws div 2)"
  by (simp_all add: center_window_def Let_def nat_max_diff)

lemma center_window_le:
  "win_height (center_window h wd ws) \<le> ws" "win_width (center_window h wd ws) \<le> ws"
  using window_axis [of "h div 2" h "ws div 2" ws] window_axis [of "wd div 2" wd "ws div 2" ws]
  unfolding center_window_fields by simp_all

lemma window_axis_strict:
  fixes a b n :: nat
  assumes "a < n" and "0 < b"
  shows "a < (a - b) + (min (a + b) n - (a - b))"
  using assms by linarith

text \<open>
  C27: a window of at least two pixels lies inside the grid, contains its middle row and
  column, and is no larger than requested; its end \<open>y2\<close> is never below its start \<open>y1\<close>,
  so the width and height passed to \<open>Window\<close> are never negative. (A window size of 0 or 1
  gives \<open>half_win = 0\<close> and an empty window.)
\<close>

theorem center_window_bounds:
  assumes "2 \<le> ws" and "0 < h" and "0 < wd"
  shows "row_off (center_window h wd ws) \<le> h div 2 \<and>
   h div 2 < row_off (center_window h wd ws) + win_height (center_window h wd ws) \<and>
   row_off (center_window h wd ws) + win_height (center_window h wd ws) \<le> h \<and>
   win_height (center_window h wd ws) \<le> ws \<and>
   col_off (center_window h wd ws) \<le> wd div 2 \<and>
   wd div 2 < col_off (center_window h wd ws) + win_width (center_window h wd ws) \<and>
   col_off (center_window h wd ws) + win_width (center_window h wd ws) \<le> wd \<and>
   win_width (center_window h wd ws) \<le> ws"
proof -
  have ws: "2 * (ws div 2) \<le> ws" and b: "0 < ws div 2" using assms(1) by simp_all
  have "h div 2 < h" "wd div 2 < wd" using assms(2,3) by simp_all
  then show ?thesis
    using window_axis [of "h div 2" h "ws div 2" ws] window_axis [of "wd div 2" wd "ws div 2" ws] ws
      window_axis_strict [of "h div 2" h "ws div 2"] window_axis_strict [of "wd div 2" wd "ws div 2"] b
    unfolding center_window_fields by simp
qed

lemma center_window_bounds_witness:
  "row_off (center_window 10 10 2) \<le> 10 div 2 \<and>
   10 div 2 < row_off (center_window 10 10 2) + win_height (center_window 10 10 2) \<and>
   row_off (center_window 10 10 2) + win_height (center_window 10 10 2) \<le> 10 \<and>
   win_height (center_window 10 10 2) \<le> 2 \<and>
   col_off (center_window 10 10 2) \<le> 10 div 2 \<and>
   10 div 2 < col_off (center_window 10 10 2) + win_width (center_window 10 10 2) \<and>
   col_off (center_window 10 10 2) + win_width (center_window 10 10 2) \<le> 10 \<and>
   win_width (center_window 10 10 2) \<le> 2"
  by (rule center_window_bounds) simp_all

text \<open>
  When the grid is at least as large as an even window size, the window has exactly
  the requested size and starts \<open>window_size / 2\<close> before the middle.
\<close>

lemma center_window_exact:
  assumes "even ws" and "ws \<le> h" and "ws \<le> wd"
  shows "win_height (center_window h wd ws) = ws \<and> win_width (center_window h wd ws) = ws \<and>
         row_off (center_window h wd ws) = h div 2 - ws div 2 \<and>
         col_off (center_window h wd ws) = wd div 2 - ws div 2"
proof -
  obtain m where h: "h = 2 * (h div 2) + m" "m < 2" using half_split by blast
  obtain m' where wd: "wd = 2 * (wd div 2) + m'" "m' < 2" using half_split by blast
  from assms(1) have ws: "ws = 2 * (ws div 2)" by simp
  show ?thesis unfolding center_window_fields
  proof (intro conjI)
    show "min (h div 2 + ws div 2) h - (h div 2 - ws div 2) = ws"
      using h ws assms(2) by linarith
  qed (use wd ws assms(3) in linarith)+
qed

lemma center_window_exact_witness:
  "win_height (center_window 10980 10980 100) = 100 \<and> win_width (center_window 10980 10980 100) = 100 \<and>
   row_off (center_window 10980 10980 100) = 5440 \<and> col_off (center_window 10980 10980 100) = 5440"
  using center_window_exact [of 100 10980 10980] by simp

text \<open>
  C29: an odd window size yields a window one pixel smaller than requested in each
  direction (\<open>2 * (window_size // 2)\<close> pixels), even when the grid is large enough.
\<close>

theorem center_window_odd:
  assumes "odd ws" and "ws \<le> h" and "ws \<le> wd"
  shows "win_height (center_window h wd ws) = ws - 1 \<and> win_width (center_window h wd ws) = ws - 1"
proof -
  obtain m where h: "h = 2 * (h div 2) + m" "m < 2" using half_split by blast
  obtain m' where wd: "wd = 2 * (wd div 2) + m'" "m' < 2" using half_split by blast
  from assms(1) have ws: "ws = 2 * (ws div 2) + 1" by simp
  show ?thesis unfolding center_window_fields
  proof
    show "min (h div 2 + ws div 2) h - (h div 2 - ws div 2) = ws - 1"
      using h ws assms(2) by linarith
    show "min (wd div 2 + ws div 2) wd - (wd div 2 - ws div 2) = ws - 1"
      using wd ws assms(3) by linarith
  qed
qed

lemma center_window_odd_witness:
  "win_height (center_window 10980 10980 101) = 100 \<and> win_width (center_window 10980 10980 101) = 100"
  using center_window_odd [of 101 10980 10980] by simp

subsection \<open>Reading and flattening the window\<close>

lemma read_window_Inr:
  "read_window A w = Inr B \<Longrightarrow> nd_wf B \<and> shape B = (win_height w, win_width w)"
  by (auto simp: read_window_def shape_def split: if_splits)

lemma read_windows_Inr:
  "read_windows st ps w = Inr Bs \<Longrightarrow>
     length Bs = length ps \<and> (\<forall>B \<in> set Bs. nd_wf B \<and> shape B = (win_height w, win_width w))"
proof (induction ps arbitrary: Bs)
  case Nil
  then show ?case by simp
next
  case (Cons p ps)
  then show ?case
    by (auto simp: sbind_eq_Inr split: prod.splits dest: read_window_Inr)
qed

text \<open>The pixel vectors of a stack of equally long buffers: vector \<open>k\<close> holds entry \<open>k\<close> of
  every buffer, in band order.\<close>

lemma transpose_uniform:
  assumes "\<forall>xs \<in> set xss. length xs = n" and "xss \<noteq> []"
  shows "length (transpose xss) = n" and "\<And>k. k < n \<Longrightarrow> transpose xss ! k = map (\<lambda>xs. xs ! k) xss"
proof -
  have "foldr (\<lambda>xs. max (length xs)) xss 0 = (if xss = [] then 0 else n)"
    using assms(1) by (induction xss) auto
  with assms(2) have len: "foldr (\<lambda>xs. max (length xs)) xss 0 = n" by simp
  then show "length (transpose xss) = n" by (simp add: length_transpose)
  fix k assume "k < n"
  then have "filter (\<lambda>ys. k < length ys) xss = xss"
    using assms(1) by (simp add: filter_id_conv)
  with \<open>k < n\<close> len show "transpose xss ! k = map (\<lambda>xs. xs ! k) xss"
    by (simp add: nth_transpose length_transpose)
qed

lemma prepare_classification_data_Inr:
  assumes "prepare_classification_data st band_paths ws = Inr (data, valid_pixels, (h, w), profile)"
  obtains p0 ps src src_profile Bs where "band_paths = p0 # ps"
    "read_band1 st p0 = Inr (src, src_profile)"
    "read_windows st band_paths (center_window (p_height src_profile) (p_width src_profile) ws) = Inr Bs"
    "h = win_height (center_window (p_height src_profile) (p_width src_profile) ws)"
    "w = win_width (center_window (p_height src_profile) (p_width src_profile) ws)"
    "profile = src_profile\<lparr>p_height := h, p_width := w\<rparr>"
    "valid_pixels = map valid_pixel (transpose (map vals Bs))"
    "data = filter valid_pixel (transpose (map vals Bs))"
  using assms
  by (auto simp: prepare_classification_data_def sbind_eq_Inr Let_def split: list.splits prod.splits)

lemma length_filter_count_list: "length (filter P xs) = count_list (map P xs) True"
  by (simp add: count_list_map_filter)

lemma prepare_classification_data_facts:
  assumes "prepare_classification_data st band_paths ws = Inr (data, valid_pixels, (h, w), profile)"
  shows "length valid_pixels = h * w \<and> length data = count_list valid_pixels True \<and>
         (\<forall>v \<in> set data. length v = length band_paths \<and> valid_pixel v) \<and>
         p_height profile = h \<and> p_width profile = w \<and> h \<le> ws \<and> w \<le> ws"
proof -
  from assms obtain p0 ps src src_profile Bs where bp: "band_paths = p0 # ps"
    and rw: "read_windows st band_paths (center_window (p_height src_profile) (p_width src_profile) ws) = Inr Bs"
    and hw: "h = win_height (center_window (p_height src_profile) (p_width src_profile) ws)"
            "w = win_width (center_window (p_height src_profile) (p_width src_profile) ws)"
    and prof: "profile = src_profile\<lparr>p_height := h, p_width := w\<rparr>"
    and vp: "valid_pixels = map valid_pixel (transpose (map vals Bs))"
    and d: "data = filter valid_pixel (transpose (map vals Bs))"
    by (rule prepare_classification_data_Inr)
  from read_windows_Inr [OF rw] hw have Bs: "length Bs = length band_paths"
    and uni: "\<forall>xs \<in> set (map vals Bs). length xs = h * w"
    by (auto simp: nd_wf_def shape_def)
  have ne: "map vals Bs \<noteq> []" using Bs bp by auto
  note T = transpose_uniform [OF uni ne]
  have rows: "length v = length band_paths" if "v \<in> set (transpose (map vals Bs))" for v
  proof -
    from that obtain k where "k < h * w" "v = transpose (map vals Bs) ! k"
      by (auto simp: in_set_conv_nth T(1))
    then show ?thesis using T(2) Bs by simp
  qed
  have "\<forall>v \<in> set data. length v = length band_paths \<and> valid_pixel v"
    using rows by (auto simp: d)
  moreover have "h \<le> ws" "w \<le> ws"
    unfolding hw by (rule center_window_le)+
  ultimately show ?thesis
    using T(1) by (simp add: vp d prof length_filter_count_list)
qed

text \<open>
  C30: the data \<open>prepare_classification_data\<close> returns has one row per valid pixel of the
  window, each row holding one value per band and none of them zero or NaN; the validity
  mask covers every pixel of the window, and the returned profile has the window's shape.
\<close>

theorem prepare_classification_data_valid:
  assumes "prepare_classification_data st band_paths ws = Inr (data, valid_pixels, (h, w), profile)"
  shows "length valid_pixels = h * w \<and> length data = count_list valid_pixels True \<and>
         (\<forall>v \<in> set data. length v = length band_paths \<and> (\<forall>x \<in> set v. \<not> isnan x \<and> \<not> feq x (Fin 0))) \<and>
         p_height profile = h \<and> p_width profile = w \<and> h \<le> ws \<and> w \<le> ws"
  using prepare_classification_data_facts [OF assms] by (auto simp: valid_pixel_def list_ex_iff)

lemma prepare_classification_data_valid_witness:
  "\<exists>data valid_pixels h w profile.
     prepare_classification_data stack_2021 (classification_band_paths ''2021'') 100 =
       Inr (data, valid_pixels, (h, w), profile)
     \<and> length valid_pixels = h * w \<and> length data = count_list valid_pixels True
     \<and> (\<forall>v \<in> set data. length v = 4)"
proof -
  have "\<exists>x. prepare_classification_data stack_2021 (classification_band_paths ''2021'') 100 = Inr x"
    by (simp add: prepare_classification_data_def classification_band_paths_def read_band1_def
        read_window_def center_window_def Let_def)
  then obtain data valid_pixels h w profile where
    run: "prepare_classification_data stack_2021 (classification_band_paths ''2021'') 100 =
            Inr (data, valid_pixels, (h, w), profile)"
    by auto
  have "length valid_pixels = h * w \<and> length data = count_list valid_pixels True \<and>
        (\<forall>v \<in> set data. length v = 4)"
    using prepare_classification_data_valid [OF run] by (simp add: classification_band_paths_def)
  with run show ?thesis by blast
qed

text \<open>
  C31: the profile \<open>prepare_classification_data\<close> returns, with which the label map is
  written, keeps the first band's geotransform: only its height and width are set to the
  window's, so the map is georeferenced at the tile's corner, not at the window's offset
  (\<open>row_off\<close>, \<open>col_off\<close> rows and columns away).
\<close>

theorem prepare_classification_data_transform:
  assumes "prepare_classification_data st (p0 # ps) ws = Inr (data, valid_pixels, (h, w), profile)"
    and "st p0 = Some ds"
  shows "p_transform profile = p_transform (ds_profile ds) \<and> p_crs profile = p_crs (ds_profile ds) \<and>
         (h, w) = (win_height (center_window (p_height (ds_profile ds)) (p_width (ds_profile ds)) ws),
                   win_width (center_window (p_height (ds_profile ds)) (p_width (ds_profile ds)) ws))"
proof -
  from assms(1) obtain p0' ps' src src_profile Bs where "p0 # ps = p0' # ps'"
    and rd: "read_band1 st p0' = Inr (src, src_profile)"
    and hw: "h = win_height (center_window (p_height src_profile) (p_width src_profile) ws)"
            "w = win_width (center_window (p_height src_profile) (p_width src_profile) ws)"
    and prof: "profile = src_profile\<lparr>p_height := h, p_width := w\<rparr>"
    by (rule prepare_classification_data_Inr)
  with assms(2) have "src_profile = ds_profile ds" by (simp add: read_band1_def)
  with prof hw show ?thesis by simp
qed

lemma prepare_classification_data_transform_witness:
  "\<exists>data valid_pixels h w profile.
     prepare_classification_data
       [''B2.tif'' \<mapsto> band_file (tile_profile 4 4) (full 4 4 (Fin 3)),
        ''B8.tif'' \<mapsto> band_file (tile_profile 4 4) (full 4 4 (Fin 7))] [''B2.tif'', ''B8.tif''] 2
       = Inr (data, valid_pixels, (h, w), profile)
     \<and> row_off (center_window 4 4 2) = 1 \<and> col_off (center_window 4 4 2) = 1
     \<and> p_transform profile = p_transform (tile_profile 4 4)"
proof -
  let ?st = "[''B2.tif'' \<mapsto> band_file (tile_profile 4 4) (full 4 4 (Fin 3)),
              ''B8.tif'' \<mapsto> band_file (tile_profile 4 4) (full 4 4 (Fin 7))]"
  have "\<exists>x. prepare_classification_data ?st [''B2.tif'', ''B8.tif''] 2 = Inr x"
    by (simp add: prepare_classification_data_def read_band1_def read_window_def center_window_def
        Let_def full_def)
  then obtain data valid_pixels h w profile where
    run: "prepare_classification_data ?st [''B2.tif'', ''B8.tif''] 2 = Inr (data, valid_pixels, (h, w), profile)"
    by auto
  have "p_transform profile = p_transform (tile_profile 4 4)"
    using prepare_classification_data_transform [OF run, where ds = "band_file (tile_profile 4 4) (full 4 4 (Fin 3))"]
    by simp
  moreover have "row_off (center_window 4 4 2) = 1 \<and> col_off (center_window 4 4 2) = 1"
    by (simp add: center_window_def Let_def)
  ultimately show ?thesis using run by blast
qed

subsection \<open>The label map\<close>

lemma mask_assign_exact:
  "length ms = length xs \<Longrightarrow> length vs = count_list ms True \<Longrightarrow> mask_assign xs ms vs = Inr (mask_fill xs ms vs)"
  by (cases vs) (auto simp: mask_assign_def)

lemma mask_assign_mismatch:
  "length ms = length xs \<Longrightarrow> length vs \<noteq> count_list ms True \<Longrightarrow> length vs \<noteq> 1 \<Longrightarrow>
     mask_assign xs ms vs = Inl ValueError"
  by (simp add: mask_assign_def)

lemma set_mask_fill: "set (mask_fill xs ms vs) \<subseteq> set xs \<union> set vs"
  by (induction xs ms vs rule: mask_fill.induct) auto

lemma set_mask_assign: "mask_assign xs ms vs = Inr ys \<Longrightarrow> set ys \<subseteq> set xs \<union> set vs"
proof -
  assume a: "mask_assign xs ms vs = Inr ys"
  have "set (replicate n (hd vs)) \<subseteq> set vs" if "length vs = 1" for n
    using that by (cases vs) auto
  with a show ?thesis
    using set_mask_fill [of xs ms] by (fastforce simp: mask_assign_def split: if_splits)
qed

lemma unat_label: "l < 255 \<Longrightarrow> unat (of_nat (l + 1) :: 8 word) = l + 1"
  by (simp only: unat_of_nat) simp

lemma label_nonzero: "l < 255 \<Longrightarrow> (of_nat (l + 1) :: 8 word) \<noteq> 0"
  using unat_label [of l] by (metis add_eq_0_iff_both_eq_0 one_neq_zero unat_0)

lemma label_simp_forms:
  "l < 255 \<Longrightarrow> (1 + of_nat l :: 8 word) \<noteq> 0" "l < 255 \<Longrightarrow> unat (1 + of_nat l :: 8 word) = Suc l"
  using label_nonzero [of l] unat_label [of l] by simp_all

lemma create_classification_map_Inr:
  assumes "length valid_pixels = h * w" and "length labels = count_list valid_pixels True"
    and "p_height profile = h" and "p_width profile = w"
  shows "create_classification_map st labels valid_pixels (h, w) output_path profile =
           Inr (st(output_path \<mapsto> \<lparr>ds_profile = uint8_profile profile,
                   ds_band = amap u8_to_fval \<lparr>nrows = h, ncols = w,
                     vals = mask_fill (replicate (h * w) 0) valid_pixels (map (\<lambda>l. of_nat (l + 1)) labels)\<rparr>\<rparr>),
                \<lparr>nrows = h, ncols = w,
                  vals = mask_fill (replicate (h * w) 0) valid_pixels (map (\<lambda>l. of_nat (l + 1)) labels)\<rparr>)"
  using assms
  by (simp add: create_classification_map_def mask_assign_exact write_band1_u8_def write_band1_def
      shape_def nd_wf_def Let_def)

text \<open>
  C32: with one label per valid pixel and fewer than 255 clusters, the label map written
  by \<open>create_classification_map\<close> is a faithful encoding: its non-zero pixels are exactly
  the valid pixels, its non-zero values read in C order are the labels plus one, and the
  written file holds it under the uint8 profile.
\<close>

theorem create_classification_map_roundtrip:
  assumes "length valid_pixels = h * w" and "length labels = count_list valid_pixels True"
    and "\<forall>l \<in> set labels. l < 255" and "p_height profile = h" and "p_width profile = w"
  shows "\<exists>st' M. create_classification_map st labels valid_pixels (h, w) output_path profile = Inr (st', M) \<and>
           shape M = (h, w) \<and> map (\<lambda>x. x \<noteq> 0) (vals M) = valid_pixels \<and>
           map unat (filter (\<lambda>x. x \<noteq> 0) (vals M)) = map (\<lambda>l. l + 1) labels \<and>
           st' output_path = Some \<lparr>ds_profile = uint8_profile profile, ds_band = amap u8_to_fval M\<rparr>"
proof -
  let ?vs = "map (\<lambda>l. of_nat (l + 1) :: 8 word) labels"
  have nz: "\<forall>v \<in> set ?vs. v \<noteq> 0" using assms(3) by (auto dest: label_simp_forms(1))
  have len: "length ?vs = count_list valid_pixels True" using assms(2) by simp
  note fill = mask_fill_zeros [OF assms(1) len nz]
  have "map unat ?vs = map (\<lambda>l. l + 1) labels" using assms(3) by (simp add: label_simp_forms(2))
  with fill show ?thesis
    using create_classification_map_Inr [OF assms(1,2,4,5), of st output_path] by (simp add: shape_def)
qed

lemma create_classification_map_roundtrip_witness:
  "\<exists>st' M. create_classification_map Map.empty [2, 0, 4] [True, True, False, True] (2, 2) ''classification_2021.tif''
             (tile_profile 2 2) = Inr (st', M)
     \<and> map (\<lambda>x. x \<noteq> 0) (vals M) = [True, True, False, True]
     \<and> map unat (filter (\<lambda>x. x \<noteq> 0) (vals M)) = [3, 1, 5]"
  using create_classification_map_roundtrip [of "[True, True, False, True]" 2 2 "[2, 0, 4]" "tile_profile 2 2"
      Map.empty "''classification_2021.tif''"]
  by auto

text \<open>
  Every value of the label map is 0 or a label plus one, so a clusterer with
  \<open>n \<le> 255\<close> clusters yields labels in \<open>0..n\<close>, with 0 only at invalid pixels.
\<close>

lemma create_classification_map_labels:
  assumes "create_classification_map st labels valid_pixels (h, w) output_path profile = Inr (st', M)"
    and "\<forall>l \<in> set labels. l < n" and "n \<le> 255"
  shows "\<forall>x \<in> set (vals M). unat x \<le> n"
proof
  fix x assume x: "x \<in> set (vals M)"
  from assms(1) obtain full_map where
    ma: "mask_assign (replicate (h * w) 0) valid_pixels (map (\<lambda>l. of_nat (l + 1)) labels) = Inr full_map"
    and M: "M = \<lparr>nrows = h, ncols = w, vals = full_map\<rparr>"
    by (auto simp: create_classification_map_def sbind_eq_Inr Let_def)
  have "set full_map \<subseteq> {0} \<union> set (map (\<lambda>l. of_nat (l + 1) :: 8 word) labels)"
    using set_mask_assign [OF ma] by auto
  with x M have "x = 0 \<or> (\<exists>l \<in> set labels. x = 1 + of_nat l)" by auto
  then show "unat x \<le> n"
  proof
    assume "\<exists>l \<in> set labels. x = 1 + of_nat l"
    then obtain l where "l \<in> set labels" "x = 1 + of_nat l" by blast
    with assms(2,3) show ?thesis using label_simp_forms(2) [of l] by auto
  qed simp
qed

lemma create_classification_map_labels_witness:
  "\<exists>st' M. create_classification_map Map.empty [2, 0, 4] [True, True, False, True] (2, 2)
             ''classification_2021.tif'' (tile_profile 2 2) = Inr (st', M)
     \<and> (\<forall>x \<in> set (vals M). unat x \<le> 5)"
proof -
  have "\<exists>r. create_classification_map Map.empty [2, 0, 4] [True, True, False, True] (2, 2)
             ''classification_2021.tif'' (tile_profile 2 2) = Inr r"
    by (simp add: create_classification_map_def mask_assign_def write_band1_u8_def write_band1_def
        shape_def nd_wf_def Let_def)
  then obtain st' M where run: "create_classification_map Map.empty [2, 0, 4] [True, True, False, True] (2, 2)
             ''classification_2021.tif'' (tile_profile 2 2) = Inr (st', M)" by auto
  have "\<forall>x \<in> set (vals M). unat x \<le> 5"
    by (rule create_classification_map_labels [OF run]) simp_all
  with run show ?thesis by blast
qed

text \<open>
  The uint8 store wraps: a valid pixel with cluster id 255 gets label 256 mod 256 = 0,
  the value reserved for invalid pixels (possible only with 256 or more clusters).
\<close>

lemma create_classification_map_wraps:
  "\<exists>st'. create_classification_map Map.empty [255] [True] (1, 1) ''classification_2021.tif''
           (tile_profile 1 1) = Inr (st', \<lparr>nrows = 1, ncols = 1, vals = [0]\<rparr>)"
  by (simp add: create_classification_map_def mask_assign_def write_band1_u8_def write_band1_def
      shape_def nd_wf_def Let_def)

text \<open>
  A label list whose length is neither the number of valid pixels nor 1 makes the
  scatter \<open>full_map[valid_pixels] = labels + 1\<close> raise \<open>ValueError\<close>; nothing is written.
\<close>

lemma create_classification_map_count_mismatch:
  assumes "length valid_pixels = h * w" and "length labels \<noteq> count_list valid_pixels True"
    and "length labels \<noteq> 1"
  shows "create_classification_map st labels valid_pixels (h, w) output_path profile = Inl ValueError"
  using assms by (simp add: create_classification_map_def mask_assign_mismatch)

lemma create_classification_map_count_mismatch_witness:
  "create_classification_map Map.empty [0, 1] [True, True, True, False] (2, 2) ''classification_2021.tif''
     (tile_profile 2 2) = Inl ValueError"
  using create_classification_map_count_mismatch [of "[True, True, True, False]" 2 2 "[0, 1]"]
  by simp

subsection \<open>\<open>main\<close>: one unit per year\<close>

lemma classify_year_frame:
  "p \<noteq> ''data/output/classification_'' @ year @ ''.tif'' \<Longrightarrow> fst (classify_year clusterer st year) p = st p"
  by (auto simp: classify_year_def Let_def unit_of_def sbind_def create_classification_map_def
      write_band1_u8_def write_band1_def split: sum.splits prod.splits)

lemma file_exists_classify_year:
  "list_all (file_exists (fst (classify_year clusterer st ''2021''))) (classification_band_paths ''2025'') =
   list_all (file_exists st) (classification_band_paths ''2025'')"
  by (simp add: classification_band_paths_def file_exists_def classify_year_frame)

text \<open>
  C36: a year with a missing band is skipped without writing anything, and the run of
  \<open>main\<close> is then exactly the other year's unit: whichever of 2021 and 2025 lacks a band,
  its absence does not affect the other year, and the 2021 unit never creates the 2025
  bands it would need.
\<close>

theorem classification_main_skips_missing_year:
  assumes "year \<in> {''2021'', ''2025''}" and "\<not> list_all (file_exists st) (classification_band_paths year)"
  shows "classification_main clusterer st =
           classify_year clusterer st (if year = ''2021'' then ''2025'' else ''2021'')"
proof (cases "year = ''2021''")
  case True
  with assms(2) show ?thesis
    by (simp add: classification_main_def classify_year_def split: prod.splits option.splits)
next
  case False
  with assms(1) have y: "year = ''2025''" by simp
  obtain st' e where c: "classify_year clusterer st ''2021'' = (st', e)" by fastforce
  have "\<not> list_all (file_exists st') (classification_band_paths ''2025'')"
    using assms(2) y file_exists_classify_year [of clusterer st] c by simp
  then have "classify_year clusterer st' ''2025'' = (st', None)" by (simp add: classify_year_def)
  with c y show ?thesis by (cases e) (simp_all add: classification_main_def)
qed

lemma classification_main_skips_missing_year_witness:
  "classification_main (\<lambda>data. Inr (replicate (length data) 0)) stack_2021 =
   classify_year (\<lambda>data. Inr (replicate (length data) 0)) stack_2021
     (if ''2025'' = ''2021'' then ''2025'' else ''2021'')"
  by (rule classification_main_skips_missing_year)
     (simp_all add: classification_band_paths_def file_exists_def)

text \<open>
  An exception raised in the 2021 unit ends \<open>main\<close>: the 2025 unit never runs. The
  specification asks that a failure in one unit not abort its siblings; only missing files
  are handled per unit.
\<close>

lemma classification_main_error_aborts:
  assumes "classify_year clusterer st ''2021'' = (st', Some e)"
  shows "classification_main clusterer st = (st', Some e)"
  using assms by (simp add: classification_main_def)

lemma classification_main_error_aborts_witness:
  "classify_year (\<lambda>data. Inr (replicate (length data) 0))
     (stack_2021(''data/2021/B3.tif'' \<mapsto> band_file (tile_profile 1 1) (full 1 1 (Fin 5)))) ''2021''
     = (stack_2021(''data/2021/B3.tif'' \<mapsto> band_file (tile_profile 1 1) (full 1 1 (Fin 5))), Some ValueError)
   \<and> classification_main (\<lambda>data. Inr (replicate (length data) 0))
     (stack_2021(''data/2021/B3.tif'' \<mapsto> band_file (tile_profile 1 1) (full 1 1 (Fin 5))))
     = (stack_2021(''data/2021/B3.tif'' \<mapsto> band_file (tile_profile 1 1) (full 1 1 (Fin 5))), Some ValueError)"
proof -
  let ?st = "stack_2021(''data/2021/B3.tif'' \<mapsto> band_file (tile_profile 1 1) (full 1 1 (Fin 5)))"
  have run: "classify_year (\<lambda>data. Inr (replicate (length data) 0)) ?st ''2021'' = (?st, Some ValueError)"
    by (simp add: classify_year_def prepare_classification_data_def classification_band_paths_def
        read_band1_def read_window_def center_window_def file_exists_def Let_def full_def)
  with classification_main_error_aborts [OF run] show ?thesis by simp
qed

text \<open>
  C38: a year whose four bands are present and give valid pixels is classified and its
  label map written to \<open>data/output/classification_<year>.tif\<close>: for any clusterer that
  returns one label below \<open>n \<le> 255\<close> per valid pixel, the map is non-zero exactly at the
  valid pixels of the window and holds their labels plus one, in order.
\<close>

theorem classify_year_writes_map:
  assumes "clusterer_ok clusterer n" and "n \<le> 255"
    and "list_all (file_exists st) (classification_band_paths year)"
    and "prepare_classification_data st (classification_band_paths year) 100 = Inr (data, valid_pixels, (h, w), profile)"
    and "data \<noteq> []" and "clusterer data = Inr labels"
  shows "\<exists>M. classify_year clusterer st year =
              (st(''data/output/classification_'' @ year @ ''.tif'' \<mapsto>
                   \<lparr>ds_profile = uint8_profile profile, ds_band = amap u8_to_fval M\<rparr>), None) \<and>
            shape M = (h, w) \<and> map (\<lambda>x. x \<noteq> 0) (vals M) = valid_pixels \<and>
            map unat (filter (\<lambda>x. x \<noteq> 0) (vals M)) = map (\<lambda>l. l + 1) labels"
proof -
  note F = prepare_classification_data_facts [OF assms(4)]
  from assms(1,6) have L: "length labels = length data" "\<forall>l \<in> set labels. l < n"
    by (simp_all add: clusterer_ok_def)
  let ?vs = "map (\<lambda>l. of_nat (l + 1) :: 8 word) labels"
  let ?M = "\<lparr>nrows = h, ncols = w, vals = mask_fill (replicate (h * w) 0) valid_pixels ?vs\<rparr>"
  have len: "length valid_pixels = h * w" "length labels = count_list valid_pixels True"
    using F L by simp_all
  have lt: "\<forall>l \<in> set labels. l < 255" using L(2) assms(2) by auto
  have nz: "\<forall>v \<in> set ?vs. v \<noteq> 0" using lt by (auto dest: label_simp_forms(1))
  have "length ?vs = count_list valid_pixels True" using len(2) by simp
  from mask_fill_zeros [OF len(1) this nz]
  have fill: "map (\<lambda>x. x \<noteq> 0) (vals ?M) = valid_pixels \<and> filter (\<lambda>x. x \<noteq> 0) (vals ?M) = ?vs"
    by simp
  have un: "map unat ?vs = map (\<lambda>l. l + 1) labels" using lt by (simp add: label_simp_forms(2))
  have "classify_year clusterer st year =
          (st(''data/output/classification_'' @ year @ ''.tif'' \<mapsto>
               \<lparr>ds_profile = uint8_profile profile, ds_band = amap u8_to_fval ?M\<rparr>), None)"
    using assms(3-6) create_classification_map_Inr [OF len] F
    by (simp add: classify_year_def unit_of_def)
  with fill un show ?thesis by (intro exI [of _ ?M]) (simp add: shape_def)
qed

lemma classify_year_writes_map_witness:
  "\<exists>M. classify_year (\<lambda>data. Inr (replicate (length data) 0)) stack_2021 ''2021'' =
         (stack_2021(''data/output/classification_2021.tif'' \<mapsto>
            \<lparr>ds_profile = uint8_profile (tile_profile 2 2), ds_band = amap u8_to_fval M\<rparr>), None)
     \<and> shape M = (2, 2) \<and> map (\<lambda>x. x \<noteq> 0) (vals M) = [True, True, False, True]
     \<and> map unat (filter (\<lambda>x. x \<noteq> 0) (vals M)) = [1, 1, 1]"
proof -
  have prep: "prepare_classification_data stack_2021 (classification_band_paths ''2021'') 100 =
    Inr ([[Fin 5, Fin 5, Fin 1, Fin 9], [Fin 6, Fin 6, Fin 2, Fin 9], [Fin 8, Fin 8, Fin 4, Fin 9]],
         [True, True, False, True], (2, 2), tile_profile 2 2)"
    by (simp add: prepare_classification_data_def classification_band_paths_def read_band1_def
        read_window_def center_window_def Let_def tabulate_def nd_at_def upt_rec valid_pixel_def fval_simps)
  have ok: "clusterer_ok (\<lambda>data. Inr (replicate (length data) 0)) 1"
    by (simp add: clusterer_ok_def)
  show ?thesis
    using classify_year_writes_map [OF ok _ _ prep, of "[0, 0, 0]"]
    by (simp add: classification_band_paths_def file_exists_def numeral_3_eq_3)
qed

subsection \<open>The store invariant\<close>

text \<open>Every write goes through \<open>write_band1\<close>, which refuses a band of the wrong shape, so
  \<open>store_wf\<close> holds after each function of this part whenever it held before.\<close>

lemma create_classification_map_store_wf:
  "create_classification_map st l v s p prof = Inr (st', x) \<Longrightarrow> store_wf st \<Longrightarrow> store_wf st'"
  by (auto simp: create_classification_map_def sbind_eq_Inr Let_def split: prod.splits intro: store_wf_writes)

lemma unit_of_create_map_store_wf:
  "store_wf st \<Longrightarrow>
     store_wf (fst (unit_of st (sbind (create_classification_map st l v s p prof) (\<lambda>(st', _). Inr st'))))"
  by (cases "create_classification_map st l v s p prof")
     (auto simp: unit_of_def create_classification_map_store_wf)

lemma classify_year_store_wf: "store_wf st \<Longrightarrow> store_wf (fst (classify_year clusterer st year))"
  by (simp add: classify_year_def Let_def unit_of_create_map_store_wf split: sum.splits prod.splits)

lemma classification_main_store_wf: "store_wf st \<Longrightarrow> store_wf (fst (classification_main clusterer st))"
  unfolding classification_main_def
  by (rule run_units_invariant [where P = store_wf]) (rule classify_year_store_wf)

end
