(* ===== verification/Pipeline.thy ===== *)
theory Pipeline
  imports Change_Detection Urban_Extraction Classification
begin

text \<open>
  The scripts' \<open>main\<close> functions and the master script \<open>src/run_all_analyses.py\<close>. Each
  \<open>main\<close> returns the store it leaves and the exception that ended it, if any: statements
  before an exception keep their writes. The plots (\<open>plt.savefig\<close> of PNG files) and the
  prints are not modelled; \<open>np.min\<close> and \<open>np.mean\<close> of an empty array raise \<open>ValueError\<close>,
  which is modelled where the code prints statistics. \<open>run_all_analyses\<close> runs the four
  scripts in sequence as subprocesses: the store is shared, a failing script
  (\<open>CalledProcessError\<close>) is reported and the next one still runs.
\<close>

subsection \<open>\<open>calculate_ndvi.py\<close>\<close>

text \<open>One iteration of \<open>main\<close>'s loop, lines 64--88 (\<open>plot_ndvi\<close> not modelled).\<close>

definition ndvi_year :: "store \<Rightarrow> string \<Rightarrow> store \<times> py_error option" where
  "ndvi_year st year =
     (let red_band = ''data/'' @ year @ ''/B4.tif''; nir_band = ''data/'' @ year @ ''/B8.tif''
      in if \<not> file_exists st red_band \<or> \<not> file_exists st nir_band then (st, None)
         else case calculate_ndvi st red_band nir_band (''data/output/ndvi_'' @ year @ ''.tif'') of
                Inl e \<Rightarrow> (st, Some e)
              | Inr (st', ndvi) \<Rightarrow> if vals ndvi = [] then (st', Some ValueError) else (st', None))"

text \<open>
  \<open>main()\<close>, lines 55--108: the loop over the two years, then the CRS check, which opens
  \<open>data/2021/B2.tif\<close> and the country shapefile. Whether geopandas can read the shapefile
  and reproject it onto the raster's CRS (\<open>to_crs\<close> raises on a raster without one) is
  the parameter \<open>roi_ok\<close>.
\<close>

definition ndvi_main :: "bool \<Rightarrow> store \<Rightarrow> store \<times> py_error option" where
  "ndvi_main roi_ok st =
     (case run_units ndvi_year st [''2021'', ''2025''] of
        (st', Some e) \<Rightarrow> (st', Some e)
      | (st', None) \<Rightarrow>
          (case read_band1 st' ''data/2021/B2.tif'' of
             Inl e \<Rightarrow> (st', Some e)
           | Inr _ \<Rightarrow> if roi_ok then (st', None) else (st', Some DataSourceError)))"

subsection \<open>\<open>change_detection.py\<close>\<close>

text \<open>
  \<open>calculate_change_statistics(ndvi_diff, changes, change_matrix)\<close>, lines 127--159: the
  change table (class, count, percentage) and, when a change matrix is given, the number
  of changed pixels with its percentage and the unchanged ones with theirs.
  \<open>np.min(ndvi_diff)\<close> raises on an empty array.
\<close>

definition calculate_change_statistics ::
  "fval ndarray \<Rightarrow> 8 word ndarray \<Rightarrow> 8 word ndarray option
     \<Rightarrow> py_error + (8 word \<times> nat \<times> fval) list \<times> (nat \<times> fval \<times> int \<times> fval) option" where
  "calculate_change_statistics ndvi_diff changes change_matrix =
     (if vals ndvi_diff = [] then Inl ValueError
      else
        let uc = np_unique_counts (vals changes);
            total_pixels = sum_list (map snd uc);
            table = map (\<lambda>(change_id, n). (change_id, n, percentage n total_pixels)) uc;
            summary = map_option (\<lambda>m.
              let changed_pixels = sum_list (map unat (vals m));
                  total_pixels_class = length (vals m);
                  change_percentage = percentage changed_pixels total_pixels_class
              in (changed_pixels, change_percentage, int total_pixels_class - int changed_pixels,
                  fsub (Fin 100) change_percentage)) change_matrix
        in Inr (table, summary))"

text \<open>\<open>main()\<close>, lines 161--216 (\<open>plot_changes\<close> not modelled).\<close>

definition change_main :: "store \<Rightarrow> store \<times> py_error option" where
  "change_main st =
     (let ndvi_2021_path = ''data/output/ndvi_2021.tif''; ndvi_2025_path = ''data/output/ndvi_2025.tif'';
          class_2021_path = ''data/output/classification_2021.tif'';
          class_2025_path = ''data/output/classification_2025.tif''
      in if \<not> file_exists st ndvi_2021_path \<or> \<not> file_exists st ndvi_2025_path then (st, None)
      else case calculate_ndvi_difference st ndvi_2021_path ndvi_2025_path ''data/output/ndvi_difference.tif'' of
        Inl e \<Rightarrow> (st, Some e)
      | Inr (st1, ndvi_diff) \<Rightarrow>
        (case classify_changes ndvi_diff (1/10) of
          Inl e \<Rightarrow> (st1, Some e)
        | Inr changes \<Rightarrow>
          (case read_band1 st1 ndvi_2021_path of
            Inl e \<Rightarrow> (st1, Some e)
          | Inr (_, profile) \<Rightarrow>
            (case write_band1_u8 st1 ''data/output/changes.tif'' (uint8_profile profile) changes of
              Inl e \<Rightarrow> (st1, Some e)
            | Inr st2 \<Rightarrow>
              (case (if file_exists st2 class_2021_path \<and> file_exists st2 class_2025_path
                     then sbind (compare_classifications st2 class_2021_path class_2025_path
                                   ''data/output/classification_changes.tif'')
                                (\<lambda>(st3, change_matrix). Inr (st3, Some change_matrix))
                     else Inr (st2, None)) of
                Inl e \<Rightarrow> (st2, Some e)
              | Inr (st3, change_matrix) \<Rightarrow>
                (case calculate_change_statistics ndvi_diff changes change_matrix of
                  Inl e \<Rightarrow> (st3, Some e)
                | Inr _ \<Rightarrow> (st3, None)))))))"

subsection \<open>\<open>urban_extraction.py\<close>\<close>

text \<open>One iteration of \<open>main\<close>'s loop, lines 222--268 (\<open>plot_urban_extraction\<close> not modelled).\<close>

definition urban_year :: "store \<Rightarrow> string \<Rightarrow> store \<times> py_error option" where
  "urban_year st year =
     (let red_band = ''data/'' @ year @ ''/B4.tif''; nir_band = ''data/'' @ year @ ''/B8.tif'';
          swir_band = ''data/'' @ year @ ''/B11.tif''
      in if \<not> list_all (file_exists st) [red_band, nir_band, swir_band] then (st, None)
      else case calculate_built_up_index st red_band nir_band swir_band (''data/output/bui_'' @ year @ ''.tif'') of
        Inl e \<Rightarrow> (st, Some e)
      | Inr (st1, bui, ndvi, ndbi) \<Rightarrow>
        (case extract_urban_areas ndvi bui (3/10) (1/10) of
          Inl e \<Rightarrow> (st1, Some e)
        | Inr urban_mask \<Rightarrow>
          (case read_band1 st1 red_band of
            Inl e \<Rightarrow> (st1, Some e)
          | Inr (_, profile) \<Rightarrow>
            unit_of st1 (save_urban_areas st1 urban_mask (''data/output/urban_areas_'' @ year @ ''.tif'') profile))))"

definition urban_main :: "store \<Rightarrow> store \<times> py_error option" where
  "urban_main st = run_units urban_year st [''2021'', ''2025'']"

subsection \<open>\<open>run_all_analyses.py\<close>\<close>

text \<open>
  \<open>main()\<close>, lines 116--176, with \<open>run_script\<close> (lines 11--31): each analysis runs to its
  end; \<open>run_script\<close> reports success exactly when the script raised nothing.
  \<open>check_dependencies\<close> is the parameter \<open>deps_ok\<close>; \<open>check_data_files\<close> only prints, and
  its result is not used.
\<close>

definition run_script :: "(store \<Rightarrow> store \<times> py_error option) \<Rightarrow> store \<Rightarrow> store \<times> bool" where
  "run_script script st = (let (st', err) = script st in (st', err = None))"

text \<open>The loop of lines 143--150: every analysis runs, whatever the previous ones returned.\<close>

fun run_analyses ::
  "(string \<times> (store \<Rightarrow> store \<times> py_error option)) list \<Rightarrow> store \<Rightarrow> store \<times> (string \<times> bool) list" where
  "run_analyses [] st = (st, [])"
| "run_analyses ((description, script) # analyses) st =
     (let (st1, success) = run_script script st;
          (st2, results) = run_analyses analyses st1
      in (st2, (description, success) # results))"

definition run_all_analyses ::
  "bool \<Rightarrow> bool \<Rightarrow> (fval list list \<Rightarrow> py_error + nat list) \<Rightarrow> store \<Rightarrow> store \<times> (string \<times> bool) list" where
  "run_all_analyses deps_ok roi_ok clusterer st =
     (if \<not> deps_ok then (st, [])
      else run_analyses
             [(''NDVI Calculation'', ndvi_main roi_ok),
              (''Land Cover Classification'', classification_main clusterer),
              (''Change Detection'', change_main),
              (''Urban Area Extraction'', urban_main)] st)"

text \<open>The summary line: \<open>successful\<close> out of \<open>total\<close>.\<close>

definition analysis_summary :: "(string \<times> bool) list \<Rightarrow> nat \<times> nat" where
  "analysis_summary results = (length (filter snd results), length results)"

subsection \<open>Skipped units\<close>

lemma ndvi_year_missing:
  "\<not> file_exists st (''data/'' @ year @ ''/B4.tif'') \<or> \<not> file_exists st (''data/'' @ year @ ''/B8.tif'') \<Longrightarrow>
     ndvi_year st year = (st, None)"
  by (auto simp: ndvi_year_def)

lemma urban_year_missing:
  "\<not> list_all (file_exists st) [''data/'' @ year @ ''/B4.tif'', ''data/'' @ year @ ''/B8.tif'', ''data/'' @ year @ ''/B11.tif''] \<Longrightarrow>
     urban_year st year = (st, None)"
  by (simp add: urban_year_def)

lemma change_main_missing:
  "\<not> file_exists st ''data/output/ndvi_2021.tif'' \<or> \<not> file_exists st ''data/output/ndvi_2025.tif'' \<Longrightarrow>
     change_main st = (st, None)"
  by (auto simp: change_main_def)

lemma run_units_skip_first:
  "f st u = (st, None) \<Longrightarrow> run_units f st (u # us) = run_units f st us"
  by simp

lemma urban_main_skips_missing_year:
  "\<not> list_all (file_exists st) [''data/2021/B4.tif'', ''data/2021/B8.tif'', ''data/2021/B11.tif''] \<Longrightarrow>
     urban_main st = run_units urban_year st [''2025'']"
  using urban_year_missing [of st "''2021''"] by (simp add: urban_main_def)

subsection \<open>A complete NDVI year\<close>

lemma ndvi_year_run:
  assumes r: "st (''data/'' @ year @ ''/B4.tif'') = Some R" and n: "st (''data/'' @ year @ ''/B8.tif'') = Some N"
    and wfR: "ds_wf R" and wfN: "nd_wf (ds_band N)" and sh: "shape (ds_band N) = shape (ds_band R)"
    and ne: "vals (ds_band R) \<noteq> []"
  shows "ndvi_year st year =
           (st(''data/output/ndvi_'' @ year @ ''.tif'' \<mapsto>
                 \<lparr>ds_profile = float_profile (ds_profile R),
                  ds_band = \<lparr>nrows = nrows (ds_band R), ncols = ncols (ds_band R),
                              vals = map2 norm_diff_px (vals (ds_band N)) (vals (ds_band R))\<rparr>\<rparr>), None)"
proof -
  let ?R = "ds_band R" and ?N = "ds_band N"
  let ?ndvi = "\<lparr>nrows = nrows ?R, ncols = ncols ?R, vals = map2 norm_diff_px (vals ?N) (vals ?R)\<rparr>"
  have shR: "shape ?R = (p_height (ds_profile R), p_width (ds_profile R))" and wfR': "nd_wf ?R"
    using wfR by (simp_all add: ds_wf_def)
  have b: "broadcast2 norm_diff_px ?N ?R = Inr ?ndvi"
    using broadcast2_same_shape [OF wfN wfR' sh] sh by (simp add: shape_def)
  have lenN: "length (vals ?N) = length (vals ?R)"
    using wfR' wfN sh by (simp add: nd_wf_def shape_def)
  have wfn: "nd_wf ?ndvi" using wfR' lenN by (simp add: nd_wf_def)
  have nne: "vals ?ndvi \<noteq> []" using ne lenN by (cases "vals ?R"; cases "vals ?N") simp_all
  show ?thesis
    using r n b wfn nne shR
    by (simp add: ndvi_year_def calculate_ndvi_def read_band1_def write_band1_def file_exists_def
        shape_def Let_def)
qed

subsection \<open>A complete change-detection run\<close>

text \<open>The run of \<open>change_detection.py\<close> on two well-formed NDVI rasters of one shape.\<close>

lemma change_main_run:
  assumes d21: "st ''data/output/ndvi_2021.tif'' = Some D21" and d25: "st ''data/output/ndvi_2025.tif'' = Some D25"
    and wfA: "ds_wf D21" and wfB: "nd_wf (ds_band D25)"
    and sh: "shape (ds_band D25) = shape (ds_band D21)" and ne: "vals (ds_band D21) \<noteq> []"
    and nc: "\<not> file_exists st ''data/output/classification_2021.tif''"
  shows "change_main st =
           (st(''data/output/ndvi_difference.tif'' \<mapsto>
                 \<lparr>ds_profile = float_profile (ds_profile D21),
                  ds_band = \<lparr>nrows = nrows (ds_band D21), ncols = ncols (ds_band D21),
                              vals = map2 fsub (vals (ds_band D25)) (vals (ds_band D21))\<rparr>\<rparr>,
               ''data/output/changes.tif'' \<mapsto>
                 \<lparr>ds_profile = uint8_profile (ds_profile D21),
                  ds_band = amap u8_to_fval (amap (change_code (1/10))
                              \<lparr>nrows = nrows (ds_band D21), ncols = ncols (ds_band D21),
                               vals = map2 fsub (vals (ds_band D25)) (vals (ds_band D21))\<rparr>)\<rparr>),
            None)"
proof -
  let ?A = "ds_band D21" and ?B = "ds_band D25"
  let ?diff = "\<lparr>nrows = nrows ?A, ncols = ncols ?A, vals = map2 fsub (vals ?B) (vals ?A)\<rparr>"
  have shA: "shape ?A = (p_height (ds_profile D21), p_width (ds_profile D21))" and wfA': "nd_wf ?A"
    using wfA by (simp_all add: ds_wf_def)
  have b: "broadcast2 fsub ?B ?A = Inr ?diff"
    using broadcast2_same_shape [OF wfB wfA' sh] sh by (simp add: shape_def)
  have lenB: "length (vals ?B) = length (vals ?A)"
    using wfA' wfB sh by (simp add: nd_wf_def shape_def)
  have wfd: "nd_wf ?diff" using wfA' lenB by (simp add: nd_wf_def)
  have dne: "vals ?diff \<noteq> []" using ne lenB by (cases "vals ?A"; cases "vals ?B") simp_all
  show ?thesis
    using d21 d25 nc b wfd dne shA
    by (simp add: change_main_def calculate_ndvi_difference_def read_band1_def write_band1_def
        write_band1_u8_def classify_changes_eq calculate_change_statistics_def file_exists_def
        shape_def nd_wf_def Let_def)
qed

text \<open>
  C25: with both NDVI rasters of one shape present and no classification maps yet,
  \<open>change_detection.py\<close> runs to its end and writes exactly two rasters: the difference
  \<open>ndvi_2025 - ndvi_2021\<close> under the float32 profile of the 2021 raster, and the change
  raster, whose pixels are the codes \<open>change_code\<close> of the differences with \<open>\<tau> = 0.1\<close>,
  under its uint8 profile.
\<close>

theorem change_main_writes:
  assumes wf: "store_wf st"
    and d21: "st ''data/output/ndvi_2021.tif'' = Some D21" and d25: "st ''data/output/ndvi_2025.tif'' = Some D25"
    and sh: "shape (ds_band D25) = shape (ds_band D21)" and ne: "vals (ds_band D21) \<noteq> []"
    and nc: "\<not> file_exists st ''data/output/classification_2021.tif''"
  shows "change_main st =
           (st(''data/output/ndvi_difference.tif'' \<mapsto>
                 \<lparr>ds_profile = float_profile (ds_profile D21),
                  ds_band = \<lparr>nrows = nrows (ds_band D21), ncols = ncols (ds_band D21),
                              vals = map2 fsub (vals (ds_band D25)) (vals (ds_band D21))\<rparr>\<rparr>,
               ''data/output/changes.tif'' \<mapsto>
                 \<lparr>ds_profile = uint8_profile (ds_profile D21),
                  ds_band = amap u8_to_fval (amap (change_code (1/10))
                              \<lparr>nrows = nrows (ds_band D21), ncols = ncols (ds_band D21),
                               vals = map2 fsub (vals (ds_band D25)) (vals (ds_band D21))\<rparr>)\<rparr>),
            None)"
proof -
  have r21: "read_band1 st ''data/output/ndvi_2021.tif'' = Inr (ds_band D21, ds_profile D21)"
    and r25: "read_band1 st ''data/output/ndvi_2025.tif'' = Inr (ds_band D25, ds_profile D25)"
    using d21 d25 by (simp_all add: read_band1_def)
  have "ds_wf D21" using store_wf_read [OF wf r21] by (simp add: ds_wf_def)
  moreover have "nd_wf (ds_band D25)" using store_wf_read(1) [OF wf r25] .
  ultimately show ?thesis by (rule change_main_run [OF d21 d25 _ _ sh ne nc])
qed

lemma change_main_writes_witness:
  "\<exists>st'. change_main
      [''data/output/ndvi_2021.tif'' \<mapsto> band_file (float_profile (tile_profile 1 2)) (full 1 2 (Fin (2/10))),
       ''data/output/ndvi_2025.tif'' \<mapsto> band_file (float_profile (tile_profile 1 2)) (full 1 2 (Fin (35/100)))]
     = (st', None)
   \<and> st' ''data/output/changes.tif'' =
       Some \<lparr>ds_profile = uint8_profile (float_profile (tile_profile 1 2)), ds_band = full 1 2 (Fin 2)\<rparr>"
proof -
  let ?D21 = "band_file (float_profile (tile_profile 1 2)) (full 1 2 (Fin (2/10)))"
    and ?D25 = "band_file (float_profile (tile_profile 1 2)) (full 1 2 (Fin (35/100)))"
  let ?st = "[''data/output/ndvi_2021.tif'' \<mapsto> ?D21, ''data/output/ndvi_2025.tif'' \<mapsto> ?D25]"
  have wf: "store_wf ?st"
    by (intro store_wf_upd store_wf_empty) (simp_all add: ds_wf_def nd_wf_def shape_def full_def float_profile_def)
  from change_main_writes [of ?st ?D21 ?D25, OF wf]
  show ?thesis
    by (simp add: full_def shape_def file_exists_def amap_def change_code_def u8_to_fval_def)
qed

subsection \<open>The master script\<close>

lemma run_analyses_step:
  "run_analyses ((description, script) # analyses) st =
     (fst (run_analyses analyses (fst (script st))),
      (description, snd (script st) = None) # snd (run_analyses analyses (fst (script st))))"
  by (simp add: run_script_def split: prod.splits)

text \<open>
  C37: the master loop runs every analysis, whatever the previous ones returned: the results
  name the analyses in order, the \<open>i\<close>-th result is a success exactly when the \<open>i\<close>-th
  script raised nothing on the store the first \<open>i\<close> scripts left, and the final store is
  the one all scripts leave in turn. A failing analysis never stops the later ones.
\<close>

theorem run_analyses_runs_all:
  "map fst (snd (run_analyses analyses st)) = map fst analyses
   \<and> (\<forall>i < length analyses. snd (snd (run_analyses analyses st) ! i) =
          (snd (snd (analyses ! i) (fold (\<lambda>(_, script) st. fst (script st)) (take i analyses) st)) = None))
   \<and> fst (run_analyses analyses st) = fold (\<lambda>(_, script) st. fst (script st)) analyses st"
proof (induction analyses arbitrary: st)
  case (Cons a analyses)
  obtain description script where a: "a = (description, script)" by fastforce
  show ?case
  proof (intro conjI allI impI)
    show "map fst (snd (run_analyses (a # analyses) st)) = map fst (a # analyses)"
      using Cons.IH [of "fst (script st)"] by (simp add: a run_analyses_step del: run_analyses.simps)
    show "fst (run_analyses (a # analyses) st) = fold (\<lambda>(_, script) st. fst (script st)) (a # analyses) st"
      using Cons.IH [of "fst (script st)"] by (simp add: a run_analyses_step del: run_analyses.simps)
  next
    fix i assume i: "i < length (a # analyses)"
    show "snd (snd (run_analyses (a # analyses) st) ! i) =
          (snd (snd ((a # analyses) ! i) (fold (\<lambda>(_, script) st. fst (script st)) (take i (a # analyses)) st)) = None)"
    proof (cases i)
      case 0
      then show ?thesis by (simp add: a run_analyses_step del: run_analyses.simps)
    next
      case (Suc j)
      with i have "j < length analyses" by simp
      with Cons.IH [of "fst (script st)"] Suc show ?thesis
        by (simp add: a run_analyses_step del: run_analyses.simps)
    qed
  qed
qed simp

lemma run_analyses_runs_all_witness:
  "map fst (snd (run_analyses [(''A'', \<lambda>st. (st, Some ValueError)), (''B'', \<lambda>st. (st(''b'' \<mapsto> band_file (tile_profile 1 1) (full 1 1 (Fin 0))), None))] Map.empty)) = [''A'', ''B'']
   \<and> snd (snd (run_analyses [(''A'', \<lambda>st. (st, Some ValueError)), (''B'', \<lambda>st. (st(''b'' \<mapsto> band_file (tile_profile 1 1) (full 1 1 (Fin 0))), None))] Map.empty) ! 0) = False
   \<and> snd (snd (run_analyses [(''A'', \<lambda>st. (st, Some ValueError)), (''B'', \<lambda>st. (st(''b'' \<mapsto> band_file (tile_profile 1 1) (full 1 1 (Fin 0))), None))] Map.empty) ! 1) = True
   \<and> fst (run_analyses [(''A'', \<lambda>st. (st, Some ValueError)), (''B'', \<lambda>st. (st(''b'' \<mapsto> band_file (tile_profile 1 1) (full 1 1 (Fin 0))), None))] Map.empty) = [''b'' \<mapsto> band_file (tile_profile 1 1) (full 1 1 (Fin 0))]"
  using run_analyses_runs_all [of "[(''A'', \<lambda>st. (st, Some ValueError)), (''B'', \<lambda>st. (st(''b'' \<mapsto> band_file (tile_profile 1 1) (full 1 1 (Fin 0))), None))]" Map.empty]
  by (simp add: run_analyses_step del: run_analyses.simps)

text \<open>Each script of the master run starts from the store the previous one left.\<close>

lemma run_all_analyses_store:
  "run_all_analyses True roi_ok clusterer st =
     (fst (urban_main (fst (change_main (fst (classification_main clusterer (fst (ndvi_main roi_ok st))))))),
      [(''NDVI Calculation'', snd (ndvi_main roi_ok st) = None),
       (''Land Cover Classification'', snd (classification_main clusterer (fst (ndvi_main roi_ok st))) = None),
       (''Change Detection'', snd (change_main (fst (classification_main clusterer (fst (ndvi_main roi_ok st))))) = None),
       (''Urban Area Extraction'',
          snd (urban_main (fst (change_main (fst (classification_main clusterer (fst (ndvi_main roi_ok st))))))) = None)])"
  by (simp add: run_all_analyses_def run_script_def Let_def split: prod.splits)

text \<open>
  C39: \<open>calculate_ndvi.py\<close> fails whenever \<open>data/2021/B2.tif\<close> is absent, although NDVI
  uses only B4 and B8: after both years are processed, the CRS check at the end of
  \<open>main\<close> opens B2 and raises rasterio's I/O error. The NDVI rasters already written stay.
\<close>

theorem ndvi_main_requires_b2:
  assumes "run_units ndvi_year st [''2021'', ''2025''] = (st', None)"
    and "\<not> file_exists st' ''data/2021/B2.tif''"
  shows "ndvi_main roi_ok st = (st', Some RasterioIOError)"
  using assms by (simp add: ndvi_main_def read_band1_def file_exists_def)

lemma ndvi_main_requires_b2_witness:
  "ndvi_main True
     [''data/2021/B4.tif'' \<mapsto> band_file (tile_profile 1 1) (full 1 1 (Fin 1)),
      ''data/2021/B8.tif'' \<mapsto> band_file (tile_profile 1 1) (full 1 1 (Fin 3))]
   = ([''data/2021/B4.tif'' \<mapsto> band_file (tile_profile 1 1) (full 1 1 (Fin 1)),
       ''data/2021/B8.tif'' \<mapsto> band_file (tile_profile 1 1) (full 1 1 (Fin 3)),
       ''data/output/ndvi_2021.tif'' \<mapsto> band_file (float_profile (tile_profile 1 1)) (full 1 1 (Fin (1/2)))],
      Some RasterioIOError)"
proof -
  let ?st = "[''data/2021/B4.tif'' \<mapsto> band_file (tile_profile 1 1) (full 1 1 (Fin 1)),
              ''data/2021/B8.tif'' \<mapsto> band_file (tile_profile 1 1) (full 1 1 (Fin 3))]"
  let ?st' = "?st(''data/output/ndvi_2021.tif'' \<mapsto> band_file (float_profile (tile_profile 1 1)) (full 1 1 (Fin (1/2))))"
  have run: "run_units ndvi_year ?st [''2021'', ''2025''] = (?st', None)"
    by (simp add: ndvi_year_def calculate_ndvi_def read_band1_def write_band1_def file_exists_def
        broadcast2_def bdim_def tabulate_def bidx_def nd_at_def shape_def nd_wf_def full_def
        norm_diff_px_def np_where_def fval_simps)
  have "\<not> file_exists ?st' ''data/2021/B2.tif''" by (simp add: file_exists_def)
  with ndvi_main_requires_b2 [OF run] show ?thesis by simp
qed

text \<open>
  On a store without any input the master script reports NDVI as failed (the B2 check)
  and the three other analyses as successful, though they skipped every unit and wrote
  nothing: a skipped analysis counts as a success in the summary.
\<close>

lemma run_all_analyses_empty_store:
  "run_all_analyses True roi_ok clusterer Map.empty =
     (Map.empty, [(''NDVI Calculation'', False), (''Land Cover Classification'', True),
                  (''Change Detection'', True), (''Urban Area Extraction'', True)])"
  by (simp add: run_all_analyses_def run_script_def ndvi_main_def ndvi_year_def classification_main_def
      classify_year_def change_main_def urban_main_def urban_year_def file_exists_def
      classification_band_paths_def)

subsection \<open>The store invariant\<close>

text \<open>Every write goes through \<open>write_band1\<close>, which refuses a band of the wrong shape, so
  \<open>store_wf\<close> holds after each function of this part whenever it held before.\<close>

lemma ndvi_main_store_wf: "store_wf st \<Longrightarrow> store_wf (fst (ndvi_main roi_ok st))"
proof -
  assume wf: "store_wf st"
  have "store_wf (fst (run_units ndvi_year st [''2021'', ''2025'']))"
    by (rule run_units_invariant [where P = store_wf, OF _ wf])
       (auto simp: ndvi_year_def Let_def split: sum.splits prod.splits intro: calculate_ndvi_store_wf)
  then show ?thesis by (auto simp: ndvi_main_def split: prod.splits option.splits sum.splits)
qed

lemma change_tail_store_wf:
  assumes "store_wf st2"
    and "sbind (compare_classifications st2 a b p) (\<lambda>(st3, cm). Inr (st3, Some cm)) = Inr (st3, m)"
  shows "store_wf st3"
  using assms by (auto simp: sbind_eq_Inr split: prod.splits intro: compare_classifications_store_wf)

lemma change_main_store_wf:
  assumes wf: "store_wf st"
  shows "store_wf (fst (change_main st))"
proof (cases "calculate_ndvi_difference st ''data/output/ndvi_2021.tif'' ''data/output/ndvi_2025.tif''
                ''data/output/ndvi_difference.tif''")
  case (Inl e)
  then show ?thesis using wf by (simp add: change_main_def Let_def)
next
  case (Inr r)
  obtain st1 d where r: "r = (st1, d)" by fastforce
  have wf1: "store_wf st1" using calculate_ndvi_difference_store_wf Inr r wf by blast
  note w = store_wf_write_u8 [OF _ wf1]
  show ?thesis
    using Inr r wf wf1
    by (auto simp: change_main_def Let_def split: sum.splits prod.splits
        intro: w change_tail_store_wf [OF w])
qed

lemma urban_year_store_wf:
  assumes wf: "store_wf st"
  shows "store_wf (fst (urban_year st year))"
proof (cases "calculate_built_up_index st (''data/'' @ year @ ''/B4.tif'') (''data/'' @ year @ ''/B8.tif'')
                (''data/'' @ year @ ''/B11.tif'') (''data/output/bui_'' @ year @ ''.tif'')")
  case (Inl e)
  then show ?thesis using wf by (simp add: urban_year_def Let_def)
next
  case (Inr r)
  obtain st1 x where r: "r = (st1, x)" by (cases r) blast
  have wf1: "store_wf st1" using calculate_built_up_index_store_wf Inr r wf by blast
  show ?thesis
    using Inr r wf wf1
    by (auto simp: urban_year_def Let_def unit_of_def save_urban_areas_def split: sum.splits prod.splits
        intro: store_wf_write_u8)
qed

lemma urban_main_store_wf: "store_wf st \<Longrightarrow> store_wf (fst (urban_main st))"
  unfolding urban_main_def
  by (rule run_units_invariant [where P = store_wf]) (rule urban_year_store_wf)

lemma run_analyses_store_wf:
  assumes "\<forall>(description, script) \<in> set analyses. \<forall>st. store_wf st \<longrightarrow> store_wf (fst (script st))"
    and "store_wf st"
  shows "store_wf (fst (run_analyses analyses st))"
  using assms
proof (induction analyses arbitrary: st)
  case (Cons a analyses)
  obtain description script where a: "a = (description, script)" by fastforce
  have "store_wf (fst (script st))" using Cons.prems a by auto
  with Cons.IH Cons.prems(1) show ?case by (simp add: a run_analyses_step del: run_analyses.simps)
qed simp

lemma run_all_analyses_store_wf:
  "store_wf st \<Longrightarrow> store_wf (fst (run_all_analyses deps_ok roi_ok clusterer st))"
  unfolding run_all_analyses_def
  by (auto simp del: run_analyses.simps intro!: run_analyses_store_wf ndvi_main_store_wf classification_main_store_wf change_main_store_wf
      urban_main_store_wf)

end
