(* ===== verification/Sample_Setup.thy ===== *)
theory Sample_Setup
  imports Prelude
begin

text \<open>
  The folder set-up and the ROI download of \<open>src/download_sample_data.py\<close> (lines 16--55).
  They act on files that are not rasters, so their state is a small file system of its own:
  the set of existing folders and the bytes of each file. \<open>Path.mkdir(parents=True,
  exist_ok=True)\<close> adds a folder and its ancestors; \<open>open(path, 'wb')\<close> raises
  \<open>FileNotFoundError\<close> unless the parent folder exists. The HTTP response is the parameter
  \<open>response\<close> (the body, or the error \<open>requests.get\<close> or \<open>raise_for_status\<close> raises) and
  reading a zip archive is the parameter \<open>unzip\<close> (its members, or \<open>BadZipFile\<close>).
  \<open>Response.iter_content(chunk_size)\<close> slices the body into chunks; it is a loop whose
  termination depends on its argument (a chunk size of 0 never advances), so it is a
  \<open>partial_function\<close> in the option monad, \<open>None\<close> meaning that it does not return.
\<close>

type_synonym bytes = "8 word list"

record fsys =
  fs_dirs :: "path set"
  fs_files :: "path \<rightharpoonup> bytes"

text \<open>A folder and its ancestors, \<open>Path(folder).mkdir(parents=True, exist_ok=True)\<close>.\<close>

definition path_prefixes :: "path \<Rightarrow> path list" where
  "path_prefixes p = map (\<lambda>i. take i p) (filter (\<lambda>i. p ! i = CHR ''/'') [0..<length p]) @ [p]"

definition mkdir_parents :: "path \<Rightarrow> fsys \<Rightarrow> fsys" where
  "mkdir_parents folder fs = fs\<lparr>fs_dirs := fs_dirs fs \<union> set (path_prefixes folder)\<rparr>"

text \<open>\<open>create_sample_data_structure()\<close>, lines 16--27.\<close>

definition sample_folders :: "path list" where
  "sample_folders = [''data/2021'', ''data/2025'', ''data/roi'', ''data/output'']"

definition create_sample_data_structure :: "fsys \<Rightarrow> fsys" where
  "create_sample_data_structure fs = fold mkdir_parents sample_folders fs"

text \<open>The folder a path lies in (the empty path is the working directory).\<close>

definition parent_dir :: "path \<Rightarrow> path" where
  "parent_dir p = take (length p - Suc (length (takeWhile (\<lambda>c. c \<noteq> CHR ''/'') (rev p)))) p"

definition can_open_wb :: "fsys \<Rightarrow> path \<Rightarrow> bool" where
  "can_open_wb fs p = (parent_dir p = [] \<or> parent_dir p \<in> fs_dirs fs)"

text \<open>\<open>Response.iter_content(chunk_size)\<close> on a body already received.\<close>

partial_function (option) iter_content :: "nat \<Rightarrow> 'a list \<Rightarrow> 'a list list option" where
  "iter_content chunk_size body =
     (if body = [] then Some []
      else Option.bind (iter_content chunk_size (drop chunk_size body))
             (\<lambda>chunks. Some (take chunk_size body # chunks)))"

text \<open>\<open>ZipFile.extractall(path)\<close>: every member is written below \<open>path\<close>, its folders
  created.\<close>

definition extract_all :: "path \<Rightarrow> (string \<times> bytes) list \<Rightarrow> fsys \<Rightarrow> fsys" where
  "extract_all dir members fs =
     fold (\<lambda>(name, data) fs.
             fs\<lparr>fs_dirs := fs_dirs fs \<union> set (path_prefixes (parent_dir (dir @ name))),
                fs_files := (fs_files fs)(dir @ name \<mapsto> data)\<rparr>) members fs"

text \<open>
  \<open>download_sample_roi()\<close>, lines 29--55. Every exception of the \<open>try\<close> block is caught
  and printed, so the function returns the file system as the failing statement left it:
  unchanged after a failed request or a failed \<open>open\<close>, with the archive written after a
  failed extraction. The chunks are written in order into the file opened before the loop.
\<close>

definition download_sample_roi ::
  "py_error + bytes \<Rightarrow> (bytes \<Rightarrow> py_error + (string \<times> bytes) list) \<Rightarrow> fsys \<Rightarrow> fsys option" where
  "download_sample_roi response unzip fs =
     (let roi_file = ''data/roi/sample_countries.zip''
      in case response of
           Inl e \<Rightarrow> Some fs
         | Inr body \<Rightarrow>
             if \<not> can_open_wb fs roi_file then Some fs
             else Option.bind (iter_content 8192 body) (\<lambda>chunks.
               let fs1 = fs\<lparr>fs_files := (fs_files fs)(roi_file \<mapsto> concat chunks)\<rparr>
               in case unzip (concat chunks) of
                    Inl e \<Rightarrow> Some fs1
                  | Inr members \<Rightarrow> Some (extract_all ''data/roi/'' members fs1)))"

subsection \<open>The chunked read\<close>

lemma iter_content_Nil [simp]: "iter_content n [] = Some []"
  by (simp add: iter_content.simps)

lemma iter_content_Cons:
  "body \<noteq> [] \<Longrightarrow> iter_content n body =
     Option.bind (iter_content n (drop n body)) (\<lambda>chunks. Some (take n body # chunks))"
  by (subst iter_content.simps) simp

text \<open>With a positive chunk size the loop returns, and writing its chunks in order gives
  back the body: each chunk is non-empty and at most \<open>chunk_size\<close> long.\<close>

lemma iter_content_returns:
  assumes "0 < n"
  shows "\<exists>chunks. iter_content n body = Some chunks \<and> concat chunks = body
           \<and> (\<forall>c \<in> set chunks. c \<noteq> [] \<and> length c \<le> n)"
proof (induction body rule: measure_induct_rule [where f = length])
  case (less body)
  show ?case
  proof (cases "body = []")
    case True
    then show ?thesis by simp
  next
    case False
    with assms have "length (drop n body) < length body" by simp
    then obtain chunks where c: "iter_content n (drop n body) = Some chunks" "concat chunks = drop n body"
      "\<forall>c \<in> set chunks. c \<noteq> [] \<and> length c \<le> n"
      using less.IH by blast
    have "take n body \<noteq> []" using False assms by simp
    with c False show ?thesis by (simp add: iter_content_Cons)
  qed
qed

subsection \<open>The download after the folder set-up\<close>

lemma sample_structure_roi: "''data/roi'' \<in> fs_dirs (create_sample_data_structure fs)"
  by (simp add: create_sample_data_structure_def sample_folders_def mkdir_parents_def path_prefixes_def)

lemma parent_dir_roi_file: "parent_dir ''data/roi/sample_countries.zip'' = ''data/roi''"
  by (simp add: parent_dir_def)

text \<open>Run on its own in a directory without \<open>data/roi\<close>, the download fails at
  \<open>open\<close> and the error is only printed.\<close>

lemma download_sample_roi_no_folder:
  "''data/roi'' \<notin> fs_dirs fs \<Longrightarrow> download_sample_roi response unzip fs = Some fs"
  by (simp add: download_sample_roi_def can_open_wb_def parent_dir_roi_file Let_def split: sum.splits)

lemma download_sample_roi_setup_Some:
  "\<exists>fs'. download_sample_roi response unzip (create_sample_data_structure fs) = Some fs'"
proof (cases response)
  case (Inr body)
  obtain chunks where "iter_content 8192 body = Some chunks"
    using iter_content_returns [of 8192 body] by auto
  with Inr show ?thesis by (auto simp: download_sample_roi_def Let_def split: sum.splits)
qed (simp add: download_sample_roi_def)

text \<open>
  C40: after \<open>create_sample_data_structure\<close>, as \<open>main\<close> calls them, \<open>download_sample_roi\<close>
  always returns, whatever the response: a failed request leaves the file system as it
  was; otherwise the archive \<open>data/roi/sample_countries.zip\<close> holds exactly the response
  body (its 8192-byte chunks written in order), and its members are extracted into
  \<open>data/roi/\<close> when it is a valid zip.
\<close>

theorem download_sample_roi_returns:
  "\<exists>fs'. download_sample_roi response unzip (create_sample_data_structure fs) = Some fs'
     \<and> fs' = (case response of
                Inl _ \<Rightarrow> create_sample_data_structure fs
              | Inr body \<Rightarrow>
                  (let fs1 = (create_sample_data_structure fs)\<lparr>fs_files :=
                               (fs_files (create_sample_data_structure fs))(''data/roi/sample_countries.zip'' \<mapsto> body)\<rparr>
                   in case unzip body of
                        Inl _ \<Rightarrow> fs1
                      | Inr members \<Rightarrow> extract_all ''data/roi/'' members fs1))"
proof (cases response)
  case (Inl e)
  then show ?thesis by (simp add: download_sample_roi_def)
next
  case (Inr body)
  obtain chunks where c: "iter_content 8192 body = Some chunks" "concat chunks = body"
    using iter_content_returns [of 8192 body] by auto
  have "can_open_wb (create_sample_data_structure fs) ''data/roi/sample_countries.zip''"
    by (simp add: can_open_wb_def parent_dir_roi_file sample_structure_roi)
  with Inr c show ?thesis by (simp add: download_sample_roi_def Let_def split: sum.splits)
qed

end
