(* ===== verification/Sample_Data.thy ===== *)
theory Sample_Data
  imports Pipeline Sample_Setup
begin

text \<open>
  \<open>src/download_sample_data.py\<close>: setting up sample data. Creating folders and
  downloading the Natural Earth shapefile touch no raster (a failed download is caught
  and printed), so they leave the store unchanged. \<open>create_sample_raster_data\<close> draws
  four random 100 \<times> 100 uint8 bands once and writes them for both years, with a
  geotransform from \<open>rasterio.transform.from_bounds\<close>. The random draws are the parameter
  \<open>randint\<close> (draw \<open>k\<close> is the \<open>k\<close>-th call of \<open>np.random.randint(0, 255, (100, 100))\<close>),
  and whether geopandas can read \<open>data/roi/your_shapefile.shp\<close> is the parameter
  \<open>shapefile_ok\<close>. Plots are not modelled.
\<close>

text \<open>\<open>rasterio.transform.from_bounds(west, south, east, north, width, height)\<close>: the
  transform that maps the raster's corners onto the bounds.\<close>

definition from_bounds :: "real \<Rightarrow> real \<Rightarrow> real \<Rightarrow> real \<Rightarrow> nat \<Rightarrow> nat \<Rightarrow> affine" where
  "from_bounds west south east north width height =
     \<lparr>aff_a = (east - west) / real width, aff_b = 0, aff_c = west,
      aff_d = 0, aff_e = (south - north) / real height, aff_f = north\<rparr>"

text \<open>\<open>transform * (col, row)\<close>: the map coordinates of a pixel corner.\<close>

definition affine_apply :: "affine \<Rightarrow> real \<Rightarrow> real \<Rightarrow> real \<times> real" where
  "affine_apply t col row =
     (aff_a t * col + aff_b t * row + aff_c t, aff_d t * col + aff_e t * row + aff_f t)"

text \<open>Lines 66--78 and 85--95: the profile every sample band is written with.\<close>

definition sample_profile :: profile where
  "sample_profile =
     \<lparr>p_driver = ''GTiff'', p_dtype = DT_uint8, p_count = 1, p_nodata = None, p_height = 100,
      p_width = 100, p_transform = from_bounds 23 77 (47/2) (155/2) 100 100, p_crs = ''EPSG:4326''\<rparr>"

text \<open>Lines 69--74: the four bands, drawn once, in the dictionary's order.\<close>

definition sample_bands :: "(nat \<Rightarrow> 8 word ndarray) \<Rightarrow> (string \<times> 8 word ndarray) list" where
  "sample_bands randint =
     [(''B2'', randint 0), (''B3'', randint 1), (''B4'', randint 2), (''B8'', randint 3)]"

text \<open>Lines 81--83: the files written, year by year, band by band.\<close>

definition sample_writes :: "(nat \<Rightarrow> 8 word ndarray) \<Rightarrow> (path \<times> 8 word ndarray) list" where
  "sample_writes randint =
     concat (map (\<lambda>year. map (\<lambda>(band_name, data). (''data/'' @ year @ ''/'' @ band_name @ ''.tif'', data))
                             (sample_bands randint))
                 [''2021'', ''2025''])"

text \<open>Lines 83--96: writing one band file.\<close>

definition write_sample_band :: "store \<Rightarrow> path \<times> 8 word ndarray \<Rightarrow> store \<times> py_error option" where
  "write_sample_band st w = (case w of (output_path, data) \<Rightarrow> unit_of st (write_band1_u8 st output_path sample_profile data))"

text \<open>\<open>create_sample_raster_data()\<close>, lines 57--98: a write that fails ends the function with
  the files written so far.\<close>

definition create_sample_raster_data :: "(nat \<Rightarrow> 8 word ndarray) \<Rightarrow> store \<Rightarrow> store \<times> py_error option" where
  "create_sample_raster_data randint st = run_units write_sample_band st (sample_writes randint)"

text \<open>
  \<open>main()\<close>, lines 100--160. After the set-up it reads \<open>data/roi/your_shapefile.shp\<close>, reads
  band 2 of 2021 inside a \<open>with\<close> block, and after that block calls
  \<open>mask(src, roi.geometry, crop=True)\<close> on the closed dataset, which raises rasterio's
  I/O error (\<open>Dataset is closed\<close>).
\<close>

definition sample_main :: "(nat \<Rightarrow> 8 word ndarray) \<Rightarrow> bool \<Rightarrow> store \<Rightarrow> store \<times> py_error option" where
  "sample_main randint shapefile_ok st =
     (case create_sample_raster_data randint st of
        (st1, Some e) \<Rightarrow> (st1, Some e)
      | (st1, None) \<Rightarrow>
          if \<not> shapefile_ok then (st1, Some DataSourceError)
          else case read_band1 st1 ''data/2021/B2.tif'' of
                 Inl e \<Rightarrow> (st1, Some e)
               | Inr _ \<Rightarrow> (st1, Some RasterioIOError))"

text \<open>
  \<open>main()\<close> as a whole, lines 100--160: the folder set-up and the ROI download act on the
  file system of \<open>Sample_Setup\<close>, then the raster part runs on the store. Whether
  geopandas can read \<open>data/roi/your_shapefile.shp\<close> is decided by the parameter
  \<open>shapefile_readable\<close> on the file system the download left.
\<close>

definition download_main ::
  "py_error + bytes \<Rightarrow> (bytes \<Rightarrow> py_error + (string \<times> bytes) list) \<Rightarrow> (nat \<Rightarrow> 8 word ndarray)
     \<Rightarrow> (fsys \<Rightarrow> bool) \<Rightarrow> fsys \<Rightarrow> store \<Rightarrow> (fsys \<times> store \<times> py_error option) option" where
  "download_main response unzip randint shapefile_readable fs st =
     Option.bind (download_sample_roi response unzip (create_sample_data_structure fs))
       (\<lambda>fs'. Some (fs', sample_main randint (shapefile_readable fs') st))"

text \<open>What \<open>np.random.randint(0, 255, (100, 100), dtype=np.uint8)\<close> returns: a 100 \<times> 100
  array of values below 255.\<close>

definition randint_ok :: "(nat \<Rightarrow> 8 word ndarray) \<Rightarrow> bool" where
  "randint_ok randint =
     (\<forall>k < 4. nd_wf (randint k) \<and> shape (randint k) = (100, 100) \<and> (\<forall>x \<in> set (vals (randint k)). x < 255))"

subsection \<open>The sample files\<close>

lemma run_units_ok:
  "(\<forall>st u. u \<in> set us \<longrightarrow> snd (f st u) = None) \<Longrightarrow> snd (run_units f st us) = None"
proof (induction us arbitrary: st)
  case (Cons u us)
  from Cons.prems have "snd (f st u) = None" and "\<forall>st u. u \<in> set us \<longrightarrow> snd (f st u) = None" by simp_all
  with Cons.IH show ?case by (cases "f st u") simp
qed simp

lemma write_sample_band_frame:
  "write_sample_band st (p, A) = (st', e) \<Longrightarrow> q \<noteq> p \<Longrightarrow> st' q = st q"
  by (auto simp: write_sample_band_def unit_of_def write_band1_u8_def write_band1_def split: if_splits)

lemma run_units_write_frame:
  "run_units write_sample_band st ws = (st', e) \<Longrightarrow> q \<notin> set (map fst ws) \<Longrightarrow> st' q = st q"
proof (induction ws arbitrary: st)
  case (Cons w ws)
  obtain p A where w: "w = (p, A)" by fastforce
  obtain st1 e1 where step: "write_sample_band st w = (st1, e1)" by fastforce
  have "st1 q = st q" using write_sample_band_frame [of st p A st1 e1 q] step w Cons.prems(2) by auto
  with Cons step show ?case by (cases e1) auto
qed simp

lemma run_units_write_u8:
  assumes "run_units write_sample_band st ws = (st', None)" and "distinct (map fst ws)" and "(p, A) \<in> set ws"
  shows "st' p = Some \<lparr>ds_profile = sample_profile, ds_band = amap u8_to_fval A\<rparr>"
  using assms
proof (induction ws arbitrary: st)
  case (Cons w ws)
  obtain p1 A1 where w: "w = (p1, A1)" by fastforce
  obtain st1 e1 where step: "write_sample_band st w = (st1, e1)" by fastforce
  with Cons.prems(1) have e1: "e1 = None" and rest: "run_units write_sample_band st1 ws = (st', None)"
    by (cases e1; simp)+
  show ?case
  proof (cases "w = (p, A)")
    case True
    have "st1 p = Some \<lparr>ds_profile = sample_profile, ds_band = amap u8_to_fval A\<rparr>"
      using step e1 True by (auto simp: write_sample_band_def unit_of_def write_band1_u8_def write_band1_def
        split: if_splits)
    moreover have "p \<notin> set (map fst ws)" using Cons.prems(2) True by auto
    ultimately show ?thesis using run_units_write_frame [OF rest] by simp
  next
    case False
    with Cons.prems(2,3) w have "(p, A) \<in> set ws" "distinct (map fst ws)" by auto
    then show ?thesis using Cons.IH [OF rest] by simp
  qed
qed simp

lemma sample_writes_distinct: "distinct (map fst (sample_writes randint))"
  by (simp add: sample_writes_def sample_bands_def)

lemma sample_writes_eq:
  "sample_writes randint =
     [(''data/2021/B2.tif'', randint 0), (''data/2021/B3.tif'', randint 1),
      (''data/2021/B4.tif'', randint 2), (''data/2021/B8.tif'', randint 3),
      (''data/2025/B2.tif'', randint 0), (''data/2025/B3.tif'', randint 1),
      (''data/2025/B4.tif'', randint 2), (''data/2025/B8.tif'', randint 3)]"
  by (simp add: sample_writes_def sample_bands_def)

lemma ex_less_4: "(\<exists>k < (4::nat). P k) \<longleftrightarrow> P 0 \<or> P 1 \<or> P 2 \<or> P 3"
  by (auto simp: less_Suc_eq numeral_eq_Suc)

lemma sample_writes_draws:
  "u \<in> set (sample_writes randint) \<Longrightarrow> \<exists>p k. k < 4 \<and> u = (p, randint k)"
  unfolding sample_writes_eq by (auto simp: ex_less_4)

lemma randint_okD:
  assumes "randint_ok randint" and "k < 4"
  shows "nd_wf (randint k)" and "shape (randint k) = (100, 100)" and "length (vals (randint k)) = 10000"
  using assms by (simp_all add: randint_ok_def nd_wf_def shape_def)

text \<open>With well-formed draws every write succeeds.\<close>

lemma create_sample_raster_data_ok:
  assumes "randint_ok randint"
  shows "create_sample_raster_data randint st = (fst (create_sample_raster_data randint st), None)"
proof -
  have "snd (run_units write_sample_band st (sample_writes randint)) = None"
  proof (rule run_units_ok, intro allI impI)
    fix st u assume "u \<in> set (sample_writes randint)"
    then obtain p k where u: "u = (p, randint k)" and k: "k < 4"
      using sample_writes_draws by blast
    show "snd (write_sample_band st u) = None"
      using u randint_okD(1,2) [OF assms k]
      by (simp add: write_sample_band_def unit_of_def write_band1_u8_def write_band1_def sample_profile_def)
  qed
  then show ?thesis by (simp add: create_sample_raster_data_def prod_eq_iff)
qed

lemma create_sample_raster_data_files:
  assumes "randint_ok randint" and "(p, A) \<in> set (sample_writes randint)"
  shows "fst (create_sample_raster_data randint st) p =
           Some \<lparr>ds_profile = sample_profile, ds_band = amap u8_to_fval A\<rparr>"
  using create_sample_raster_data_ok [OF assms(1), of st] sample_writes_distinct assms(2)
  unfolding create_sample_raster_data_def by (blast intro: run_units_write_u8)

lemma create_sample_raster_data_frame:
  "p \<notin> set (map fst (sample_writes randint)) \<Longrightarrow> fst (create_sample_raster_data randint st) p = st p"
  unfolding create_sample_raster_data_def
  by (metis prod.collapse run_units_write_frame)

subsection \<open>Change detection on the sample data\<close>

lemma map2_fsub_self: "list_all is_finite xs \<Longrightarrow> map2 fsub xs xs = replicate (length xs) (Fin 0)"
  by (induction xs) (auto elim: is_finite_cases)

lemma norm_diff_u8_finite:
  "list_all is_finite (map2 norm_diff_px (map u8_to_fval xs) (map u8_to_fval ys))"
proof (induction xs arbitrary: ys)
  case (Cons x xs)
  then show ?case by (cases ys) (simp_all add: u8_to_fval_def norm_diff_px_finite)
qed simp


text \<open>The NDVI loop over two years with the same red and near-infrared files, and change
  detection between two equal finite NDVI rasters.\<close>

lemma ndvi_loop_same_bands:
  assumes files: "\<And>y. y \<in> {''2021'', ''2025''} \<Longrightarrow>
                   st (''data/'' @ y @ ''/B4.tif'') = Some R \<and> st (''data/'' @ y @ ''/B8.tif'') = Some N"
    and wfR: "ds_wf R" and wfN: "nd_wf (ds_band N)" and sh: "shape (ds_band N) = shape (ds_band R)"
    and ne: "vals (ds_band R) \<noteq> []"
  shows "run_units ndvi_year st [''2021'', ''2025''] =
           (st(''data/output/ndvi_2021.tif'' \<mapsto>
                 \<lparr>ds_profile = float_profile (ds_profile R),
                  ds_band = \<lparr>nrows = nrows (ds_band R), ncols = ncols (ds_band R),
                              vals = map2 norm_diff_px (vals (ds_band N)) (vals (ds_band R))\<rparr>\<rparr>,
               ''data/output/ndvi_2025.tif'' \<mapsto>
                 \<lparr>ds_profile = float_profile (ds_profile R),
                  ds_band = \<lparr>nrows = nrows (ds_band R), ncols = ncols (ds_band R),
                              vals = map2 norm_diff_px (vals (ds_band N)) (vals (ds_band R))\<rparr>\<rparr>), None)"
proof -
  have f21: "st (''data/'' @ ''2021'' @ ''/B4.tif'') = Some R" "st (''data/'' @ ''2021'' @ ''/B8.tif'') = Some N"
    and f25: "st (''data/'' @ ''2025'' @ ''/B4.tif'') = Some R" "st (''data/'' @ ''2025'' @ ''/B8.tif'') = Some N"
    using files by blast+
  let ?D = "\<lparr>ds_profile = float_profile (ds_profile R),
             ds_band = \<lparr>nrows = nrows (ds_band R), ncols = ncols (ds_band R),
                         vals = map2 norm_diff_px (vals (ds_band N)) (vals (ds_band R))\<rparr>\<rparr>"
  have y1: "ndvi_year st ''2021'' = (st(''data/output/ndvi_2021.tif'' \<mapsto> ?D), None)"
    using ndvi_year_run [OF f21 wfR wfN sh ne] by simp
  have "(st(''data/output/ndvi_2021.tif'' \<mapsto> ?D)) (''data/'' @ ''2025'' @ ''/B4.tif'') = Some R"
       "(st(''data/output/ndvi_2021.tif'' \<mapsto> ?D)) (''data/'' @ ''2025'' @ ''/B8.tif'') = Some N"
    using f25 by simp_all
  from ndvi_year_run [where st = "st(''data/output/ndvi_2021.tif'' \<mapsto> ?D)" and year = "''2025''",
      OF this wfR wfN sh ne]
  have y2: "ndvi_year (st(''data/output/ndvi_2021.tif'' \<mapsto> ?D)) ''2025'' =
              (st(''data/output/ndvi_2021.tif'' \<mapsto> ?D, ''data/output/ndvi_2025.tif'' \<mapsto> ?D), None)"
    by simp
  show ?thesis using y1 y2 by simp
qed

lemma change_main_same_ndvi:
  assumes d21: "st ''data/output/ndvi_2021.tif'' = Some D" and d25: "st ''data/output/ndvi_2025.tif'' = Some D"
    and wf: "ds_wf D" and ne: "vals (ds_band D) \<noteq> []" and fin: "list_all is_finite (vals (ds_band D))"
    and nc: "\<not> file_exists st ''data/output/classification_2021.tif''"
  shows "\<exists>st'. change_main st = (st', None) \<and>
           st' ''data/output/changes.tif'' =
             Some \<lparr>ds_profile = uint8_profile (ds_profile D),
                   ds_band = full (nrows (ds_band D)) (ncols (ds_band D)) (Fin 3)\<rparr>"
proof -
  have wfB: "nd_wf (ds_band D)" using wf by (simp add: ds_wf_def)
  note run = change_main_run [OF d21 d25 wf wfB refl ne nc]
  have "map2 fsub (vals (ds_band D)) (vals (ds_band D)) = replicate (nrows (ds_band D) * ncols (ds_band D)) (Fin 0)"
    using map2_fsub_self [OF fin] wfB by (simp add: nd_wf_def)
  then have "amap u8_to_fval (amap (change_code (1/10))
               \<lparr>nrows = nrows (ds_band D), ncols = ncols (ds_band D),
                vals = map2 fsub (vals (ds_band D)) (vals (ds_band D))\<rparr>)
             = full (nrows (ds_band D)) (ncols (ds_band D)) (Fin 3)"
    by (simp add: amap_def full_def change_code_def u8_to_fval_def)
  with run show ?thesis by simp
qed

text \<open>
  C28: on the sample data, the whole chain \<open>download_sample_data.py\<close>,
  \<open>calculate_ndvi.py\<close>, \<open>change_detection.py\<close> runs to its end (with well-formed random
  draws and no classification maps), and the change raster marks every pixel as no change
  (code 3): the four bands are drawn once and written for both years, so the two NDVI
  rasters are equal and their difference is zero everywhere.
\<close>

theorem sample_data_no_change:
  assumes ok: "randint_ok randint" and nc: "\<not> file_exists st ''data/output/classification_2021.tif''"
  shows "\<exists>st1 st2 st3. create_sample_raster_data randint st = (st1, None)
           \<and> run_units ndvi_year st1 [''2021'', ''2025''] = (st2, None)
           \<and> change_main st2 = (st3, None)
           \<and> st3 ''data/output/changes.tif'' =
               Some \<lparr>ds_profile = uint8_profile (float_profile sample_profile), ds_band = full 100 100 (Fin 3)\<rparr>"
proof -
  define st1 where "st1 = fst (create_sample_raster_data randint st)"
  let ?R = "\<lparr>ds_profile = sample_profile, ds_band = amap u8_to_fval (randint 2)\<rparr>"
  let ?N = "\<lparr>ds_profile = sample_profile, ds_band = amap u8_to_fval (randint 3)\<rparr>"
  let ?v = "map2 norm_diff_px (map u8_to_fval (vals (randint 3))) (map u8_to_fval (vals (randint 2)))"
  let ?D = "\<lparr>ds_profile = float_profile sample_profile,
             ds_band = \<lparr>nrows = nrows (randint 2), ncols = ncols (randint 2), vals = ?v\<rparr>\<rparr>"
  have c: "create_sample_raster_data randint st = (st1, None)"
    using create_sample_raster_data_ok [OF ok] by (simp add: st1_def)
  have files: "st1 (''data/'' @ y @ ''/B4.tif'') = Some ?R \<and> st1 (''data/'' @ y @ ''/B8.tif'') = Some ?N"
    if "y \<in> {''2021'', ''2025''}" for y
    using that create_sample_raster_data_files [OF ok] unfolding st1_def by (auto simp: sample_writes_eq)
  have w2: "nd_wf (randint 2)" "shape (randint 2) = (100, 100)" "length (vals (randint 2)) = 10000"
    and w3: "nd_wf (randint 3)" "shape (randint 3) = (100, 100)" "length (vals (randint 3)) = 10000"
    using randint_okD [OF ok] by simp_all
  have wfR: "ds_wf ?R" using w2 by (simp add: ds_wf_def sample_profile_def)
  have wfN: "nd_wf (ds_band ?N)" and shN: "shape (ds_band ?N) = shape (ds_band ?R)"
    and neR: "vals (ds_band ?R) \<noteq> []" using w2 w3 by auto
  have run: "run_units ndvi_year st1 [''2021'', ''2025''] =
               (st1(''data/output/ndvi_2021.tif'' \<mapsto> ?D, ''data/output/ndvi_2025.tif'' \<mapsto> ?D), None)"
    using ndvi_loop_same_bands [OF files wfR wfN shN neR] by simp
  have lenv: "length ?v = 10000" using w2 w3 by simp
  have wfD: "ds_wf ?D" using w2 lenv by (simp add: ds_wf_def nd_wf_def shape_def sample_profile_def)
  let ?st2 = "st1(''data/output/ndvi_2021.tif'' \<mapsto> ?D, ''data/output/ndvi_2025.tif'' \<mapsto> ?D)"
  have "st1 ''data/output/classification_2021.tif'' = st ''data/output/classification_2021.tif''"
    unfolding st1_def by (rule create_sample_raster_data_frame) (simp add: sample_writes_eq)
  then have nc2: "\<not> file_exists ?st2 ''data/output/classification_2021.tif''"
    using nc by (simp add: file_exists_def)
  have l21: "?st2 ''data/output/ndvi_2021.tif'' = Some ?D" and l25: "?st2 ''data/output/ndvi_2025.tif'' = Some ?D"
    and neD: "vals (ds_band ?D) \<noteq> []" using lenv by auto
  have finD: "list_all is_finite (vals (ds_band ?D))" using norm_diff_u8_finite by simp
  from change_main_same_ndvi [where st = ?st2 and D = ?D, OF l21 l25 wfD neD finD nc2] w2
  obtain st3 where "change_main ?st2 = (st3, None)"
    "st3 ''data/output/changes.tif'' = Some \<lparr>ds_profile = uint8_profile (float_profile sample_profile),
                                            ds_band = full 100 100 (Fin 3)\<rparr>"
    by (auto simp: shape_def)
  with c run show ?thesis by auto
qed


lemma sample_data_no_change_witness:
  "\<exists>st1 st2 st3. create_sample_raster_data (\<lambda>k. full 100 100 0) Map.empty = (st1, None)
     \<and> run_units ndvi_year st1 [''2021'', ''2025''] = (st2, None)
     \<and> change_main st2 = (st3, None)
     \<and> st3 ''data/output/changes.tif'' =
         Some \<lparr>ds_profile = uint8_profile (float_profile sample_profile), ds_band = full 100 100 (Fin 3)\<rparr>"
proof -
  have "randint_ok (\<lambda>k. full 100 100 (0::8 word))"
    by (simp add: randint_ok_def nd_wf_def shape_def full_def)
  moreover have "\<not> file_exists Map.empty ''data/output/classification_2021.tif''"
    by (simp add: file_exists_def)
  ultimately show ?thesis by (rule sample_data_no_change)
qed

subsection \<open>Georeference and \<open>main\<close>\<close>

text \<open>
  C33: every sample band file holds its draw under \<open>sample_profile\<close>, in EPSG:4326, whose
  transform puts the upper-left corner at longitude 23, latitude 77.5 and the lower-right
  corner at longitude 23.5, latitude 77. \<open>from_bounds\<close> takes (west, south, east, north),
  and the tuple of line 77 lists the Bhopal latitude range as west/east and its longitude
  range as south/north: the raster lies near Svalbard, not at Bhopal (77.4 E, 23.3 N).
\<close>

theorem sample_raster_georeference:
  assumes "randint_ok randint" and "(p, A) \<in> set (sample_writes randint)"
  shows "fst (create_sample_raster_data randint st) p =
           Some \<lparr>ds_profile = sample_profile, ds_band = amap u8_to_fval A\<rparr>
         \<and> p_crs sample_profile = ''EPSG:4326''
         \<and> affine_apply (p_transform sample_profile) 0 0 = (23, 155/2)
         \<and> affine_apply (p_transform sample_profile) 100 100 = (47/2, 77)"
  using create_sample_raster_data_files [OF assms]
  by (simp add: sample_profile_def from_bounds_def affine_apply_def)

lemma sample_raster_georeference_witness:
  "fst (create_sample_raster_data (\<lambda>k. full 100 100 0) Map.empty) ''data/2021/B4.tif'' =
     Some \<lparr>ds_profile = sample_profile, ds_band = amap u8_to_fval (full 100 100 0)\<rparr>
   \<and> p_crs sample_profile = ''EPSG:4326''
   \<and> affine_apply (p_transform sample_profile) 0 0 = (23, 155/2)
   \<and> affine_apply (p_transform sample_profile) 100 100 = (47/2, 77)"
proof -
  have "randint_ok (\<lambda>k. full 100 100 (0::8 word))"
    by (simp add: randint_ok_def nd_wf_def shape_def full_def)
  moreover have "(''data/2021/B4.tif'', full 100 100 (0::8 word)) \<in> set (sample_writes (\<lambda>k. full 100 100 0))"
    by (simp add: sample_writes_eq)
  ultimately show ?thesis by (rule sample_raster_georeference)
qed

text \<open>
  \<open>main()\<close> of \<open>download_sample_data.py\<close> never completes: whatever the store and
  the random draws, it ends with an exception after the set-up (a failed write, the missing
  \<open>your_shapefile.shp\<close>, a missing band, or \<open>mask\<close> on the closed dataset), keeping the
  files the set-up wrote.
\<close>

lemma sample_main_always_raises:
  "\<exists>e. sample_main randint shapefile_ok st = (fst (create_sample_raster_data randint st), Some e)"
  by (auto simp: sample_main_def split: prod.splits option.splits sum.splits)

lemma download_main_raises:
  "\<exists>fs' e. download_main response unzip randint shapefile_readable fs st =
     Some (fs', fst (create_sample_raster_data randint st), Some e)"
proof -
  obtain fs' where "download_sample_roi response unzip (create_sample_data_structure fs) = Some fs'"
    using download_sample_roi_setup_Some by blast
  then show ?thesis
    by (auto simp: download_main_def sample_main_def split: prod.splits option.splits sum.splits)
qed

subsection \<open>The store invariant\<close>

text \<open>Every write goes through \<open>write_band1\<close>, which refuses a band of the wrong shape, so
  \<open>store_wf\<close> holds after each function of this part whenever it held before.\<close>

lemma create_sample_raster_data_store_wf:
  "store_wf st \<Longrightarrow> store_wf (fst (create_sample_raster_data randint st))"
  unfolding create_sample_raster_data_def
  by (rule run_units_invariant [where P = store_wf])
     (auto simp: write_sample_band_def unit_of_def split: prod.splits sum.splits intro: store_wf_write_u8)

end
