(* ===== verification/Band_Extraction.thy ===== *)
theory Band_Extraction
  imports Raster_IO
begin

text \<open>
  \<open>src/extract_sentinel_bands.py\<close>: copying the bands the analyses use out of a
  Sentinel-2 SAFE folder. The file system is the store (file contents) together with
  \<open>names\<close>, the list of file paths in the order the operating system lists them;
  \<open>pathlib\<close>'s \<open>glob\<close> returns the matching entries of one directory in that order, and the
  script always takes the first one. A directory exists when some file lies below it:
  the script treats an empty directory exactly as a missing one (both give an empty
  \<open>glob\<close>), so nothing is lost by not recording empty directories. The files the script
  writes (\<open><year>/B?.tif\<close>) never match the patterns it globs for, so \<open>names\<close> stays the
  listing of every \<open>glob\<close> it makes. Glob patterns are \<open>'*'\<close> and literal characters,
  the only ones the script uses.
\<close>

subsection \<open>Directory listings and glob patterns\<close>

datatype glob_tok = Star | Lit char

fun glob_parse :: "string \<Rightarrow> glob_tok list" where
  "glob_parse [] = []"
| "glob_parse (c # cs) = (if c = CHR ''*'' then Star else Lit c) # glob_parse cs"

text \<open>\<open>fnmatch\<close> of one name against a parsed pattern: \<open>'*'\<close> matches any, possibly empty,
  sequence of characters.\<close>

fun fnmatch :: "glob_tok list \<Rightarrow> string \<Rightarrow> bool" where
  "fnmatch [] s = (s = [])"
| "fnmatch (Star # p) [] = fnmatch p []"
| "fnmatch (Star # p) (x # s) = (fnmatch p (x # s) \<or> fnmatch (Star # p) s)"
| "fnmatch (Lit c # p) s = (case s of [] \<Rightarrow> False | x # s' \<Rightarrow> x = c \<and> fnmatch p s')"

text \<open>The entries of directory \<open>d\<close>: the first path component below \<open>d\<close> of every listed
  file, each once, in listing order.\<close>

definition children :: "path list \<Rightarrow> path \<Rightarrow> string list" where
  "children names d =
     remdups (map (\<lambda>n. takeWhile (\<lambda>x. x \<noteq> CHR ''/'') (drop (Suc (length d)) n))
                  (filter (\<lambda>n. take (Suc (length d)) n = d @ ''/'' \<and> Suc (length d) < length n) names))"

definition dir_exists :: "path list \<Rightarrow> path \<Rightarrow> bool" where
  "dir_exists names d = (children names d \<noteq> [])"

text \<open>\<open>list(Path(d).glob(pattern))\<close>.\<close>

definition glob_children :: "path list \<Rightarrow> path \<Rightarrow> string \<Rightarrow> path list" where
  "glob_children names d pattern =
     map (\<lambda>c. d @ ''/'' @ c) (filter (fnmatch (glob_parse pattern)) (children names d))"

subsection \<open>The script\<close>

text \<open>Lines 34--40: output name, Sentinel-2 band name and resolution folder, in the
  dictionary's order.\<close>

definition band_mappings :: "(string \<times> string \<times> string) list" where
  "band_mappings =
     [(''B2'', ''B02'', ''10m''), (''B3'', ''B03'', ''10m''), (''B4'', ''B04'', ''10m''),
      (''B8'', ''B08'', ''10m''), (''B11'', ''B11'', ''20m'')]"

text \<open>One iteration of the band loop, lines 43--78: a missing resolution folder or band
  file is skipped (\<open>continue\<close>); otherwise band 1 is read and written as a GeoTIFF with the
  source profile, its driver set to GTiff and its count to 1 (\<open>dtype=data.dtype\<close> is the
  band's own dtype).\<close>

definition extract_band ::
  "path list \<Rightarrow> path \<Rightarrow> path \<Rightarrow> store \<Rightarrow> string \<times> string \<times> string \<Rightarrow> store \<times> py_error option" where
  "extract_band names granule_folder output_dir st mapping =
     (case mapping of (output_name, sentinel_name, resolution) \<Rightarrow>
      let img_data_path = granule_folder @ ''/IMG_DATA/R'' @ resolution
      in if \<not> dir_exists names img_data_path then (st, None)
         else case glob_children names img_data_path (''*_'' @ sentinel_name @ ''_'' @ resolution @ ''.jp2'') of
           [] \<Rightarrow> (st, None)
         | band_file_path # _ \<Rightarrow>
             (case read_band1 st band_file_path of
                Inl e \<Rightarrow> (st, Some e)
              | Inr (data, profile) \<Rightarrow>
                  unit_of st (write_band1 st (output_dir @ ''/'' @ output_name @ ''.tif'')
                                (profile\<lparr>p_driver := ''GTiff'', p_count := 1\<rparr>) data)))"

text \<open>\<open>extract_bands_from_safe(safe_path, output_dir)\<close>, lines 13--80: the result is the
  returned flag, or the exception that escaped.\<close>

definition extract_bands_from_safe ::
  "path list \<Rightarrow> store \<Rightarrow> path \<Rightarrow> path \<Rightarrow> store \<times> (py_error + bool)" where
  "extract_bands_from_safe names st safe_path output_dir =
     (let granule_path = safe_path @ ''/GRANULE''
      in if \<not> dir_exists names granule_path then (st, Inr False)
         else case glob_children names granule_path ''*'' of
           [] \<Rightarrow> (st, Inr False)
         | granule_folder # _ \<Rightarrow>
             (case run_units (extract_band names granule_folder output_dir) st band_mappings of
                (st', Some e) \<Rightarrow> (st', Inl e)
              | (st', None) \<Rightarrow> (st', Inr True)))"

text \<open>One iteration of \<open>main\<close>'s loop, lines 88--108, and \<open>main\<close>, lines 82--111.\<close>

definition extract_year :: "path list \<Rightarrow> store \<Rightarrow> string \<Rightarrow> store \<times> py_error option" where
  "extract_year names st year =
     (let year_dir = ''data/'' @ year
      in case glob_children names year_dir ''*.SAFE'' of
           [] \<Rightarrow> (st, None)
         | safe_folder # _ \<Rightarrow>
             (case extract_bands_from_safe names st safe_folder year_dir of
                (st', Inl e) \<Rightarrow> (st', Some e)
              | (st', Inr _) \<Rightarrow> (st', None)))"

definition extract_main :: "path list \<Rightarrow> store \<Rightarrow> store \<times> py_error option" where
  "extract_main names st = run_units (extract_year names) st [''2021'', ''2025'']"

text \<open>The reference meaning of a pattern \<open>'*' + s\<close>: the name ends with \<open>s\<close>.\<close>

definition ends_with :: "string \<Rightarrow> string \<Rightarrow> bool" where
  "ends_with s c = (length s \<le> length c \<and> drop (length c - length s) c = s)"

subsection \<open>Glob matching\<close>

lemma glob_parse_lits: "CHR ''*'' \<notin> set s \<Longrightarrow> glob_parse s = map Lit s"
  by (induction s) auto

lemma fnmatch_lits: "fnmatch (map Lit s) c \<longleftrightarrow> c = s"
  by (induction s arbitrary: c) (auto split: list.splits)

lemma fnmatch_star_lits: "fnmatch (Star # map Lit s) c \<longleftrightarrow> (\<exists>u. c = u @ s)"
proof (induction c)
  case Nil
  then show ?case by (auto simp: fnmatch_lits)
next
  case (Cons x c)
  then show ?case by (auto simp: fnmatch_lits Cons_eq_append_conv)
qed

lemma ends_with_iff: "ends_with s c \<longleftrightarrow> (\<exists>u. c = u @ s)"
proof
  assume "ends_with s c"
  then have "c = take (length c - length s) c @ s"
    unfolding ends_with_def by (metis append_take_drop_id)
  then show "\<exists>u. c = u @ s" ..
qed (auto simp: ends_with_def)

lemma glob_star_suffix:
  "CHR ''*'' \<notin> set s \<Longrightarrow> fnmatch (glob_parse (CHR ''*'' # s)) c \<longleftrightarrow> (\<exists>u. c = u @ s)"
  by (simp add: glob_parse_lits fnmatch_star_lits)

lemma glob_children_subset: "f \<in> set (glob_children names d pat) \<Longrightarrow> \<exists>c. f = d @ ''/'' @ c \<and> fnmatch (glob_parse pat) c"
  by (auto simp: glob_children_def)

lemma glob_children_dir_exists: "glob_children names d pat = f # fs \<Longrightarrow> dir_exists names d"
  by (auto simp: glob_children_def dir_exists_def)

text \<open>A band file found by the script's pattern is a \<open>.jp2\<close> file, never one of its
  \<open>.tif\<close> outputs.\<close>

lemma jp2_not_tif: "u @ ''.jp2'' \<noteq> v @ ''.tif''"
proof
  assume "u @ ''.jp2'' = v @ ''.tif''"
  then have "rev (u @ ''.jp2'') = rev (v @ ''.tif'')" by simp
  then show False by simp
qed

lemma band_glob_jp2:
  assumes "glob_children names d (''*_'' @ s @ ''_'' @ r @ ''.jp2'') = f # fs"
    and "CHR ''*'' \<notin> set s" and "CHR ''*'' \<notin> set r"
  shows "\<exists>u. f = u @ ''.jp2''"
proof -
  let ?t = "''_'' @ s @ ''_'' @ r @ ''.jp2''"
  from assms(1) have "f \<in> set (glob_children names d (''*_'' @ s @ ''_'' @ r @ ''.jp2''))" by simp
  then obtain c where f: "f = d @ ''/'' @ c" and m: "fnmatch (glob_parse (''*_'' @ s @ ''_'' @ r @ ''.jp2'')) c"
    by (blast dest: glob_children_subset)
  have eq: "''*_'' @ s @ ''_'' @ r @ ''.jp2'' = CHR ''*'' # ?t" by simp
  have "CHR ''*'' \<notin> set ?t" using assms(2,3) by simp
  with m obtain u where "c = u @ ?t"
    unfolding eq using glob_star_suffix [of ?t c] by blast
  with f show ?thesis by (intro exI [of _ "d @ ''/'' @ u @ ''_'' @ s @ ''_'' @ r"]) simp
qed

subsection \<open>What one band step writes\<close>

abbreviation out_tif :: "path \<Rightarrow> string \<Rightarrow> path" where
  "out_tif output_dir output_name \<equiv> output_dir @ ''/'' @ output_name @ ''.tif''"

lemma extract_band_frame:
  "extract_band names g od st (nm, s, r) = (st1, e) \<Longrightarrow> q \<noteq> out_tif od nm \<Longrightarrow> st1 q = st q"
  by (auto simp: extract_band_def unit_of_def Let_def write_band1_def
      split: if_splits list.splits sum.splits prod.splits)

lemma extract_band_writes:
  assumes "extract_band names g od st (nm, s, r) = (st1, None)"
    and "glob_children names (g @ ''/IMG_DATA/R'' @ r) (''*_'' @ s @ ''_'' @ r @ ''.jp2'') = f # fs"
    and "st f = Some ds"
  shows "st1 (out_tif od nm) = Some \<lparr>ds_profile = (ds_profile ds)\<lparr>p_driver := ''GTiff'', p_count := 1\<rparr>, ds_band = ds_band ds\<rparr>"
  using assms glob_children_dir_exists [OF assms(2)]
  by (auto simp: extract_band_def unit_of_def read_band1_def write_band1_def split: if_splits sum.splits)

lemma run_units_frame:
  "run_units (extract_band names g od) st L = (st', e) \<Longrightarrow> (\<forall>(nm, _, _) \<in> set L. q \<noteq> out_tif od nm) \<Longrightarrow>
     st' q = st q"
proof (induction L arbitrary: st)
  case Nil
  then show ?case by simp
next
  case (Cons m L)
  obtain nm s r where m: "m = (nm, s, r)" by (cases m) auto
  obtain st1 e1 where step: "extract_band names g od st m = (st1, e1)" by fastforce
  have "st1 q = st q" using extract_band_frame [of names g od st nm s r st1 e1 q] step m Cons.prems(2) by auto
  with Cons step show ?case by (cases e1) auto
qed

lemma run_units_extract:
  assumes "run_units (extract_band names g od) st L = (st', None)"
    and "(nm, s, r) \<in> set L" and "distinct (map fst L)"
    and "glob_children names (g @ ''/IMG_DATA/R'' @ r) (''*_'' @ s @ ''_'' @ r @ ''.jp2'') = f # fs"
    and "st f = Some ds" and "\<forall>(o', _, _) \<in> set L. f \<noteq> out_tif od o'"
  shows "st' (out_tif od nm) = Some \<lparr>ds_profile = (ds_profile ds)\<lparr>p_driver := ''GTiff'', p_count := 1\<rparr>, ds_band = ds_band ds\<rparr>"
  using assms
proof (induction L arbitrary: st)
  case Nil
  then show ?case by simp
next
  case (Cons m L)
  obtain nm1 s1 r1 where m: "m = (nm1, s1, r1)" by (cases m) auto
  obtain st1 e1 where step: "extract_band names g od st m = (st1, e1)" by fastforce
  with Cons.prems(1) have e1: "e1 = None" and rest: "run_units (extract_band names g od) st1 L = (st', None)"
    by (cases e1; simp)+
  show ?case
  proof (cases "m = (nm, s, r)")
    case True
    have w: "st1 (out_tif od nm) = Some \<lparr>ds_profile = (ds_profile ds)\<lparr>p_driver := ''GTiff'', p_count := 1\<rparr>, ds_band = ds_band ds\<rparr>"
      using extract_band_writes [of names g od st nm s r st1 f fs ds] step e1 True Cons.prems(4,5) by simp
    have "\<forall>(o', _, _) \<in> set L. out_tif od nm \<noteq> out_tif od o'"
      using Cons.prems(3) True by (fastforce intro: rev_image_eqI)
    with run_units_frame [OF rest] w show ?thesis by simp
  next
    case False
    have "st1 f = st f"
      using extract_band_frame [of names g od st nm1 s1 r1 st1 e1 f] step m Cons.prems(6) by auto
    with Cons.IH [OF rest] False Cons.prems(2-6) show ?thesis by auto
  qed
qed

lemma run_units_identity:
  "(\<forall>u \<in> set us. f st u = (st, None)) \<Longrightarrow> run_units f st us = (st, None)"
  by (induction us) auto

lemma distinct_band_outputs: "distinct (map fst band_mappings)"
  by (simp add: band_mappings_def)

lemma band_mappings_no_star:
  "(nm, s, r) \<in> set band_mappings \<Longrightarrow> CHR ''*'' \<notin> set s \<and> CHR ''*'' \<notin> set r"
  by (auto simp: band_mappings_def)

subsection \<open>Properties of the extraction\<close>

text \<open>A pattern \<open>'*' + s\<close> (with no other \<open>'*'\<close>) matches exactly the names that end with \<open>s\<close>.\<close>

lemma glob_suffix_match:
  assumes "CHR ''*'' \<notin> set s"
  shows "fnmatch (glob_parse (CHR ''*'' # s)) c \<longleftrightarrow> ends_with s c"
  using glob_star_suffix [OF assms] by (simp add: ends_with_iff)

text \<open>
  The script's band patterns mean what they say: for every entry of the band table,
  the glob \<open>*_<band>_<res>.jp2\<close> of a folder lists, in the folder's order, exactly the
  entries whose names end with \<open>_<band>_<res>.jp2\<close>; so \<open>*_B04_10m.jp2\<close> selects the 10 m
  red band of a granule and not its 20 m or 60 m versions.
\<close>

lemma band_glob_selects_suffix:
  assumes "(nm, s, r) \<in> set band_mappings"
  shows "glob_children names d (''*_'' @ s @ ''_'' @ r @ ''.jp2'') =
           map (\<lambda>c. d @ ''/'' @ c) (filter (ends_with (''_'' @ s @ ''_'' @ r @ ''.jp2'')) (children names d))"
proof -
  let ?t = "''_'' @ s @ ''_'' @ r @ ''.jp2''"
  have eq: "''*_'' @ s @ ''_'' @ r @ ''.jp2'' = CHR ''*'' # ?t" by simp
  have "CHR ''*'' \<notin> set ?t" using band_mappings_no_star [OF assms] by simp
  then have "fnmatch (glob_parse (CHR ''*'' # ?t)) = ends_with ?t"
    using glob_suffix_match by blast
  then show ?thesis unfolding glob_children_def eq by simp
qed

text \<open>
  C18: \<open>extract_band\<close> copies the right file. For every entry \<open>(name, band, res)\<close> of the
  band table, when the first file of the granule's \<open>R<res>\<close> folder (in the folder's order)
  whose name ends with \<open>_<band>_<res>.jp2\<close> is a readable band, \<open>extract_band\<close> writes
  exactly that band to \<open><output_dir>/<name>.tif\<close> as a single-band GeoTIFF: so
  \<open>*_B04_10m.jp2\<close> selects the 10 m red band and not \<open>TCI\<close>, \<open>B04_20m\<close> or another band.
\<close>

theorem extract_band_selects_suffix:
  assumes "(nm, s, r) \<in> set band_mappings"
    and "filter (ends_with (''_'' @ s @ ''_'' @ r @ ''.jp2'')) (children names (g @ ''/IMG_DATA/R'' @ r)) = c # cs"
    and "read_band1 st (g @ ''/IMG_DATA/R'' @ r @ ''/'' @ c) = Inr (data, prof)"
    and "shape data = (p_height prof, p_width prof)" and "nd_wf data"
  shows "extract_band names g out st (nm, s, r) =
           (st(out @ ''/'' @ nm @ ''.tif'' \<mapsto> \<lparr>ds_profile = prof\<lparr>p_driver := ''GTiff'', p_count := 1\<rparr>, ds_band = data\<rparr>),
            None)"
proof -
  have "dir_exists names (g @ ''/IMG_DATA/R'' @ r)"
    using assms(2) by (auto simp: dir_exists_def)
  moreover have "glob_children names (g @ ''/IMG_DATA/R'' @ r) (''*_'' @ s @ ''_'' @ r @ ''.jp2'') =
                   (g @ ''/IMG_DATA/R'' @ r @ ''/'' @ c) # map (\<lambda>c. g @ ''/IMG_DATA/R'' @ r @ ''/'' @ c) cs"
    using band_glob_selects_suffix [OF assms(1), of names "g @ ''/IMG_DATA/R'' @ r"] assms(2) by simp
  ultimately show ?thesis
    using assms(3-5) by (simp add: extract_band_def unit_of_def write_band1_def)
qed

lemma extract_band_selects_suffix_witness:
  "extract_band [''g/IMG_DATA/R10m/T43_TCI_10m.jp2'', ''g/IMG_DATA/R10m/T43_B04_10m.jp2'']
       ''g'' ''data/2021'' [''g/IMG_DATA/R10m/T43_B04_10m.jp2'' \<mapsto> band_file (tile_profile 1 1) (full 1 1 (Fin 7))]
       (''B4'', ''B04'', ''10m'') =
     ([''g/IMG_DATA/R10m/T43_B04_10m.jp2'' \<mapsto> band_file (tile_profile 1 1) (full 1 1 (Fin 7))]
        (''data/2021'' @ ''/'' @ ''B4'' @ ''.tif'' \<mapsto>
           \<lparr>ds_profile = (tile_profile 1 1)\<lparr>p_driver := ''GTiff'', p_count := 1\<rparr>, ds_band = full 1 1 (Fin 7)\<rparr>),
      None)"
  by (rule extract_band_selects_suffix)
     (simp_all add: band_mappings_def children_def ends_with_def read_band1_def full_def shape_def nd_wf_def)

text \<open>
  C9: a successful extraction copies every band it finds: for each entry of the band
  table whose pattern matches a file in the first granule's resolution folder, the output
  \<open><output_dir>/<name>.tif\<close> holds band 1 of the first matching file, with its profile,
  as a GeoTIFF of one band. Reading it back gives the source band.
\<close>

theorem extract_bands_from_safe_copies:
  assumes run: "extract_bands_from_safe names st safe_path output_dir = (st', Inr True)"
    and granule: "glob_children names (safe_path @ ''/GRANULE'') ''*'' = g # gs"
    and entry: "(nm, s, r) \<in> set band_mappings"
    and found: "glob_children names (g @ ''/IMG_DATA/R'' @ r) (''*_'' @ s @ ''_'' @ r @ ''.jp2'') = f # fs"
    and src: "st f = Some ds"
  shows "read_band1 st' (out_tif output_dir nm) = Inr (ds_band ds, (ds_profile ds)\<lparr>p_driver := ''GTiff'', p_count := 1\<rparr>)"
proof -
  have units: "run_units (extract_band names g output_dir) st band_mappings = (st', None)"
    using run granule glob_children_dir_exists [OF granule]
    by (auto simp: extract_bands_from_safe_def split: prod.splits option.splits)
  obtain u where "f = u @ ''.jp2''"
    using band_glob_jp2 [OF found] band_mappings_no_star [OF entry] by blast
  then have "\<forall>(nm', _, _) \<in> set band_mappings. f \<noteq> out_tif output_dir nm'"
    using jp2_not_tif by auto
  from run_units_extract [OF units entry distinct_band_outputs found src this]
  show ?thesis by (simp add: read_band1_def)
qed

lemma extract_bands_from_safe_copies_witness:
  "\<exists>st'. extract_bands_from_safe [''data/2021/S2A.SAFE/GRANULE/L2A_T43/IMG_DATA/R10m/T43_B04_10m.jp2'']
          [''data/2021/S2A.SAFE/GRANULE/L2A_T43/IMG_DATA/R10m/T43_B04_10m.jp2'' \<mapsto> band_file (tile_profile 1 1) (full 1 1 (Fin 7))]
          ''data/2021/S2A.SAFE'' ''data/2021'' = (st', Inr True)
     \<and> read_band1 st' ''data/2021/B4.tif'' = Inr (full 1 1 (Fin 7), (tile_profile 1 1)\<lparr>p_driver := ''GTiff'', p_count := 1\<rparr>)"
proof -
  let ?f = "''data/2021/S2A.SAFE/GRANULE/L2A_T43/IMG_DATA/R10m/T43_B04_10m.jp2''"
  let ?st = "[?f \<mapsto> band_file (tile_profile 1 1) (full 1 1 (Fin 7))]"
  have "\<exists>st'. extract_bands_from_safe [?f] ?st ''data/2021/S2A.SAFE'' ''data/2021'' = (st', Inr True)"
    by (simp add: extract_bands_from_safe_def extract_band_def band_mappings_def glob_children_def
        children_def dir_exists_def unit_of_def read_band1_def write_band1_def shape_def nd_wf_def full_def Let_def)
  then obtain st' where run: "extract_bands_from_safe [?f] ?st ''data/2021/S2A.SAFE'' ''data/2021'' = (st', Inr True)"
    by blast
  have "read_band1 st' ''data/2021/B4.tif'' = Inr (full 1 1 (Fin 7), (tile_profile 1 1)\<lparr>p_driver := ''GTiff'', p_count := 1\<rparr>)"
    using extract_bands_from_safe_copies [OF run, of "''data/2021/S2A.SAFE/GRANULE/L2A_T43''" "[]" "''B4''" "''B04''" "''10m''" ?f "[]"]
    by (simp add: band_mappings_def glob_children_def children_def)
  with run show ?thesis by blast
qed

text \<open>
  C22: when no band pattern matches in the first granule, for example in a Level-1C product
  whose \<open>IMG_DATA\<close> folder holds the band files directly, without the \<open>R10m\<close> and \<open>R20m\<close>
  subfolders of Level-2A, \<open>extract_bands_from_safe\<close> writes nothing and still returns
  \<open>True\<close>, so \<open>main\<close> reports the extraction as complete.
\<close>

theorem extract_bands_from_safe_no_bands:
  assumes granule: "glob_children names (safe_path @ ''/GRANULE'') ''*'' = g # gs"
    and none: "\<forall>(nm, s, r) \<in> set band_mappings.
                 glob_children names (g @ ''/IMG_DATA/R'' @ r) (''*_'' @ s @ ''_'' @ r @ ''.jp2'') = []"
  shows "extract_bands_from_safe names st safe_path output_dir = (st, Inr True)"
proof -
  have "\<forall>m \<in> set band_mappings. extract_band names g output_dir st m = (st, None)"
    using none by (auto simp: extract_band_def Let_def)
  then have "run_units (extract_band names g output_dir) st band_mappings = (st, None)"
    by (rule run_units_identity)
  with granule glob_children_dir_exists [OF granule] show ?thesis
    by (simp add: extract_bands_from_safe_def)
qed

lemma extract_bands_from_safe_no_bands_witness:
  "extract_bands_from_safe [''data/2021/S2A_MSIL1C.SAFE/GRANULE/L1C_T43QHF/IMG_DATA/T43QHF_20210105T052219_B04.jp2'']
     [''data/2021/S2A_MSIL1C.SAFE/GRANULE/L1C_T43QHF/IMG_DATA/T43QHF_20210105T052219_B04.jp2'' \<mapsto>
        band_file (tile_profile 1 1) (full 1 1 (Fin 7))]
     ''data/2021/S2A_MSIL1C.SAFE'' ''data/2021''
   = ([''data/2021/S2A_MSIL1C.SAFE/GRANULE/L1C_T43QHF/IMG_DATA/T43QHF_20210105T052219_B04.jp2'' \<mapsto>
        band_file (tile_profile 1 1) (full 1 1 (Fin 7))], Inr True)"
  by (rule extract_bands_from_safe_no_bands [where g = "''data/2021/S2A_MSIL1C.SAFE/GRANULE/L1C_T43QHF''" and gs = "[]"])
     (simp_all add: glob_children_def children_def band_mappings_def)

subsection \<open>The store invariant\<close>

text \<open>Every write goes through \<open>write_band1\<close>, which refuses a band of the wrong shape, so
  \<open>store_wf\<close> holds after each function of this part whenever it held before.\<close>

lemma extract_band_store_wf:
  "store_wf st \<Longrightarrow> store_wf (fst (extract_band names g od st m))"
  by (auto simp: extract_band_def Let_def unit_of_def split: prod.splits list.splits sum.splits
      intro: store_wf_write)

lemma extract_main_store_wf: "store_wf st \<Longrightarrow> store_wf (fst (extract_main names st))"
proof -
  assume wf: "store_wf st"
  have safe: "store_wf (fst (extract_bands_from_safe names st s od))" if "store_wf st" for st s od
  proof -
    have "store_wf (fst (run_units (extract_band names g od) st band_mappings))" for g
      by (rule run_units_invariant [where P = store_wf, OF extract_band_store_wf that])
    then show ?thesis using that
      by (auto simp: extract_bands_from_safe_def Let_def split: list.splits prod.splits option.splits)
         (metis fst_conv)+
  qed
  show ?thesis
    unfolding extract_main_def
    by (rule run_units_invariant [where P = store_wf, OF _ wf])
       (auto simp: extract_year_def Let_def split: list.splits prod.splits sum.splits; metis safe fst_conv)
qed

end
