(* ===== verification/Data_Checks.thy ===== *)
theory Data_Checks
  imports Pipeline Band_Extraction
begin

text \<open>
  The checks of \<open>src/run_all_analyses.py\<close> that run before the analyses:
  \<open>check_dependencies\<close> (lines 33--60) tries to import each required package, and
  \<open>check_data_files\<close> (lines 62--114) lists the missing year folders, basic bands and ROI
  shapefile. Whether a package imports is the parameter \<open>importable\<close>; the file system is
  the path listing \<open>names\<close> of \<open>Band_Extraction\<close> (a folder exists when it holds a file, so an
  empty year folder is reported as missing as a whole). \<open>master_main\<close> is \<open>main()\<close>: only
  the dependency check gates the run; the data check's result is computed and not used.
\<close>

definition required_packages :: "string list" where
  "required_packages = [''rasterio'', ''numpy'', ''matplotlib'', ''geopandas'', ''sklearn'', ''pathlib'']"

definition check_dependencies :: "(string \<Rightarrow> bool) \<Rightarrow> bool" where
  "check_dependencies importable =
     (let missing_packages = filter (\<lambda>package. \<not> importable package) required_packages
      in missing_packages = [])"

text \<open>One year of \<open>check_data_files\<close>, lines 74--97: the missing folder, or the missing
  basic bands (B11 is optional and only printed).\<close>

definition check_year_files :: "path list \<Rightarrow> string \<Rightarrow> string list" where
  "check_year_files names year =
     (let year_path = ''data/'' @ year
      in if \<not> dir_exists names year_path then [''data/'' @ year @ ''/'']
         else map (\<lambda>band. year_path @ ''/'' @ band @ ''.tif'')
                (filter (\<lambda>band. year_path @ ''/'' @ band @ ''.tif'' \<notin> set names) [''B2'', ''B3'', ''B4'', ''B8'']))"

definition check_data_files :: "path list \<Rightarrow> string list \<times> bool" where
  "check_data_files names =
     (let missing_files = concat (map (check_year_files names) [''2021'', ''2025'']) @
            (if dir_exists names ''data/roi'' \<and> glob_children names ''data/roi'' ''*.shp'' \<noteq> [] then []
             else [''data/roi/ (shapefile)''])
      in (missing_files, missing_files = []))"

text \<open>\<open>main()\<close>, lines 116--176.\<close>

definition master_main ::
  "(string \<Rightarrow> bool) \<Rightarrow> path list \<Rightarrow> bool \<Rightarrow> (fval list list \<Rightarrow> py_error + nat list) \<Rightarrow> store
     \<Rightarrow> store \<times> (string \<times> bool) list" where
  "master_main importable names roi_ok clusterer st =
     (if \<not> check_dependencies importable then (st, [])
      else let data_ok = snd (check_data_files names)
           in run_all_analyses True roi_ok clusterer st)"

subsection \<open>The checks\<close>

lemma check_dependencies_iff: "check_dependencies importable \<longleftrightarrow> (\<forall>p \<in> set required_packages. importable p)"
  by (auto simp: check_dependencies_def filter_empty_conv)

lemma check_year_files_ok:
  "dir_exists names (''data/'' @ year) \<Longrightarrow>
     check_year_files names year = [] \<longleftrightarrow>
     (\<forall>band \<in> set [''B2'', ''B3'', ''B4'', ''B8'']. ''data/'' @ year @ ''/'' @ band @ ''.tif'' \<in> set names)"
  by (simp add: check_year_files_def filter_empty_conv)

lemma check_data_files_ok:
  "snd (check_data_files names) \<longleftrightarrow>
     (\<forall>year \<in> set [''2021'', ''2025'']. check_year_files names year = [])
     \<and> dir_exists names ''data/roi'' \<and> glob_children names ''data/roi'' ''*.shp'' \<noteq> []"
  by (auto simp: check_data_files_def Let_def)

text \<open>The data check never gates the run: with the dependencies present, \<open>main\<close> runs the
  four analyses whatever files are missing.\<close>

lemma master_main_ignores_data_check:
  "check_dependencies importable \<Longrightarrow> master_main importable names roi_ok clusterer st = run_all_analyses True roi_ok clusterer st"
  by (simp add: master_main_def)

lemma master_main_missing_dependency:
  "\<not> importable ''sklearn'' \<Longrightarrow> master_main importable names roi_ok clusterer st = (st, [])"
  by (simp add: master_main_def check_dependencies_iff required_packages_def)

subsection \<open>The store invariant\<close>

text \<open>Every write goes through \<open>write_band1\<close>, which refuses a band of the wrong shape, so
  \<open>store_wf\<close> holds after each function of this part whenever it held before.\<close>

lemma master_main_store_wf:
  "store_wf st \<Longrightarrow> store_wf (fst (master_main importable names roi_ok clusterer st))"
  by (simp add: master_main_def run_all_analyses_store_wf)

end
