(* ===== verification/Confinement.thy ===== *)
theory Confinement
  imports Data_Checks
begin

text \<open>
  Where the analysis scripts write. Every raster the four analyses of
  \<open>src/run_all_analyses.py\<close> produce is written under \<open>data/output/\<close>: the band files under
  \<open>data/<year>/\<close> are inputs only. \<open>in_output\<close> tests a path for that prefix, and
  \<open>keeps_inputs st0 st\<close> says that \<open>st\<close> agrees with \<open>st0\<close> on every other path. Each lemma of
  this theory carries \<open>keeps_inputs st0\<close> through one function of the scripts, from the write
  at its literal output path up to the master script.
\<close>

fun starts_with :: "string \<Rightarrow> string \<Rightarrow> bool" where
  "starts_with [] s = True"
| "starts_with (c # cs) [] = False"
| "starts_with (c # cs) (d # ds) = (c = d \<and> starts_with cs ds)"

definition in_output :: "path \<Rightarrow> bool" where
  "in_output p = starts_with ''data/output/'' p"

definition keeps_inputs :: "store \<Rightarrow> store \<Rightarrow> bool" where
  "keeps_inputs st0 st = (\<forall>p. \<not> in_output p \<longrightarrow> st p = st0 p)"

subsection \<open>Writes under \<open>data/output/\<close>\<close>

lemma keeps_inputs_refl [simp]: "keeps_inputs st st"
  by (simp add: keeps_inputs_def)

lemma keeps_inputs_write:
  "write_band1 st q prof A = Inr st' \<Longrightarrow> in_output q \<Longrightarrow> keeps_inputs st0 st \<Longrightarrow> keeps_inputs st0 st'"
  by (auto simp: keeps_inputs_def dest: write_band1_frame)

lemma keeps_inputs_write_u8:
  "write_band1_u8 st q prof A = Inr st' \<Longrightarrow> in_output q \<Longrightarrow> keeps_inputs st0 st \<Longrightarrow> keeps_inputs st0 st'"
  unfolding write_band1_u8_def by (rule keeps_inputs_write)

lemmas keeps_inputs_writes = keeps_inputs_write keeps_inputs_write_u8

subsection \<open>The functions of the scripts\<close>

lemma calculate_ndvi_keeps_inputs:
  "calculate_ndvi st r n p = Inr (st', x) \<Longrightarrow> in_output p \<Longrightarrow> keeps_inputs st0 st \<Longrightarrow> keeps_inputs st0 st'"
  by (auto simp: calculate_ndvi_def sbind_eq_Inr split: prod.splits intro: keeps_inputs_writes)

lemma calculate_ndvi_difference_keeps_inputs:
  "calculate_ndvi_difference st a b p = Inr (st', x) \<Longrightarrow> in_output p \<Longrightarrow> keeps_inputs st0 st \<Longrightarrow>
     keeps_inputs st0 st'"
  by (auto simp: calculate_ndvi_difference_def sbind_eq_Inr split: prod.splits intro: keeps_inputs_writes)

lemma compare_classifications_keeps_inputs:
  "compare_classifications st a b p = Inr (st', x) \<Longrightarrow> in_output p \<Longrightarrow> keeps_inputs st0 st \<Longrightarrow>
     keeps_inputs st0 st'"
  by (auto simp: compare_classifications_def sbind_eq_Inr split: prod.splits intro: keeps_inputs_writes)

lemma calculate_built_up_index_keeps_inputs:
  "calculate_built_up_index st a b c p = Inr (st', x) \<Longrightarrow> in_output p \<Longrightarrow> keeps_inputs st0 st \<Longrightarrow>
     keeps_inputs st0 st'"
  by (auto simp: calculate_built_up_index_def sbind_eq_Inr split: prod.splits intro: keeps_inputs_writes)

lemma create_classification_map_keeps_inputs:
  "create_classification_map st l v s p prof = Inr (st', x) \<Longrightarrow> in_output p \<Longrightarrow> keeps_inputs st0 st \<Longrightarrow>
     keeps_inputs st0 st'"
  by (auto simp: create_classification_map_def sbind_eq_Inr Let_def split: prod.splits intro: keeps_inputs_writes)

lemma ndvi_main_keeps_inputs: "keeps_inputs st0 st \<Longrightarrow> keeps_inputs st0 (fst (ndvi_main roi_ok st))"
proof -
  assume k: "keeps_inputs st0 st"
  have "keeps_inputs st0 (fst (run_units ndvi_year st [''2021'', ''2025'']))"
    by (rule run_units_invariant [where P = "keeps_inputs st0", OF _ k])
       (auto simp: ndvi_year_def Let_def in_output_def split: sum.splits prod.splits intro: calculate_ndvi_keeps_inputs)
  then show ?thesis by (auto simp: ndvi_main_def split: prod.splits option.splits sum.splits)
qed

lemma classification_main_keeps_inputs:
  "keeps_inputs st0 st \<Longrightarrow> keeps_inputs st0 (fst (classification_main clusterer st))"
  unfolding classification_main_def
  by (rule run_units_invariant [where P = "keeps_inputs st0"])
     (auto simp: classify_year_def Let_def unit_of_def sbind_def in_output_def
           split: sum.splits prod.splits intro: create_classification_map_keeps_inputs)

lemma change_main_keeps_inputs:
  assumes k: "keeps_inputs st0 st"
  shows "keeps_inputs st0 (fst (change_main st))"
proof (cases "calculate_ndvi_difference st ''data/output/ndvi_2021.tif'' ''data/output/ndvi_2025.tif''
                ''data/output/ndvi_difference.tif''")
  case (Inr r)
  obtain st1 d where r: "r = (st1, d)" by fastforce
  have k1: "keeps_inputs st0 st1"
    by (rule calculate_ndvi_difference_keeps_inputs [OF _ _ k], use Inr r in simp, simp add: in_output_def)
  note w = keeps_inputs_write_u8 [OF _ _ k1]
  show ?thesis
    using Inr r k k1
    by (auto simp: change_main_def Let_def sbind_eq_Inr in_output_def split: sum.splits prod.splits if_splits
        intro: w compare_classifications_keeps_inputs [OF _ _ w])
qed (use k in \<open>simp add: change_main_def Let_def\<close>)

lemma urban_main_keeps_inputs: "keeps_inputs st0 st \<Longrightarrow> keeps_inputs st0 (fst (urban_main st))"
  unfolding urban_main_def
proof (rule run_units_invariant [where P = "keeps_inputs st0"])
  fix st year assume k: "keeps_inputs st0 st"
  show "keeps_inputs st0 (fst (urban_year st year))"
  proof (cases "calculate_built_up_index st (''data/'' @ year @ ''/B4.tif'') (''data/'' @ year @ ''/B8.tif'')
                  (''data/'' @ year @ ''/B11.tif'') (''data/output/bui_'' @ year @ ''.tif'')")
    case (Inr r)
    obtain st1 x where r: "r = (st1, x)" by (cases r) blast
    have k1: "keeps_inputs st0 st1"
      by (rule calculate_built_up_index_keeps_inputs [OF _ _ k], use Inr r in simp, simp add: in_output_def)
    show ?thesis
      using Inr r k k1
      by (auto simp: urban_year_def Let_def unit_of_def save_urban_areas_def in_output_def split: sum.splits prod.splits
          intro: keeps_inputs_write_u8)
  qed (use k in \<open>simp add: urban_year_def Let_def\<close>)
qed

lemma run_analyses_keeps_inputs:
  assumes "\<forall>(description, script) \<in> set analyses. \<forall>st. keeps_inputs st0 st \<longrightarrow> keeps_inputs st0 (fst (script st))"
    and "keeps_inputs st0 st"
  shows "keeps_inputs st0 (fst (run_analyses analyses st))"
  using assms
proof (induction analyses arbitrary: st)
  case (Cons a analyses)
  obtain description script where a: "a = (description, script)" by fastforce
  have "keeps_inputs st0 (fst (script st))" using Cons.prems a by auto
  with Cons.IH Cons.prems(1) show ?case by (simp add: a run_analyses_step del: run_analyses.simps)
qed simp

text \<open>
  C11: the master script never modifies its inputs. Whatever the dependency check, the
  clusterer and the data present, every path outside \<open>data/output/\<close> (the band files of both
  years, the ROI shapefile, any other file) holds after \<open>main\<close> of \<open>run_all_analyses.py\<close>
  exactly what it held before: all four analyses write only their outputs.
\<close>

theorem master_main_keeps_inputs:
  assumes "\<not> in_output p"
  shows "fst (master_main importable names roi_ok clusterer st) p = st p"
proof -
  have "keeps_inputs st (fst (run_all_analyses True roi_ok clusterer st))"
    unfolding run_all_analyses_def
    by (auto simp del: run_analyses.simps intro!: run_analyses_keeps_inputs ndvi_main_keeps_inputs
        classification_main_keeps_inputs change_main_keeps_inputs urban_main_keeps_inputs)
  then show ?thesis using assms by (simp add: master_main_def keeps_inputs_def)
qed

lemma master_main_keeps_inputs_witness:
  "fst (master_main (\<lambda>package. True) [] True (\<lambda>data. Inr (replicate (length data) 0)) stack_2021)
       ''data/2021/B4.tif'' = stack_2021 ''data/2021/B4.tif''"
  by (rule master_main_keeps_inputs) (simp add: in_output_def)

end
