(* ===== verification/GridFS.thy ===== *)
theory GridFS
  imports Raster_IO
begin

text \<open>
  The archival blob store of \<open>src/urban_extraction.py\<close> (lines 17--20 and 200--211): a
  GridFS bucket opened at import time, \<open>upload_file\<close> and \<open>download_file\<close>. A GridFS
  bucket keeps every file put into it, several under one name if a name is reused, and
  \<open>find_one({"filename": name})\<close> returns the first match in the collection's natural
  order, the order of insertion. The bucket is therefore an association list in insertion
  order, looked up with \<open>map_of\<close> (first match). A file's bytes are the dataset the raster
  store holds under its path, so a file read from the store and written back is the same
  dataset. The bucket's contents when the script starts are whatever the database holds.
\<close>

type_synonym gridfs = "(string \<times> dataset) list"

text \<open>\<open>upload_file(filepath)\<close>, lines 200--202: \<open>open(filepath, "rb")\<close> raises when the
  file is missing; otherwise \<open>fs.put\<close> adds a new file named \<open>filepath\<close>.\<close>

definition upload_file :: "store \<Rightarrow> gridfs \<Rightarrow> path \<Rightarrow> py_error + gridfs" where
  "upload_file st fs filepath =
     (case st filepath of
        None \<Rightarrow> Inl FileNotFoundError
      | Some f \<Rightarrow> Inr (fs @ [(filepath, f)]))"

text \<open>\<open>download_file(filename, out_path)\<close>, lines 204--211: the first file of that name
  is written to \<open>out_path\<close>; when there is none, only a message is printed.\<close>

definition download_file :: "gridfs \<Rightarrow> store \<Rightarrow> string \<Rightarrow> path \<Rightarrow> store" where
  "download_file fs st filename out_path =
     (case map_of fs filename of
        Some file \<Rightarrow> st(out_path \<mapsto> file)
      | None \<Rightarrow> st)"

subsection \<open>Uploads and downloads\<close>

lemma upload_file_missing: "st filepath = None \<Longrightarrow> upload_file st fs filepath = Inl FileNotFoundError"
  by (simp add: upload_file_def)

lemma download_file_missing:
  assumes "filename \<notin> fst ` set fs"
  shows "download_file fs st filename out_path = st"
proof -
  from assms have "map_of fs filename = None" by (simp add: map_of_eq_None_iff)
  then show ?thesis by (simp add: download_file_def)
qed

lemma map_of_snoc:
  "map_of (fs @ [(k, v)]) k' = (case map_of fs k' of None \<Rightarrow> (if k' = k then Some v else None) | Some w \<Rightarrow> Some w)"
  by (simp add: map_add_def split: option.splits)

declare map_of_snoc [simp]

text \<open>
  C17: an upload followed by a download of the same name is a round trip only for a name
  the bucket did not hold: the download writes the uploaded dataset to \<open>out_path\<close> when
  the name is new, and the oldest file of that name when it was uploaded before. A
  re-uploaded result is never downloaded again.
\<close>

theorem upload_download_roundtrip:
  assumes "st p = Some f"
  shows "\<exists>fs'. upload_file st fs p = Inr fs'
           \<and> download_file fs' st' p q = st'(q \<mapsto> (case map_of fs p of None \<Rightarrow> f | Some older \<Rightarrow> older))"
  using assms by (simp add: upload_file_def download_file_def del: map_of_append split: option.splits)

lemma upload_download_roundtrip_witness:
  "\<exists>fs'. upload_file [''data/output/bui_2021.tif'' \<mapsto> band_file (tile_profile 1 1) (full 1 1 (Fin 1))]
           [(''data/output/bui_2021.tif'', band_file (tile_profile 1 1) (full 1 1 (Fin 0)))]
           ''data/output/bui_2021.tif'' = Inr fs'
     \<and> download_file fs' Map.empty ''data/output/bui_2021.tif'' ''restored.tif'' =
         Map.empty(''restored.tif'' \<mapsto>
           (case map_of [(''data/output/bui_2021.tif'', band_file (tile_profile 1 1) (full 1 1 (Fin 0)))]
                   ''data/output/bui_2021.tif'' of
              None \<Rightarrow> band_file (tile_profile 1 1) (full 1 1 (Fin 1)) | Some older \<Rightarrow> older))"
  by (rule upload_download_roundtrip) simp

end
