(* ===== verification/Plotting.thy ===== *)
theory Plotting
  imports Pipeline
begin

text \<open>
  The plotting functions of the four analysis scripts: \<open>plot_ndvi\<close>
  (\<open>calculate_ndvi.py\<close>), \<open>plot_changes\<close> (\<open>change_detection.py\<close>),
  \<open>plot_classification\<close> (\<open>land_cover_classification.py\<close>) and
  \<open>plot_urban_extraction\<close> (\<open>urban_extraction.py\<close>). A plot is modelled as the figure it
  builds: its panels, each an \<open>imshow\<close> of an array with a colormap, colour limits, a
  colorbar label and legend entries (face colour, label), and the file \<open>savefig\<close> writes.
  What a panel shows is given by matplotlib's colour mapping, \<open>panel_colour\<close>:
  \<open>imshow\<close> masks NaN and infinite pixels (drawn transparent), \<open>Normalize\<close> maps a value
  to \<open>(x - vmin) / (vmax - vmin)\<close> (0 when \<open>vmin = vmax\<close>), limits that are not given are
  the minimum and maximum of the unmasked pixels, and a colormap of \<open>N\<close> colours picks
  entry \<open>\<lfloor>N t\<rfloor>\<close>, with \<open>t = 1\<close> in the last entry, values below the range in the
  first entry (the default "under" colour) and values above in the last. The colour tables
  of matplotlib's named colormaps (\<open>RdYlGn\<close>, \<open>RdBu\<close>, \<open>Reds\<close>) are the parameter \<open>lut\<close>.
  Displaying the figure (\<open>plt.show\<close>) and the PNG encoding are not modelled.
\<close>

datatype colormap = Named string | Listed "string list"

datatype rgba = Color string | Transparent

record panel =
  pn_title :: string
  pn_image :: "fval ndarray"
  pn_cmap :: colormap
  pn_vmin :: "real option"
  pn_vmax :: "real option"
  pn_colorbar :: "string option"
  pn_legend :: "(string \<times> string) list"

record figure =
  fig_suptitle :: "string option"
  fig_panels :: "panel list"
  fig_saved :: "path option"

subsection \<open>matplotlib's colour mapping\<close>

definition finite_values :: "fval list \<Rightarrow> real list" where
  "finite_values xs = [x. Fin x \<leftarrow> xs]"

definition autoscale_min :: "fval list \<Rightarrow> real" where
  "autoscale_min xs = (case finite_values xs of [] \<Rightarrow> 0 | y # ys \<Rightarrow> fold min ys y)"

definition autoscale_max :: "fval list \<Rightarrow> real" where
  "autoscale_max xs = (case finite_values xs of [] \<Rightarrow> 0 | y # ys \<Rightarrow> fold max ys y)"

definition normalize :: "real \<Rightarrow> real \<Rightarrow> real \<Rightarrow> real" where
  "normalize vmin vmax x = (if vmin = vmax then 0 else (x - vmin) / (vmax - vmin))"

text \<open>\<open>Colormap.__call__\<close> on a normalized value, for a colormap of \<open>N\<close> entries.\<close>

definition lut_index :: "nat \<Rightarrow> real \<Rightarrow> nat" where
  "lut_index N t =
     (let xa = t * real N;
          xa = (if xa = real N then real N - 1 else xa)
      in if xa < 0 then 0 else if real N \<le> xa then N - 1 else nat \<lfloor>xa\<rfloor>)"

definition colour_of :: "string list \<Rightarrow> real \<Rightarrow> real \<Rightarrow> fval \<Rightarrow> rgba" where
  "colour_of colors vmin vmax v =
     (case v of Fin x \<Rightarrow> Color (colors ! lut_index (length colors) (normalize vmin vmax x)) | _ \<Rightarrow> Transparent)"

definition panel_colour :: "(string \<Rightarrow> string list) \<Rightarrow> panel \<Rightarrow> nat \<Rightarrow> rgba" where
  "panel_colour lut p k =
     (let colors = (case pn_cmap p of Named name \<Rightarrow> lut name | Listed cs \<Rightarrow> cs);
          xs = vals (pn_image p);
          lo = (case pn_vmin p of Some v \<Rightarrow> v | None \<Rightarrow> autoscale_min xs);
          hi = (case pn_vmax p of Some v \<Rightarrow> v | None \<Rightarrow> autoscale_max xs)
      in colour_of colors lo hi (xs ! k))"

text \<open>\<open>if output_path: plt.savefig(output_path, ...)\<close>: an empty path is falsy.\<close>

definition savefig_target :: "path option \<Rightarrow> path option" where
  "savefig_target output_path = (case output_path of Some p \<Rightarrow> if p = [] then None else Some p | None \<Rightarrow> None)"

subsection \<open>The plotting functions\<close>

text \<open>\<open>plot_ndvi(ndvi, title, output_path=None)\<close>, \<open>calculate_ndvi.py\<close> lines 41--53.\<close>

definition plot_ndvi :: "fval ndarray \<Rightarrow> string \<Rightarrow> path option \<Rightarrow> figure" where
  "plot_ndvi ndvi title output_path =
     \<lparr>fig_suptitle = None,
      fig_panels = [\<lparr>pn_title = title, pn_image = ndvi, pn_cmap = Named ''RdYlGn'', pn_vmin = Some (-1),
                     pn_vmax = Some 1, pn_colorbar = Some ''NDVI'', pn_legend = []\<rparr>],
      fig_saved = savefig_target output_path\<rparr>"

text \<open>The legend of the change panel, \<open>change_detection.py\<close> lines 111--115.\<close>

definition change_legend :: "(string \<times> string) list" where
  "change_legend = [(''#FF0000'', ''Decrease''), (''#00FF00'', ''Increase''), (''#808080'', ''No Change'')]"

text \<open>\<open>plot_changes(ndvi_diff, changes, title, output_path=None)\<close>, lines 89--125.\<close>

definition plot_changes :: "fval ndarray \<Rightarrow> 8 word ndarray \<Rightarrow> string \<Rightarrow> path option \<Rightarrow> figure" where
  "plot_changes ndvi_diff changes title output_path =
     \<lparr>fig_suptitle = Some title,
      fig_panels =
        [\<lparr>pn_title = ''NDVI Difference (2025 - 2021)'', pn_image = ndvi_diff, pn_cmap = Named ''RdBu'',
          pn_vmin = Some (-1/2), pn_vmax = Some (1/2), pn_colorbar = Some ''NDVI Difference'', pn_legend = []\<rparr>,
         \<lparr>pn_title = ''Change Classification'', pn_image = amap u8_to_fval changes,
          pn_cmap = Listed [''#FF0000'', ''#00FF00'', ''#808080''],
          pn_vmin = Some 1, pn_vmax = Some 3, pn_colorbar = None, pn_legend = change_legend\<rparr>],
      fig_saved = savefig_target output_path\<rparr>"

text \<open>\<open>np.unique\<close>: the sorted distinct values.\<close>

definition np_unique :: "'a::linorder list \<Rightarrow> 'a list" where
  "np_unique xs = remdups_adj (sort xs)"

text \<open>The land-cover colours, \<open>land_cover_classification.py\<close> line 103.\<close>

definition class_colors :: "string list" where
  "class_colors = [''#8B4513'', ''#228B22'', ''#32CD32'', ''#FFD700'', ''#C0C0C0'', ''#000080'']"

text \<open>\<open>plot_classification(classification_map, title, output_path=None)\<close>, lines 96--115:
  as many colours as the map has distinct values, and colour limits from the data.\<close>

definition plot_classification :: "8 word ndarray \<Rightarrow> string \<Rightarrow> path option \<Rightarrow> figure" where
  "plot_classification classification_map title output_path =
     \<lparr>fig_suptitle = None,
      fig_panels =
        [\<lparr>pn_title = title, pn_image = amap u8_to_fval classification_map,
          pn_cmap = Listed (take (length (np_unique (vals classification_map))) class_colors),
          pn_vmin = None, pn_vmax = None, pn_colorbar = Some ''Land Cover Class'', pn_legend = []\<rparr>],
      fig_saved = savefig_target output_path\<rparr>"

text \<open>The legend of the land-cover panel, \<open>urban_extraction.py\<close> lines 160--166.\<close>

definition urban_legend :: "(string \<times> string) list" where
  "urban_legend =
     [(''#FFFFFF'', ''Unclassified''), (''#FF0000'', ''Urban''), (''#00FF00'', ''Vegetation''),
      (''#0000FF'', ''Water''), (''#8B4513'', ''Bare Soil'')]"

text \<open>\<open>plot_urban_extraction(ndvi, bui, urban_mask, title, output_path=None)\<close>, lines
  132--182. The last panel is \<open>np.where(urban_mask == 1, 1, 0)\<close>.\<close>

definition plot_urban_extraction ::
  "fval ndarray \<Rightarrow> fval ndarray \<Rightarrow> 8 word ndarray \<Rightarrow> string \<Rightarrow> path option \<Rightarrow> figure" where
  "plot_urban_extraction ndvi bui urban_mask title output_path =
     \<lparr>fig_suptitle = Some title,
      fig_panels =
        [\<lparr>pn_title = ''NDVI'', pn_image = ndvi, pn_cmap = Named ''RdYlGn'', pn_vmin = Some (-1),
          pn_vmax = Some 1, pn_colorbar = Some ''NDVI'', pn_legend = []\<rparr>,
         \<lparr>pn_title = ''Built-up Index (BUI)'', pn_image = bui, pn_cmap = Named ''Reds'', pn_vmin = Some (-1),
          pn_vmax = Some 1, pn_colorbar = Some ''BUI'', pn_legend = []\<rparr>,
         \<lparr>pn_title = ''Land Cover Classification'', pn_image = amap u8_to_fval urban_mask,
          pn_cmap = Listed [''#FFFFFF'', ''#FF0000'', ''#00FF00'', ''#0000FF'', ''#8B4513''],
          pn_vmin = Some 0, pn_vmax = Some 4,
          pn_colorbar = None, pn_legend = urban_legend\<rparr>,
         \<lparr>pn_title = ''Urban Areas Only'', pn_image = amap (\<lambda>c. if c = 1 then Fin 1 else Fin 0) urban_mask,
          pn_cmap = Named ''Reds'', pn_vmin = Some 0, pn_vmax = Some 1, pn_colorbar = None, pn_legend = []\<rparr>],
      fig_saved = savefig_target output_path\<rparr>"

subsection \<open>The colour mapping on integer codes\<close>

lemma lut_index_exact:
  assumes "k < N" and "real k \<le> t * real N" and "t * real N < real k + 1"
  shows "lut_index N t = k"
proof -
  have f: "\<lfloor>t * real N\<rfloor> = int k" using assms(2,3) by (simp add: floor_eq_iff)
  have "real k + 1 \<le> real N" using assms(1) by simp
  with assms(2,3) have "t * real N \<noteq> real N" "\<not> t * real N < 0" "\<not> real N \<le> t * real N" by linarith+
  then show ?thesis by (simp add: lut_index_def Let_def f)
qed

lemma lut_index_under: "t < 0 \<Longrightarrow> lut_index N t = 0"
  by (cases "N = 0") (auto simp: lut_index_def Let_def mult_less_0_iff)

lemma lut_index_range:
  assumes "j \<le> d"
  shows "lut_index (Suc d) (normalize (real a) (real (a + d)) (real (a + j))) = j"
proof (cases "d = 0")
  case True
  with assms show ?thesis by (simp add: normalize_def lut_index_def)
next
  case False
  show ?thesis
  proof (cases "j = d")
    case True
    with False show ?thesis by (simp add: normalize_def lut_index_def)
  next
    case jd: False
    with assms have jlt: "j < d" by simp
    have t: "normalize (real a) (real (a + d)) (real (a + j)) = real j / real d"
      using False by (simp add: normalize_def)
    have d0: "0 < real d" using False by simp
    have "real j \<le> real j / real d * real (Suc d)"
      using d0 by (simp add: field_simps)
    moreover have "real j / real d * real (Suc d) < real j + 1"
      using d0 jlt by (simp add: field_simps)
    ultimately show ?thesis unfolding t using jlt by (intro lut_index_exact) simp_all
  qed
qed


subsection \<open>The change plot\<close>

lemma change_panel_colour:
  assumes "c \<in> {0, 1, 2, 3}"
  shows "colour_of [''#FF0000'', ''#00FF00'', ''#808080''] 1 3 (u8_to_fval c) =
           Color (fst (change_legend ! (if c = 0 then 0 else unat c - 1)))"
proof (cases "c = 0")
  case True
  then show ?thesis by (simp add: colour_of_def u8_to_fval_def normalize_def lut_index_under change_legend_def)
next
  case False
  with assms have c: "unat c = 1 + (unat c - 1)" "unat c - 1 \<le> 2"
    by (auto simp: unat_eq_zero)
  have "lut_index (Suc 2) (normalize (real 1) (real (1 + 2)) (real (1 + (unat c - 1)))) = unat c - 1"
    using c(2) by (rule lut_index_range)
  then have "lut_index 3 (normalize 1 3 (real (unat c))) = unat c - 1"
    using c(1) by (simp add: numeral_3_eq_3)
  moreover have "fst (change_legend ! (unat c - 1)) = [''#FF0000'', ''#00FF00'', ''#808080''] ! (unat c - 1)"
    using c(2) by (auto simp: change_legend_def numeral_2_eq_2 le_Suc_eq)
  ultimately show ?thesis using False by (simp add: colour_of_def u8_to_fval_def numeral_eq_Suc)
qed

text \<open>
  C2: the change panel of \<open>plot_changes\<close> draws a pixel of change code 1, 2 or 3 in the
  face colour of the legend entry for that class (Decrease, Increase, No Change), and a
  pixel of code 0, which \<open>classify_changes\<close> leaves at a NaN difference, in the colour of
  Decrease: with \<open>vmin = 1\<close> the value 0 is below the range and takes the colormap's first
  colour, so undefined pixels are shown as vegetation loss.
\<close>

theorem plot_changes_colours:
  assumes "classify_changes ndvi_diff tau = Inr changes" and "k < length (vals ndvi_diff)"
  shows "panel_colour lut (fig_panels (plot_changes ndvi_diff changes title output_path) ! 1) k =
           Color (fst (change_legend ! (if change_code tau (vals ndvi_diff ! k) = 0 then 0
                                        else unat (change_code tau (vals ndvi_diff ! k)) - 1)))"
proof -
  have ch: "changes = amap (change_code tau) ndvi_diff" using assms(1) by (simp add: classify_changes_eq)
  show ?thesis
    using change_panel_colour [OF change_code_cases [of tau "vals ndvi_diff ! k"]] assms(2)
    by (simp add: ch panel_colour_def plot_changes_def)
qed

lemma plot_changes_colours_witness:
  "panel_colour (\<lambda>name. []) (fig_panels (plot_changes \<lparr>nrows = 1, ncols = 2, vals = [NaN, Fin (-1)]\<rparr>
       (amap (change_code (1/10)) \<lparr>nrows = 1, ncols = 2, vals = [NaN, Fin (-1)]\<rparr>) ''Change Detection: 2021-2025''
       (Some ''data/output/change_detection_plot.png'')) ! 1) 0 = Color ''#FF0000''
   \<and> snd (change_legend ! 0) = ''Decrease''"
  using plot_changes_colours [of "\<lparr>nrows = 1, ncols = 2, vals = [NaN, Fin (-1)]\<rparr>" "1/10"
      "amap (change_code (1/10)) \<lparr>nrows = 1, ncols = 2, vals = [NaN, Fin (-1)]\<rparr>" 0]
  by (simp add: classify_changes_eq change_code_NaN change_legend_def)

subsection \<open>The urban extraction plot\<close>

lemma urban_panel_colour:
  assumes "c \<in> {0, 1, 2, 3, 4}"
  shows "colour_of [''#FFFFFF'', ''#FF0000'', ''#00FF00'', ''#0000FF'', ''#8B4513''] 0 4 (u8_to_fval c) =
           Color (fst (urban_legend ! unat c))"
proof -
  have c: "unat c \<le> 4" using assms by auto
  have "lut_index (Suc 4) (normalize (real 0) (real (0 + 4)) (real (0 + unat c))) = unat c"
    using c by (rule lut_index_range)
  then have "lut_index 5 (normalize 0 4 (real (unat c))) = unat c" by simp
  moreover have "fst (urban_legend ! unat c) = [''#FFFFFF'', ''#FF0000'', ''#00FF00'', ''#0000FF'', ''#8B4513''] ! unat c"
    using c by (auto simp: urban_legend_def numeral_eq_Suc le_Suc_eq)
  ultimately show ?thesis by (simp add: colour_of_def u8_to_fval_def numeral_eq_Suc)
qed

text \<open>
  C24: the land-cover panel of \<open>plot_urban_extraction\<close> agrees with its legend: every
  pixel is drawn in the face colour of the legend entry whose position is the class code
  \<open>extract_urban_areas\<close> gives it (Unclassified, Urban, Vegetation, Water, Bare Soil), the
  colour limits 0 and 4 spreading the five colours exactly over the five codes.
\<close>

theorem plot_urban_legend:
  assumes "nd_wf ndvi" and "nd_wf bui" and "shape bui = shape ndvi" and "k < length (vals ndvi)"
  shows "\<exists>M. extract_urban_areas ndvi bui nt bt = Inr M
           \<and> panel_colour lut (fig_panels (plot_urban_extraction ndvi bui M title output_path) ! 2) k =
               Color (fst (urban_legend ! unat (urban_class nt bt (vals ndvi ! k) (vals bui ! k))))"
proof -
  obtain M where M: "extract_urban_areas ndvi bui nt bt = Inr M" "length (vals M) = length (vals ndvi)"
    and px: "\<forall>k < length (vals ndvi). vals M ! k = urban_class nt bt (vals ndvi ! k) (vals bui ! k)"
    using extract_urban_areas_nth [OF assms(1-3), of nt bt] by blast
  have "panel_colour lut (fig_panels (plot_urban_extraction ndvi bui M title output_path) ! 2) k =
          colour_of [''#FFFFFF'', ''#FF0000'', ''#00FF00'', ''#0000FF'', ''#8B4513''] 0 4 (u8_to_fval (vals M ! k))"
    using M(2) assms(4) by (simp add: panel_colour_def plot_urban_extraction_def)
  also have "\<dots> = Color (fst (urban_legend ! unat (vals M ! k)))"
    using urban_panel_colour [OF urban_class_codes] px assms(4) by simp
  finally show ?thesis using M(1) px assms(4) by auto
qed

lemma plot_urban_legend_witness:
  "\<exists>M. extract_urban_areas \<lparr>nrows = 1, ncols = 1, vals = [Fin (1/5)]\<rparr> \<lparr>nrows = 1, ncols = 1, vals = [Fin (1/2)]\<rparr> (3/10) (1/10) = Inr M
     \<and> panel_colour (\<lambda>name. []) (fig_panels (plot_urban_extraction \<lparr>nrows = 1, ncols = 1, vals = [Fin (1/5)]\<rparr>
          \<lparr>nrows = 1, ncols = 1, vals = [Fin (1/2)]\<rparr> M ''Urban Area Extraction 2021'' None) ! 2) 0 = Color ''#FF0000''"
  using plot_urban_legend [of "\<lparr>nrows = 1, ncols = 1, vals = [Fin (1/5)]\<rparr>" "\<lparr>nrows = 1, ncols = 1, vals = [Fin (1/2)]\<rparr>" 0
      "3/10" "1/10" "\<lambda>name. []" "''Urban Area Extraction 2021''" None]
  by (simp add: nd_wf_def shape_def urban_class_def urban_legend_def)


subsection \<open>The classification plot\<close>

lemma length_np_unique: "length (np_unique xs) = card (set xs)"
  by (simp add: np_unique_def remdups_adj_sort)

lemma finite_values_u8: "finite_values (map u8_to_fval ws) = map (\<lambda>w. real (unat w)) ws"
  by (induction ws) (simp_all add: finite_values_def u8_to_fval_def)

lemma fold_min_eq: "fold min ys y = Min (set (y # ys))"
  by (rule Min.set_eq_fold [symmetric])

lemma fold_max_eq: "fold max ys y = Max (set (y # ys))"
  by (rule Max.set_eq_fold [symmetric])

lemma autoscale_u8:
  assumes "set (map unat ws) = {a..b}" and "ws \<noteq> []"
  shows "autoscale_min (map u8_to_fval ws) = real a" and "autoscale_max (map u8_to_fval ws) = real b"
proof -
  obtain w ws' where ws: "ws = w # ws'" using assms(2) by (cases ws) auto
  have "set (map (\<lambda>w. real (unat w)) ws) = real ` (unat ` set ws)"
    by (simp only: set_map image_image)
  then have set: "set (map (\<lambda>w. real (unat w)) ws) = real ` {a..b}"
    using assms(1) by (simp only: set_map)
  have "unat w \<in> set (map unat ws)" using ws by simp
  then have ab: "a \<le> b" using assms(1) by simp
  have "Min (real ` {a..b}) = real a" using ab by (intro Min_eqI) auto
  moreover have "Max (real ` {a..b}) = real b" using ab by (intro Max_eqI) auto
  moreover have "finite_values (map u8_to_fval ws) = real (unat w) # map (\<lambda>w. real (unat w)) ws'"
    using finite_values_u8 [of ws] ws by (simp only: list.map)
  moreover have "set (real (unat w) # map (\<lambda>w. real (unat w)) ws') = real ` {a..b}"
    using set ws by (simp only: list.map)
  ultimately show "autoscale_min (map u8_to_fval ws) = real a" and "autoscale_max (map u8_to_fval ws) = real b"
    by (simp_all only: autoscale_min_def autoscale_max_def list.case fold_min_eq fold_max_eq)
qed

text \<open>
  C26: \<open>plot_classification\<close> gives a class no fixed colour. For a map whose values form
  the range \<open>a..b\<close> (at most six values), a pixel of value \<open>v\<close> is drawn in colour
  \<open>v - a\<close> of the list: the colour depends on the smallest value present. A map with
  invalid pixels (value 0) draws cluster 1 in the second colour, a map without them in the
  first, so the 2021 and 2025 plots can show one class in two colours, and there is no
  legend to tell.
\<close>

theorem plot_classification_colours:
  assumes range: "set (map unat (vals classification_map)) = {a..b}" and few: "b - a < 6"
    and k: "k < length (vals classification_map)"
  shows "panel_colour lut (hd (fig_panels (plot_classification classification_map title output_path))) k =
           Color (class_colors ! (unat (vals classification_map ! k) - a))"
proof -
  let ?ws = "vals classification_map"
  have ne: "?ws \<noteq> []" using k by auto
  have v: "unat (?ws ! k) \<in> {a..b}" using range k by (metis list.set_map nth_mem image_eqI)
  have "card (set ?ws) = card (unat ` set ?ws)"
    by (simp add: card_image inj_on_def word_unat_eq_iff)
  then have n: "length (np_unique ?ws) = Suc (b - a)" using range v by (simp add: length_np_unique Suc_diff_le)
  have len: "length (take (Suc (b - a)) class_colors) = Suc (b - a)" using few by (simp add: class_colors_def)
  obtain j where j: "unat (?ws ! k) = a + j" "j \<le> b - a" using v by (metis atLeastAtMost_iff le_add_diff_inverse diff_le_mono)
  have b: "b = a + (b - a)" using v by simp
  have idx: "lut_index (Suc (b - a)) (normalize (real a) (real (a + (b - a))) (real (a + j))) = j"
    using j(2) by (rule lut_index_range)
  have "panel_colour lut (hd (fig_panels (plot_classification classification_map title output_path))) k =
          colour_of (take (Suc (b - a)) class_colors) (real a) (real b) (u8_to_fval (?ws ! k))"
    using autoscale_u8 [OF range ne] n k by (simp add: panel_colour_def plot_classification_def)
  also have "\<dots> = Color (take (Suc (b - a)) class_colors ! j)"
    using idx len j(1) b by (simp add: colour_of_def u8_to_fval_def)
  also have "\<dots> = Color (class_colors ! j)" using j(2) by simp
  finally show ?thesis using j(1) by simp
qed


lemma plot_classification_colours_witness:
  "panel_colour (\<lambda>name. []) (hd (fig_panels (plot_classification \<lparr>nrows = 1, ncols = 2, vals = [0, 1]\<rparr>
       ''Land Cover Classification 2021'' None))) 1 = Color ''#228B22''
   \<and> panel_colour (\<lambda>name. []) (hd (fig_panels (plot_classification \<lparr>nrows = 1, ncols = 2, vals = [1, 2]\<rparr>
       ''Land Cover Classification 2025'' None))) 0 = Color ''#8B4513''"
proof -
  have r1: "set (map unat (vals \<lparr>nrows = 1, ncols = 2, vals = [0, 1 :: 8 word]\<rparr>)) = {0..1}" by auto
  have "set (map unat (vals \<lparr>nrows = 1, ncols = 2, vals = [1, 2 :: 8 word]\<rparr>)) = {1, 2}" by simp
  also have "{1, 2} = {1..2::nat}" by auto
  finally have r2: "set (map unat (vals \<lparr>nrows = 1, ncols = 2, vals = [1, 2 :: 8 word]\<rparr>)) = {1..2}" .
  show ?thesis
    using plot_classification_colours [OF r1, of 1 "\<lambda>name. []" "''Land Cover Classification 2021''" None]
      plot_classification_colours [OF r2, of 0 "\<lambda>name. []" "''Land Cover Classification 2025''" None]
    by (simp add: class_colors_def)
qed

end
