(* ===== verification/Clustering.thy ===== *)
theory Clustering
  imports Classification
begin

text \<open>
  \<open>perform_classification(data, n_clusters=5)\<close> of \<open>src/land_cover_classification.py\<close>
  (lines 59--73): scikit-learn's \<open>StandardScaler().fit_transform\<close>, then
  \<open>KMeans(n_clusters, random_state=42, n_init=10).fit_predict\<close>. The scaler is modelled
  (\<open>standard_scaler\<close>: each column centred on its mean and divided by its population
  standard deviation, a zero deviation replaced by 1 as scikit-learn does; the input check
  rejects an empty array, NaN and infinities with \<open>ValueError\<close>); k-means stays the parameter \<open>kmeans\<close>.
  \<open>perform_classification kmeans 5\<close> is therefore the \<open>clusterer\<close> of
  \<open>Classification\<close>. The data rows are rectangular (one value per band), as
  \<open>prepare_classification_data\<close> builds them.
\<close>

definition column :: "'a list list \<Rightarrow> nat \<Rightarrow> 'a list" where
  "column X j = map (\<lambda>row. row ! j) X"

definition col_mean :: "real list \<Rightarrow> real" where
  "col_mean xs = sum_list xs / real (length xs)"

definition col_scale :: "real list \<Rightarrow> real" where
  "col_scale xs =
     (let m = col_mean xs; var = sum_list (map (\<lambda>x. (x - m)\<^sup>2) xs) / real (length xs)
      in if var = 0 then 1 else sqrt var)"

text \<open>The population variance of a column, \<open>StandardScaler.var_\<close>.\<close>

definition col_var :: "real list \<Rightarrow> real" where
  "col_var xs = sum_list (map (\<lambda>x. (x - col_mean xs)\<^sup>2) xs) / real (length xs)"

text \<open>\<open>StandardScaler().fit_transform(X)\<close>.\<close>

definition standard_scaler :: "real list list \<Rightarrow> real list list" where
  "standard_scaler X =
     map (\<lambda>row. map (\<lambda>j. (row ! j - col_mean (column X j)) / col_scale (column X j)) [0..<length row]) X"

fun fin_val :: "fval \<Rightarrow> real" where
  "fin_val (Fin x) = x"
| "fin_val _ = 0"

text \<open>\<open>perform_classification(data, n_clusters)\<close>: the labels \<open>fit_predict\<close> returns.
  \<open>StandardScaler.fit_transform\<close> raises \<open>ValueError\<close> on an empty or non-finite array, and
  \<open>KMeans.fit_predict\<close> raises it when there are fewer samples than clusters.\<close>

definition perform_classification ::
  "(nat \<Rightarrow> real list list \<Rightarrow> nat list) \<Rightarrow> nat \<Rightarrow> fval list list \<Rightarrow> py_error + nat list" where
  "perform_classification kmeans n_clusters data =
     (if data = [] \<or> \<not> list_all (list_all is_finite) data then Inl ValueError
      else let data_scaled = standard_scaler (map (map fin_val) data)
           in if length data_scaled < n_clusters then Inl ValueError
              else Inr (kmeans n_clusters data_scaled))"

subsection \<open>Standardisation under a change of scale\<close>

text \<open>A positive affine map of a column (a gain and an offset) moves its mean with it and
  multiplies its deviation by the gain, so every standardised value is unchanged.\<close>

lemma sum_list_affine:
  "sum_list (map (\<lambda>x. a * x + b) xs) = (a::real) * sum_list xs + b * real (length xs)"
  by (induction xs) (simp_all add: algebra_simps)

lemma sum_list_sq_affine:
  "sum_list (map (\<lambda>y. (y - (a * m + b))\<^sup>2) (map (\<lambda>x. a * x + b) xs)) =
     (a::real)\<^sup>2 * sum_list (map (\<lambda>x. (x - m)\<^sup>2) xs)"
proof (induction xs)
  case (Cons x xs)
  have "a * x + b - (a * m + b) = a * (x - m)" by (simp add: algebra_simps)
  then have "(a * x + b - (a * m + b))\<^sup>2 = a\<^sup>2 * (x - m)\<^sup>2" by (simp add: power_mult_distrib)
  with Cons.IH show ?case by (simp add: distrib_left)
qed simp

lemma col_mean_affine:
  "xs \<noteq> [] \<Longrightarrow> col_mean (map (\<lambda>x. a * x + b) xs) = a * col_mean xs + b"
  unfolding col_mean_def sum_list_affine by (simp add: field_simps)

lemma sum_list_sq_zero:
  "sum_list (map (\<lambda>x. (x - m)\<^sup>2) xs) = (0::real) \<Longrightarrow> x \<in> set xs \<Longrightarrow> x = m"
  by (subst (asm) sum_list_nonneg_eq_0_iff) auto

lemma standardize_affine:
  assumes a: "0 < a" and x: "x \<in> set xs"
  shows "(a * x + b - col_mean (map (\<lambda>x. a * x + b) xs)) / col_scale (map (\<lambda>x. a * x + b) xs) =
           (x - col_mean xs) / col_scale xs"
proof -
  have ne: "xs \<noteq> []" using x by auto
  let ?m = "col_mean xs"
  let ?s = "sum_list (map (\<lambda>x. (x - ?m)\<^sup>2) xs)"
  have m': "col_mean (map (\<lambda>x. a * x + b) xs) = a * ?m + b" by (rule col_mean_affine [OF ne])
  have s': "sum_list (map (\<lambda>y. (y - (a * ?m + b))\<^sup>2) (map (\<lambda>x. a * x + b) xs)) = a\<^sup>2 * ?s"
    by (rule sum_list_sq_affine)
  show ?thesis
  proof (cases "?s = 0")
    case True
    then have "x = ?m" using x by (rule sum_list_sq_zero)
    then show ?thesis by (simp add: m')
  next
    case False
    have "0 \<le> ?s" by (rule sum_list_nonneg) auto
    with False have "0 < ?s" by simp
    then have pos: "0 < ?s / real (length xs)" using ne by simp
    have "col_scale (map (\<lambda>x. a * x + b) xs) =
            (if a\<^sup>2 * ?s / real (length xs) = 0 then 1 else sqrt (a\<^sup>2 * ?s / real (length xs)))"
      by (simp only: col_scale_def Let_def m' s' length_map)
    also have "\<dots> = sqrt (a\<^sup>2 * (?s / real (length xs)))"
    proof -
      have v: "a\<^sup>2 * ?s / real (length xs) = a\<^sup>2 * (?s / real (length xs))" by simp
      have "a\<^sup>2 * (?s / real (length xs)) \<noteq> 0" using a pos False ne by simp
      then show ?thesis by (simp only: v if_not_P if_False)
    qed
    also have "\<dots> = sqrt (a\<^sup>2) * sqrt (?s / real (length xs))"
      by (rule real_sqrt_mult)
    also have "\<dots> = a * col_scale xs"
      using a pos False ne by (simp add: col_scale_def Let_def)
    finally have cs: "col_scale (map (\<lambda>x. a * x + b) xs) = a * col_scale xs" .
    have "col_scale xs \<noteq> 0" using pos False ne by (simp add: col_scale_def Let_def)
    then show ?thesis unfolding m' cs using a by (simp add: field_simps)
  qed
qed

subsection \<open>The scaler on a recalibrated band\<close>

lemma column_update_other:
  "k \<noteq> j \<Longrightarrow> column (map (\<lambda>r. r[j := f r]) X) k = column X k"
  by (simp add: column_def)

lemma column_update_same:
  "\<forall>r \<in> set X. j < length r \<Longrightarrow>
     column (map (\<lambda>r. r[j := a * r ! j + b]) X) j = map (\<lambda>x. a * x + b) (column X j)"
  by (simp add: column_def)

lemma standard_scaler_affine:
  assumes a: "0 < a" and j: "\<forall>r \<in> set X. j < length r"
  shows "standard_scaler (map (\<lambda>r. r[j := a * r ! j + b]) X) = standard_scaler X"
proof -
  have row: "map (\<lambda>k. (r[j := a * r ! j + b] ! k - col_mean (column (map (\<lambda>r. r[j := a * r ! j + b]) X) k))
                      / col_scale (column (map (\<lambda>r. r[j := a * r ! j + b]) X) k)) [0..<length r]
           = map (\<lambda>k. (r ! k - col_mean (column X k)) / col_scale (column X k)) [0..<length r]"
    if r: "r \<in> set X" for r
  proof (rule map_cong [OF refl])
    fix k
    show "(r[j := a * r ! j + b] ! k - col_mean (column (map (\<lambda>r. r[j := a * r ! j + b]) X) k))
            / col_scale (column (map (\<lambda>r. r[j := a * r ! j + b]) X) k)
          = (r ! k - col_mean (column X k)) / col_scale (column X k)"
    proof (cases "k = j")
      case True
      have "r ! j \<in> set (column X j)" using r by (simp add: column_def)
      then show ?thesis using True j r a by (simp add: column_update_same standardize_affine)
    next
      case False
      then show ?thesis by (simp add: column_update_other)
    qed
  qed
  then show ?thesis unfolding standard_scaler_def by simp
qed

subsection \<open>The classification\<close>

lemma is_finite_affine: "0 < a \<Longrightarrow> is_finite (fadd (fmul (Fin a) x) (Fin b)) = is_finite x"
  by (cases x) (simp_all add: is_finite_iff)

lemma fin_val_affine: "is_finite x \<Longrightarrow> fin_val (fadd (fmul (Fin a) x) (Fin b)) = a * fin_val x + b"
  by (auto simp: is_finite_iff)

lemma list_all_finite_update_affine:
  "0 < a \<Longrightarrow> j < length row \<Longrightarrow>
     list_all is_finite (row[j := fadd (fmul (Fin a) (row ! j)) (Fin b)]) = list_all is_finite row"
  by (auto simp: list_all_length nth_list_update is_finite_affine)

lemma list_all_finite_rescale:
  "0 < a \<Longrightarrow> \<forall>row \<in> set data. j < length row \<Longrightarrow>
     list_all (list_all is_finite) (map (\<lambda>row. row[j := fadd (fmul (Fin a) (row ! j)) (Fin b)]) data)
     = list_all (list_all is_finite) data"
  by (induction data) (simp_all add: list_all_finite_update_affine)

lemma perform_classification_clusterer_ok:
  assumes "\<And>X. length (kmeans n X) = length X \<and> (\<forall>l \<in> set (kmeans n X). l < n)"
  shows "clusterer_ok (perform_classification kmeans n) n"
  using assms by (auto simp: clusterer_ok_def perform_classification_def Let_def standard_scaler_def
                       split: if_splits)

subsection \<open>Per-band gains and offsets\<close>

text \<open>The general form: each column with its own positive gain and its own offset. On the
  rows of \<open>perform_classification\<close>, a gain on one band file is such a map.\<close>

lemma standard_scaler_columns_affine:
  assumes pos: "\<forall>(a, b) \<in> set cs. 0 < a" and len: "\<forall>r \<in> set X. length r = length cs"
  shows "standard_scaler (map (map2 (\<lambda>(a, b) x. a * x + b) cs) X) = standard_scaler X"
proof -
  let ?f = "map2 (\<lambda>(a, b) x. a * x + b) cs"
  have col: "column (map ?f X) k = map (\<lambda>x. fst (cs ! k) * x + snd (cs ! k)) (column X k)"
    if "k < length cs" for k
    using len that by (auto simp: column_def split: prod.splits)
  have "map (\<lambda>k. (?f r ! k - col_mean (column (map ?f X) k)) / col_scale (column (map ?f X) k)) [0..<length (?f r)]
        = map (\<lambda>k. (r ! k - col_mean (column X k)) / col_scale (column X k)) [0..<length r]"
    if r: "r \<in> set X" for r
  proof -
    have lr: "length r = length cs" using len r by simp
    have "(?f r ! k - col_mean (column (map ?f X) k)) / col_scale (column (map ?f X) k)
          = (r ! k - col_mean (column X k)) / col_scale (column X k)" if k: "k < length r" for k
    proof -
      have "cs ! k \<in> set cs" using k lr by simp
      with pos have "case cs ! k of (a, b) \<Rightarrow> 0 < a" by (rule bspec)
      then have a: "0 < fst (cs ! k)" by (simp split: prod.splits)
      have "r ! k \<in> set (column X k)" using r by (simp add: column_def)
      moreover have "?f r ! k = fst (cs ! k) * r ! k + snd (cs ! k)" using k lr by (simp split: prod.splits)
      ultimately show ?thesis using k lr a by (simp add: col standardize_affine)
    qed
    then show ?thesis using lr by simp
  qed
  then show ?thesis unfolding standard_scaler_def by simp
qed

lemma list_all_finite_gain:
  "0 < a \<Longrightarrow> length row = length ps \<Longrightarrow>
     list_all is_finite (map2 (\<lambda>q x. if q = p then fmul (Fin a) x else x) ps row) = list_all is_finite row"
proof (induction ps arbitrary: row)
  case (Cons q ps)
  then obtain x xs where "row = x # xs" by (cases row) auto
  with Cons show ?case by (simp add: fmul_gain_finite)
qed simp

lemma fin_val_gain:
  "length row = length ps \<Longrightarrow> list_all is_finite row \<Longrightarrow>
     map fin_val (map2 (\<lambda>q x. if q = p then fmul (Fin a) x else x) ps row) =
     map2 (\<lambda>(c, d) x. c * x + d) (map (\<lambda>q. (if q = p then a else 1, 0)) ps) (map fin_val row)"
proof (induction ps arbitrary: row)
  case (Cons q ps)
  then obtain x xs where "row = x # xs" by (cases row) auto
  with Cons show ?case by (auto simp: is_finite_iff)
qed simp

lemma perform_classification_gain:
  assumes "0 < a" and "\<forall>row \<in> set data. length row = length ps"
  shows "perform_classification kmeans n (map (map2 (\<lambda>q x. if q = p then fmul (Fin a) x else x) ps) data)
         = perform_classification kmeans n data"
proof -
  let ?g = "map2 (\<lambda>q x. if q = p then fmul (Fin a) x else x) ps"
  let ?cs = "map (\<lambda>q. (if q = p then a else 1, 0::real)) ps"
  have fin: "list_all (list_all is_finite) (map ?g data) = list_all (list_all is_finite) data"
    using assms(2) by (induction data) (simp_all add: list_all_finite_gain [OF assms(1)])
  show ?thesis
  proof (cases "data = [] \<or> \<not> list_all (list_all is_finite) data")
    case True
    with fin show ?thesis by (auto simp: perform_classification_def)
  next
    case False
    have "map (map fin_val) (map ?g data) = map (map2 (\<lambda>(c, d) x. c * x + d) ?cs) (map (map fin_val) data)"
      unfolding map_map
    proof (rule map_cong [OF refl])
      fix row assume "row \<in> set data"
      with False assms(2) have "length row = length ps" "list_all is_finite row"
        by (auto simp: list_all_iff)
      from fin_val_gain [OF this, of p a]
      show "(map fin_val \<circ> ?g) row = (map2 (\<lambda>(c, d) x. c * x + d) ?cs \<circ> map fin_val) row"
        by simp
    qed
    moreover have "\<forall>(c, d) \<in> set ?cs. 0 < c" using assms(1) by auto
    moreover have "\<forall>r \<in> set (map (map fin_val) data). length r = length ?cs" using assms(2) by simp
    ultimately have "standard_scaler (map (map fin_val) (map ?g data)) = standard_scaler (map (map fin_val) data)"
      by (simp only: standard_scaler_columns_affine)
    with False fin show ?thesis by (simp add: perform_classification_def Let_def del: map_map)
  qed
qed

text \<open>
  C34: the K-means labels do not depend on the units of a band. Recalibrating band \<open>j\<close> of
  every pixel with a positive gain \<open>a\<close> and any offset \<open>b\<close> (a change of radiometric scale
  or of the reflectance offset) leaves \<open>perform_classification\<close> unchanged, on every branch:
  a non-finite value stays non-finite, and the scaler removes the gain and the offset.
\<close>

theorem perform_classification_band_affine:
  assumes "0 < a" and "\<forall>row \<in> set data. j < length row"
  shows "perform_classification kmeans n_clusters
           (map (\<lambda>row. row[j := fadd (fmul (Fin a) (row ! j)) (Fin b)]) data)
         = perform_classification kmeans n_clusters data"
proof (cases "data = [] \<or> \<not> list_all (list_all is_finite) data")
  case True
  have "list_all (list_all is_finite) (map (\<lambda>row. row[j := fadd (fmul (Fin a) (row ! j)) (Fin b)]) data)
        = list_all (list_all is_finite) data"
    using assms by (rule list_all_finite_rescale)
  with True show ?thesis by (auto simp: perform_classification_def)
next
  case False
  then have fin: "\<forall>row \<in> set data. \<forall>x \<in> set row. is_finite x" by (simp add: list_all_iff)
  have "map (map fin_val) (map (\<lambda>row. row[j := fadd (fmul (Fin a) (row ! j)) (Fin b)]) data)
        = map (\<lambda>r. r[j := a * r ! j + b]) (map (map fin_val) data)"
    using assms(2) fin by (auto simp: map_update fin_val_affine)
  moreover have "\<forall>r \<in> set (map (map fin_val) data). j < length r" using assms(2) by simp
  ultimately have "standard_scaler (map (map fin_val) (map (\<lambda>row. row[j := fadd (fmul (Fin a) (row ! j)) (Fin b)]) data))
        = standard_scaler (map (map fin_val) data)"
    using assms(1) by (simp only: standard_scaler_affine)
  moreover have "list_all (list_all is_finite) (map (\<lambda>row. row[j := fadd (fmul (Fin a) (row ! j)) (Fin b)]) data)"
    using assms False by (simp add: list_all_finite_rescale)
  ultimately show ?thesis using False
    by (simp add: perform_classification_def Let_def del: map_map)
qed

lemma perform_classification_band_affine_witness:
  "perform_classification (\<lambda>n X. map (\<lambda>r. if hd r < 0 then 0 else 1) X) 2
     [[Fin 3, Fin 2], [Fin 7, Fin 2]]
   = perform_classification (\<lambda>n X. map (\<lambda>r. if hd r < 0 then 0 else 1) X) 2
     [[Fin 1, Fin 2], [Fin 3, Fin 2]]"
  using perform_classification_band_affine [of 2 "[[Fin 1, Fin 2], [Fin 3, Fin 2]]" 0
          "\<lambda>n X. map (\<lambda>r. if hd r < 0 then 0 else 1) X" 2 1]
  by simp

subsection \<open>The scaler meets the specification\<close>

lemma col_scale_var: "col_scale xs = (if col_var xs = 0 then 1 else sqrt (col_var xs))"
  by (simp add: col_scale_def col_var_def Let_def)

lemma col_var_nonneg: "0 \<le> col_var xs"
  unfolding col_var_def by (intro divide_nonneg_nonneg sum_list_nonneg) auto

lemma sum_list_divide: "sum_list (map (\<lambda>x. f x / c) xs) = sum_list (map f xs) / (c::real)"
  by (induction xs) (simp_all add: add_divide_distrib)

lemma column_standard_scaler:
  assumes "\<forall>r \<in> set X. j < length r"
  shows "column (standard_scaler X) j = map (\<lambda>x. (x - col_mean (column X j)) / col_scale (column X j)) (column X j)"
  using assms by (simp add: standard_scaler_def column_def)

lemma standardised_mean:
  assumes "xs \<noteq> []"
  shows "col_mean (map (\<lambda>x. (x - col_mean xs) / s) xs) = 0"
proof -
  have "sum_list (map (\<lambda>x. (x - col_mean xs) / s) xs) = (sum_list xs - real (length xs) * col_mean xs) / s"
    by (simp add: sum_list_divide sum_list_subtractf sum_list_triv)
  also have "real (length xs) * col_mean xs = sum_list xs" using assms by (simp add: col_mean_def)
  finally show ?thesis by (simp add: col_mean_def)
qed

lemma standardised_var:
  assumes "xs \<noteq> []"
  shows "col_var (map (\<lambda>x. (x - col_mean xs) / col_scale xs) xs) = (if col_var xs = 0 then 0 else 1)"
proof -
  let ?ys = "map (\<lambda>x. (x - col_mean xs) / col_scale xs) xs"
  have "col_mean ?ys = 0" using assms by (rule standardised_mean)
  then have "sum_list (map (\<lambda>y. (y - col_mean ?ys)\<^sup>2) ?ys) =
               sum_list (map (\<lambda>x. (x - col_mean xs)\<^sup>2 / (col_scale xs)\<^sup>2) xs)"
    by (simp add: power_divide comp_def)
  also have "\<dots> = sum_list (map (\<lambda>x. (x - col_mean xs)\<^sup>2) xs) / (col_scale xs)\<^sup>2"
    by (rule sum_list_divide)
  finally have "col_var ?ys = sum_list (map (\<lambda>x. (x - col_mean xs)\<^sup>2) xs) / (col_scale xs)\<^sup>2 / real (length xs)"
    by (simp add: col_var_def)
  also have "\<dots> = col_var xs / (col_scale xs)\<^sup>2" by (simp add: col_var_def)
  also have "\<dots> = (if col_var xs = 0 then 0 else 1)"
    using col_var_nonneg [of xs] by (simp add: col_scale_var)
  finally show ?thesis .
qed

text \<open>
  C5: \<open>perform_classification\<close> standardises as the specification requires (4.4 step 3):
  on non-empty finite data it hands k-means one row per data row, and every band of those
  rows has mean 0 and population variance 1, or variance 0 when the band is constant over
  the valid pixels.
\<close>

theorem perform_classification_standardises:
  assumes "data \<noteq> []" and "list_all (list_all is_finite) data"
    and "\<forall>row \<in> set data. j < length row"
  shows "\<exists>X. perform_classification kmeans n data = (if length data < n then Inl ValueError else Inr (kmeans n X))
           \<and> length X = length data
           \<and> col_mean (column X j) = 0
           \<and> col_var (column X j) = (if col_var (column (map (map fin_val) data) j) = 0 then 0 else 1)"
proof -
  let ?D = "map (map fin_val) data"
  have j: "\<forall>r \<in> set ?D. j < length r" using assms(3) by simp
  have ne: "column ?D j \<noteq> []" using assms(1) by (simp add: column_def)
  have "length (standard_scaler ?D) = length data" by (simp add: standard_scaler_def)
  moreover have "perform_classification kmeans n data =
                   (if length data < n then Inl ValueError else Inr (kmeans n (standard_scaler ?D)))"
    using assms(1,2) calculation by (simp add: perform_classification_def)
  ultimately show ?thesis
    using column_standard_scaler [OF j] standardised_mean [OF ne] standardised_var [OF ne] by auto
qed

lemma perform_classification_standardises_witness:
  "\<exists>X. perform_classification (\<lambda>n X. replicate (length X) 0) 2 [[Fin 1, Fin 2], [Fin 3, Fin 2]] =
         (if length [[Fin 1, Fin 2], [Fin 3, Fin (2::real)]] < 2 then Inl ValueError
          else Inr (replicate (length X) 0)) \<and> length X = length [[Fin 1, Fin 2], [Fin 3, Fin (2::real)]]
       \<and> col_mean (column X 0) = 0
       \<and> col_var (column X 0) =
           (if col_var (column (map (map fin_val) [[Fin 1, Fin 2], [Fin 3, Fin 2]]) 0) = 0 then 0 else 1)"
  by (rule perform_classification_standardises) simp_all

end
