(* ===== verification/Recalibration.thy ===== *)
theory Recalibration
  imports Clustering
begin

text \<open>
  The classifier script run on a recalibrated product. \<open>rescale_band a p st\<close> is the store
  in which band file \<open>p\<close> holds every value multiplied by the gain \<open>a\<close>, as a change of
  radiometric scale (a different quantification value of the reflectances) would give. The
  lemmas follow the value through \<open>land_cover_classification.py\<close>: the windowed read
  (\<open>read_windows\<close>) returns the scaled band, the flattening
  (\<open>transpose\<close>) scales one entry of every pixel vector, the validity filter
  (\<open>valid_pixel\<close>) keeps the same pixels because a positive gain keeps zero and NaN, the
  scaler of \<open>perform_classification\<close> removes the gain, and the label map is written to a
  path other than \<open>p\<close>. An offset is different: it moves the values the zero test of line 53
  rejects, so the valid pixels, and with them the labels, change.
\<close>

definition rescale_band :: "real \<Rightarrow> path \<Rightarrow> store \<Rightarrow> store" where
  "rescale_band a p st =
     (case st p of
        None \<Rightarrow> st
      | Some ds \<Rightarrow> st(p \<mapsto> ds\<lparr>ds_band := amap (fmul (Fin a)) (ds_band ds)\<rparr>))"

subsection \<open>Reading and flattening a recalibrated band\<close>

lemma read_band1_rescale:
  "read_band1 (rescale_band a p st) q =
     (if q = p then map_sum id (\<lambda>(A, prof). (amap (fmul (Fin a)) A, prof)) (read_band1 st q)
      else read_band1 st q)"
  by (simp add: rescale_band_def read_band1_def split: option.splits)

lemma read_window_amap:
  assumes "nd_wf A"
  shows "read_window (amap g A) w = map_sum id (amap g) (read_window A w)"
proof (cases "row_off w + win_height w \<le> nrows A \<and> col_off w + win_width w \<le> ncols A")
  case True
  have "nd_at (amap g A) (row_off w + k div win_width w) (col_off w + k mod win_width w)
        = g (nd_at A (row_off w + k div win_width w) (col_off w + k mod win_width w))"
    if "k < win_height w * win_width w" for k
  proof -
    from row_major_bounds [OF that] True
    have "row_off w + k div win_width w < nrows A" "col_off w + k mod win_width w < ncols A" by auto
    then have "(row_off w + k div win_width w) * ncols A + (col_off w + k mod win_width w) < length (vals A)"
      using assms by (simp add: nd_wf_def index_lt_mult)
    then show ?thesis by (simp add: nd_at_def amap_def)
  qed
  with True show ?thesis by (simp add: read_window_def tabulate_def amap_def)
qed (auto simp: read_window_def amap_def)

lemma read_windows_rescale:
  assumes "store_wf st"
  shows "read_windows (rescale_band a p st) ps w =
           map_sum id (\<lambda>Bs. map2 (\<lambda>q B. if q = p then amap (fmul (Fin a)) B else B) ps Bs)
             (read_windows st ps w)"
proof (induction ps)
  case (Cons q ps)
  show ?case
  proof (cases "read_band1 st q")
    case (Inr r)
    obtain A prof where r: "r = (A, prof)" by (cases r)
    have "nd_wf A" using store_wf_read(1) [OF assms] Inr r by simp
    then show ?thesis using Cons.IH Inr r
      by (cases "q = p"; cases "read_window A w"; cases "read_windows st ps w")
         (simp_all add: read_band1_rescale read_window_amap)
  qed (cases "q = p"; simp add: read_band1_rescale)
qed simp

lemma transpose_rows_length:
  assumes "\<forall>xs \<in> set xss. length xs = n" and "t \<in> set (transpose xss)"
  shows "length t = length xss"
proof -
  have "xss \<noteq> []" using assms(2) by (cases xss) auto
  from assms(2) obtain k where "k < length (transpose xss)" "t = transpose xss ! k" by (auto simp: in_set_conv_nth)
  with transpose_uniform [OF assms(1) \<open>xss \<noteq> []\<close>] show ?thesis by simp
qed

lemma transpose_map2_gain:
  assumes "\<forall>B \<in> set Bs. length (vals B) = n" and "length Bs = length ps"
  shows "transpose (map vals (map2 (\<lambda>q B. if q = p then amap f B else B) ps Bs)) =
         map (map2 (\<lambda>q x. if q = p then f x else x) ps) (transpose (map vals Bs))"
proof (cases "Bs = []")
  case False
  let ?xss = "map vals Bs"
  let ?yss = "map vals (map2 (\<lambda>q B. if q = p then amap f B else B) ps Bs)"
  have x: "\<forall>xs \<in> set ?xss. length xs = n" using assms(1) by auto
  have y: "\<forall>xs \<in> set ?yss. length xs = n" using assms(1) by (auto simp: amap_def dest: set_zip_rightD)
  have ne: "?xss \<noteq> []" "?yss \<noteq> []" using False assms(2) by (auto simp: zip_eq_Nil_iff)
  show ?thesis
  proof (rule nth_equalityI)
    show "length (transpose ?yss) = length (map (map2 (\<lambda>q x. if q = p then f x else x) ps) (transpose ?xss))"
      using transpose_uniform(1) [OF x ne(1)] transpose_uniform(1) [OF y ne(2)] by simp
  next
    fix k assume "k < length (transpose ?yss)"
    then have k: "k < n" using transpose_uniform(1) [OF y ne(2)] by simp
    have "\<forall>B \<in> set Bs. k < length (vals B)" using assms(1) k by auto
    then show "transpose ?yss ! k = map (map2 (\<lambda>q x. if q = p then f x else x) ps) (transpose ?xss) ! k"
      using transpose_uniform(2) [OF x ne(1) k] transpose_uniform(2) [OF y ne(2) k] k
        transpose_uniform(1) [OF x ne(1)]
      by (auto simp: amap_def zip_map2 intro!: map_cong dest: set_zip_rightD)
  qed
qed (use assms(2) in simp)

lemma valid_pixel_gain:
  "0 < a \<Longrightarrow> length row = length ps \<Longrightarrow>
     valid_pixel (map2 (\<lambda>q x. if q = p then fmul (Fin a) x else x) ps row) = valid_pixel row"
proof (induction ps arbitrary: row)
  case (Cons q ps)
  then obtain x xs where "row = x # xs" by (cases row) auto
  with Cons show ?case by (simp add: valid_pixel_def fmul_gain_nan fmul_gain_zero)
qed simp

subsection \<open>The classifier script\<close>

lemma rescale_band_upd: "q \<noteq> p \<Longrightarrow> rescale_band a p (st(q \<mapsto> d)) = (rescale_band a p st)(q \<mapsto> d)"
  by (auto simp: rescale_band_def fun_upd_twist split: option.splits)

lemma file_exists_rescale: "file_exists (rescale_band a p st) = file_exists st"
  by (simp add: rescale_band_def file_exists_def fun_eq_iff split: option.splits)

lemma store_wf_rescale: "store_wf st \<Longrightarrow> store_wf (rescale_band a p st)"
  by (auto simp: rescale_band_def store_wf_def ds_wf_def nd_wf_def amap_def shape_def ran_def
           split: option.splits)

lemma create_classification_map_rescale:
  "out \<noteq> p \<Longrightarrow>
     create_classification_map (rescale_band a p st) labels vp hw out prof =
     map_sum id (\<lambda>(st', M). (rescale_band a p st', M)) (create_classification_map st labels vp hw out prof)"
  by (auto simp: create_classification_map_def write_band1_u8_def write_band1_def rescale_band_upd
           sbind_def Let_def split: prod.splits sum.splits)

lemma prepare_classification_data_rescale:
  assumes "0 < a" and "store_wf st"
  shows "prepare_classification_data (rescale_band a p st) band_paths ws =
           map_sum id (\<lambda>(data, vp, hw, prof).
               (map (map2 (\<lambda>q x. if q = p then fmul (Fin a) x else x) band_paths) data, vp, hw, prof))
             (prepare_classification_data st band_paths ws)"
proof (cases band_paths)
  case (Cons p0 ps)
  let ?g = "map2 (\<lambda>q x. if q = p then fmul (Fin a) x else x) band_paths"
  show ?thesis
  proof (cases "read_band1 st p0")
    case (Inr r)
    obtain src src_profile where r: "r = (src, src_profile)" by (cases r)
    let ?w = "center_window (p_height src_profile) (p_width src_profile) ws"
    show ?thesis
    proof (cases "read_windows st band_paths ?w")
      case (Inr Bs)
      note B = read_windows_Inr [OF Inr]
      have n: "\<forall>B \<in> set Bs. length (vals B) = win_height ?w * win_width ?w"
        using B by (auto simp: nd_wf_def shape_def)
      let ?T = "transpose (map vals Bs)"
      have T: "transpose (map vals (map2 (\<lambda>q B. if q = p then amap (fmul (Fin a)) B else B) band_paths Bs))
               = map ?g ?T"
        by (rule transpose_map2_gain [OF n]) (use B in simp)
      have rows: "\<forall>t \<in> set ?T. length t = length band_paths"
      proof
        fix t assume "t \<in> set ?T"
        with transpose_rows_length [of "map vals Bs"] n have "length t = length (map vals Bs)" by auto
        with B show "length t = length band_paths" by simp
      qed
      have vp: "map valid_pixel (map ?g ?T) = map valid_pixel ?T"
        using rows by (simp add: valid_pixel_gain [OF assms(1)])
      have "filter valid_pixel (map ?g ?T) = map ?g (filter valid_pixel ?T)"
        using rows by (simp add: filter_map comp_def valid_pixel_gain [OF assms(1)] cong: filter_cong)
      with vp T Cons Inr \<open>read_band1 st p0 = Inr r\<close> r show ?thesis
        by (cases "p0 = p") (simp_all add: prepare_classification_data_def read_band1_rescale
            read_windows_rescale [OF assms(2)] Let_def del: map_map read_windows.simps)
    qed (use Cons \<open>read_band1 st p0 = Inr r\<close> r in \<open>cases "p0 = p"; simp add: prepare_classification_data_def
          read_band1_rescale read_windows_rescale [OF assms(2)] Let_def del: read_windows.simps\<close>)
  qed (use Cons in \<open>cases "p0 = p"; simp add: prepare_classification_data_def read_band1_rescale\<close>)
qed (simp add: prepare_classification_data_def)

lemma classify_year_rescale:
  assumes "0 < a" and "store_wf st" and "p \<noteq> ''data/output/classification_'' @ year @ ''.tif''"
  shows "classify_year (perform_classification kmeans n) (rescale_band a p st) year =
           apfst (rescale_band a p) (classify_year (perform_classification kmeans n) st year)"
proof (cases "prepare_classification_data st (classification_band_paths year) 100")
  case (Inr r)
  obtain data vp h w prof where r: "r = (data, vp, (h, w), prof)" by (cases r) auto
  have "\<forall>v \<in> set data. length v = length (classification_band_paths year)"
    using prepare_classification_data_facts [of st _ 100 data vp h w prof] Inr r by simp
  note pc = perform_classification_gain [OF assms(1) this, of kmeans n p]
  show ?thesis
    using Inr r pc assms
    by (cases "perform_classification kmeans n data")
       (auto simp: classify_year_def Let_def file_exists_rescale prepare_classification_data_rescale
          create_classification_map_rescale unit_of_def sbind_def split: sum.splits prod.splits)
qed (use assms in \<open>simp add: classify_year_def Let_def file_exists_rescale prepare_classification_data_rescale\<close>)

text \<open>
  C8: the classifier script's labels do not depend on the scale of a band. On a well-formed
  store, running \<open>main\<close> of \<open>land_cover_classification.py\<close> (both years, with
  \<open>perform_classification\<close> and any k-means) on the product with one band file multiplied
  by a positive gain gives the same label maps, the same exceptions and the same skipped
  years as on the original product: the final store is the original run's store with that
  band file recalibrated.
\<close>

theorem classification_main_rescale:
  assumes "0 < a" and "store_wf st"
    and "p \<notin> {''data/output/classification_2021.tif'', ''data/output/classification_2025.tif''}"
  shows "classification_main (perform_classification kmeans n) (rescale_band a p st) =
           apfst (rescale_band a p) (classification_main (perform_classification kmeans n) st)"
  unfolding classification_main_def
proof (rule run_units_commute [where P = store_wf])
  fix st' u assume "store_wf st'" and "u \<in> set [''2021'', ''2025'']"
  with assms show "classify_year (perform_classification kmeans n) (rescale_band a p st') u =
      apfst (rescale_band a p) (classify_year (perform_classification kmeans n) st' u)"
    by (auto intro: classify_year_rescale)
qed (use assms in \<open>simp_all add: classify_year_store_wf\<close>)

lemma classification_main_rescale_witness:
  "classification_main (perform_classification (\<lambda>n X. replicate (length X) 0) 2)
       (rescale_band 2 ''data/2021/B8.tif'' stack_2021) =
     apfst (rescale_band 2 ''data/2021/B8.tif'')
       (classification_main (perform_classification (\<lambda>n X. replicate (length X) 0) 2) stack_2021)"
  by (rule classification_main_rescale)
     (simp_all add: store_wf_upd ds_wf_def nd_wf_def shape_def)

end
