(* ===== verification/Spec2Isabelle.thy ===== *)
theory Spec2Isabelle
  imports Sample_Data Sample_Setup Confinement GridFS Plotting Recalibration
begin

text \<open>
  \<^bold>\<open>A verification model of the Sentinel-2 land-cover and land-use analysis scripts.\<close>

  \<^bold>\<open>The program.\<close> Seven Python scripts under \<open>src/\<close>. Four of them form the analysis
  pipeline. Each reads single-band GeoTIFFs with rasterio, computes on numpy arrays and
  writes its results back as rasters:
  \<^item> \<open>calculate_ndvi.py\<close>: NDVI of red (B4) and near-infrared (B8), with safe division;
  \<^item> \<open>land_cover_classification.py\<close>: a centred window of four bands, a validity
    filter, standardisation and k-means, and the label map rebuilt from the cluster ids;
  \<^item> \<open>change_detection.py\<close>: NDVI difference of two years, its three-way classification
    against a threshold, and the pixel-wise comparison of two label maps;
  \<^item> \<open>urban_extraction.py\<close>: SWIR resampled onto the NIR grid, NDBI, the built-up
    index BUI = NDBI - NDVI, a five-class mask by thresholds, and its statistics.
  The other three are collaborators: \<open>extract_sentinel_bands.py\<close> (SAFE archive
  unpacking), \<open>download_sample_data.py\<close> (sample data set-up) and \<open>run_all_analyses.py\<close>
  (runs the four scripts in sequence as subprocesses). The scripts share no state except
  the files: one script's output raster is another's input, so the model's state is
  the file store, threaded through every operation that reads or writes.

  \<^bold>\<open>Library layout\<close> (each theory opens with a note on what it models).
  \<^item> \<open>Prelude\<close>: the exceptions \<open>py_error\<close>; \<open>sbind\<close>, which threads a
    \<open>py_error + 'a\<close> result through a statement sequence; \<open>run_units\<close>, a \<open>main\<close> loop
    over years in which a unit may skip or raise; the collections \<open>fval_simps\<close> and
    \<open>nd_simps\<close>; list lemmas for row-major indexing and pixel-wise \<open>map2\<close>.
  \<^item> \<open>Float_Model\<close>: float32 values \<open>fval\<close> (finite, \<open>\<plusminus>inf\<close>, NaN) with IEEE
    addition, subtraction, multiplication, division and comparisons over exact reals.
  \<^item> \<open>NDArray\<close>: numpy two-dimensional arrays as shape plus flat C-order buffer;
    broadcasting (\<open>broadcast2\<close>, \<open>ValueError\<close> on incompatible shapes), element-wise maps,
    \<open>zeros_like\<close>, boolean-mask assignment of a scalar (\<open>bool_assign\<close>, \<open>IndexError\<close>) and of
    an array of values in one dimension (\<open>mask_assign\<close>). The \<open>pw_\<close> lemmas reduce a chain of
    numpy statements over two equal-shape operands to a single per-pixel function.
  \<^item> \<open>Raster_IO\<close>: rasterio as a store \<open>path \<rightharpoonup> dataset\<close> (profile and band 1),
    \<open>read_band1\<close>, \<open>write_band1\<close> (refuses a band of the wrong shape), the profile updates
    \<open>float_profile\<close> and \<open>uint8_profile\<close>, and the store invariant \<open>store_wf\<close>.
  \<^item> \<open>Spectral_Index\<close>: \<open>norm_diff_px\<close> (the safe normalized difference of line 31) and
    \<open>calculate_ndvi\<close>; claims C1, C3, C4 and C6.
  \<^item> \<open>Change_Detection\<close>: \<open>calculate_ndvi_difference\<close>, \<open>classify_changes\<close> with its
    per-pixel reading \<open>change_code\<close> and specification \<open>change_spec\<close>,
    \<open>compare_classifications\<close>; claims C7, C10 and C12--C14.
  \<^item> \<open>Resample\<close>: \<open>resample_to_match\<close> with a model of GDAL's bilinear kernel; claims
    C15, C16 and C35.
  \<^item> \<open>Statistics\<close>: \<open>np.unique\<close> with counts (\<open>runs\<close> of the sorted buffer), proved equal
    to counting each distinct value, and \<open>percentage\<close>.
  \<^item> \<open>Urban_Extraction\<close>: \<open>calculate_built_up_index\<close>, \<open>extract_urban_areas\<close> with its
    per-pixel reading \<open>urban_class\<close> and the decision list \<open>land_cover_spec\<close>,
    \<open>calculate_urban_statistics\<close>, \<open>save_urban_areas\<close>; claims C19--C21 and C23.
  \<^item> \<open>Classification\<close>: \<open>center_window\<close>, \<open>read_windows\<close>, \<open>valid_pixel\<close>,
    \<open>prepare_classification_data\<close>, \<open>create_classification_map\<close>, and \<open>main\<close> as
    \<open>classify_year\<close> iterated by \<open>classification_main\<close>; claims C27, C29--C32, C36 and C38.
  \<^item> \<open>Pipeline\<close>: the \<open>main\<close> functions of \<open>calculate_ndvi.py\<close> (\<open>ndvi_year\<close>,
    \<open>ndvi_main\<close>), \<open>change_detection.py\<close> (\<open>change_main\<close> with
    \<open>calculate_change_statistics\<close>) and \<open>urban_extraction.py\<close> (\<open>urban_year\<close>,
    \<open>urban_main\<close>), each returning the store it leaves and the exception that ended it, and
    the master script (\<open>run_script\<close>, the loop \<open>run_analyses\<close>, \<open>run_all_analyses\<close>),
    which runs the four in sequence on the shared store; claims C25 (a complete
    change-detection run), C37 (the loop runs every analysis) and C39.
  \<^item> \<open>Band_Extraction\<close>: \<open>extract_sentinel_bands.py\<close>. The file system is the list
    of paths of the SAFE archive (\<open>names\<close>) beside the raster store; \<open>children\<close>,
    \<open>dir_exists\<close> and \<open>glob_children\<close> model pathlib's \<open>exists\<close> and one-level
    \<open>glob\<close>, with \<open>fnmatch\<close> over \<open>glob_parse\<close> for the patterns; \<open>extract_band\<close>
    (one entry of \<open>band_mappings\<close>), \<open>extract_bands_from_safe\<close>, \<open>extract_year\<close> and
    \<open>extract_main\<close> follow the script's functions; claims C9, C18 and C22.
  \<^item> \<open>Sample_Data\<close>: \<open>download_sample_data.py\<close>: \<open>sample_profile\<close> (with
    rasterio's \<open>from_bounds\<close>), \<open>sample_writes\<close>, \<open>write_sample_band\<close>,
    \<open>create_sample_raster_data\<close> and \<open>sample_main\<close>; the random draws are the
    parameter \<open>randint\<close>, constrained by \<open>randint_ok\<close>; claims C28 (the sample data run
    through NDVI and change detection) and C33.
  \<^item> \<open>Data_Checks\<close>: \<open>check_dependencies\<close> (over the parameter \<open>importable\<close>),
    \<open>check_data_files\<close> (over the path listing of \<open>Band_Extraction\<close>) and the master
    \<open>main\<close> as \<open>master_main\<close>, in which only the dependency check gates the run.
  \<^item> \<open>Sample_Setup\<close>: the folder set-up and the ROI download of
    \<open>download_sample_data.py\<close> on a file system of folders and file bytes (\<open>fsys\<close>):
    \<open>create_sample_data_structure\<close>, \<open>download_sample_roi\<close> with the chunked read
    \<open>iter_content\<close> (a \<open>partial_function\<close> in the option monad) and \<open>extract_all\<close>; the
    HTTP response and the zip reader are parameters; claim C40. \<open>Sample_Data\<close> composes
    it with the raster part as \<open>download_main\<close>.
  \<^item> \<open>GridFS\<close>: the blob store of \<open>urban_extraction.py\<close> as an association list in
    insertion order, \<open>upload_file\<close> and \<open>download_file\<close>; claim C17.
  \<^item> \<open>Plotting\<close>: \<open>plot_ndvi\<close>, \<open>plot_changes\<close>, \<open>plot_classification\<close> and
    \<open>plot_urban_extraction\<close> as the figures they build, with matplotlib's colour mapping
    (\<open>panel_colour\<close>: masking, \<open>Normalize\<close>, autoscaling, listed colormaps with their
    under and over colours); claims C2, C24 and C26.
  \<^item> \<open>Clustering\<close>: \<open>perform_classification\<close> of \<open>land_cover_classification.py\<close>:
    scikit-learn's \<open>StandardScaler\<close> as \<open>standard_scaler\<close> (each column centred on its
    mean and divided by its population standard deviation, 1 for a constant column), its
    input check, KMeans's \<open>ValueError\<close> for fewer rows than clusters, and k-means as
    the parameter \<open>kmeans\<close>; \<open>perform_classification kmeans 5\<close>
    is a \<open>clusterer\<close> of \<open>Classification\<close> meeting \<open>clusterer_ok\<close>; claims C5 (the
    scaler meets the specification's zero mean and unit variance) and C34.
  \<^item> \<open>Recalibration\<close>: the classifier script composed with the scaler. \<open>rescale_band\<close>
    multiplies one band file by a gain; the lemmas carry it through \<open>read_windows\<close>, the
    flattening, \<open>valid_pixel\<close>, \<open>perform_classification\<close> and the write of the label map,
    and \<open>run_units_commute\<close> (Prelude) lifts it from \<open>classify_year\<close> to
    \<open>classification_main\<close>; claim C8.
  \<^item> \<open>Confinement\<close>: \<open>in_output\<close> (a path under \<open>data/output/\<close>) and
    \<open>keeps_inputs\<close> (every other path unchanged), shown of each writing operation and
    each script's \<open>main\<close>, and of the master \<open>main\<close>: claim C11.
  \<^item> The root theory states the store invariant, which spans the scripts: every write
    goes through \<open>write_band1\<close>'s shape check, so every raster stays well-formed. It is a
    property of the model's store, which the other lemmas rely on.

  \<^bold>\<open>What the lemmas show.\<close> Indices: on non-negative bands NDVI, NDBI lie in \<open>[-1, 1]\<close> and
  BUI in \<open>[-2, 2]\<close>, all finite; a zero-sum pixel gives 0; a missing input raises the I/O
  error; safe division leaves no NaN pixel on finite bands; bands of unequal shape are
  broadcast, and \<open>calculate_ndvi\<close> succeeds on a one-row NIR band of any red band's width.
  Classifiers: \<open>classify_changes\<close> and \<open>extract_urban_areas\<close> refine their
  specifications pixel by pixel (a sequence of overwriting mask assignments against a
  decision list), with the closed boundary \<open>|diff| = \<tau>\<close> and NaN behaviour made explicit;
  \<open>compare_classifications\<close> is symmetric on equal shapes, and on a one-row raster
  against a taller one it succeeds in one order and raises \<open>IndexError\<close> in the other. Alignment: the output has the
  reference's shape, is the identity on a band of that shape, keeps constants, and creates
  no values outside the source's range. Classification: a window of at least two pixels lies in the
  grid, contains the centre and has the requested size when even; the data rows are exactly the valid pixels; the label map
  is a round trip of the validity mask and the labels, bounded by the cluster count; the
  scatter's error cases; \<open>main\<close> isolates a year with missing files (whichever year it
  is) but not one that raises. Statistics: the class table is \<open>np.unique\<close> with exact counts, in
  increasing order, summing to the pixel count; the sums and percentages of the tables. Pipeline: the NDVI
  script's dependence on a band it does not use, the master loop's progress past a failed
  analysis, and its summary. Band extraction: \<open>extract_band\<close> copies the first file whose
  name ends with the band's suffix into a GeoTIFF, a successful extraction copies each band
  found, and a product without the
  resolution folders reports success with nothing written. Sample data: the whole chain from
  the sample set-up through change detection runs and finds no change anywhere, the written
  georeference, and a \<open>main\<close> that always raises; the download returns on every response
  and stores the body it received. Blob store: upload then download is a round trip only
  for a new name. Plots: the urban panel agrees with its legend, the change panel draws
  undefined pixels in the Decrease colour, and the classification plot's colours depend on
  the values present. Clustering: the scaler gives every band mean 0 and variance 1 (0 for
  a constant band), as the specification asks; the labels do not change when one band is
  recalibrated with a positive gain and any offset, since the scaler removes both; through
  the whole classifier script only the gain is harmless, since the zero test for invalid
  pixels runs before the scaler. Store: every script keeps every raster of the store
  well-formed, because every write goes through \<open>write_band1\<close>. Confinement: the master
  script changes no path outside \<open>data/output/\<close>, so its inputs survive every run.

  \<^bold>\<open>Choices and bounds.\<close> Pixel values are exact reals (float32 rounding and overflow are
  not modelled; the bounds proved are those of exact arithmetic, and a finite float32 sum
  may overflow to infinity where the real one is finite). uint8 arrays are \<open>8 word\<close>, so the store
  of \<open>labels + 1\<close> wraps modulo 256 as numpy's does; the label bounds assume fewer than 255
  clusters, which the code's 5 meets. The k-means clusterer is a parameter, constrained only
  by \<open>clusterer_ok\<close> (one label below \<open>n\<close> per row), so the classification lemmas hold for
  any clusterer, the scikit-learn one included. Every recursion of the model is structural
  on a list or, for \<open>fnmatch\<close>, on the pattern and the string (its termination is found
  by the lexicographic size of the two), except \<open>iter_content\<close>, whose loop does not end
  for a chunk size of 0: it is a \<open>partial_function (option)\<close>, and that it returns for
  the script's chunk size 8192 is proved by induction on the length of the unread body.

  \<^bold>\<open>Not modelled.\<close> Printing; displaying a figure (\<open>plt.show\<close>), the PNG encoding
  of \<open>savefig\<close> and the colour tables of matplotlib's named colormaps (a parameter); the
  MongoDB server behind the GridFS bucket (its contents at start are arbitrary); the
  network transfer and the zip format (parameters); the ImportError handler of
  \<open>download_sample_data.py\<close> (rasterio is imported at module level, so it never fires); the \<open>mkdir\<close> calls of \<open>extract_sentinel_bands.py\<close> (directories are implied by
  the paths of the store); glob patterns other than \<open>*\<close> and literal characters;
  the subprocess boundary of \<open>run_script\<close> (a script's run is its \<open>main\<close> on the shared
  store, and an escaped exception is a non-zero exit); the geopandas shapefile read and, in
  \<open>calculate_ndvi.py\<close>, its reprojection \<open>to_crs\<close> (which raises on a raster without a
  CRS): one parameter, \<open>roi_ok\<close>, says whether they succeed; KMeans itself (randomised restarts of an iterative optimiser,
  a parameter) and the scaler's fitted state, which the scripts never reuse; the
  file rasterio creates before a refused write (\<open>write_band1\<close> leaves the store unchanged
  on failure); the exact exception class of a windowed read outside the raster
  (\<open>read_window\<close> gives \<open>ValueError\<close>, where rasterio's class depends on its options).
\<close>

subsection \<open>Properties across the scripts\<close>

text \<open>
  The store invariant holds across the whole program: if every raster in the store is a
  well-formed array of its profile's height and width, it still is after the master script,
  the band extraction and the sample data set-up. This is a property of the raster model
  (every write goes through \<open>write_band1\<close>, which refuses a band of the wrong shape) that
  the lemmas about the scripts rely on.
\<close>

lemma store_invariant_preserved:
  assumes "store_wf st"
  shows "store_wf (fst (master_main importable names roi_ok clusterer st))
         \<and> store_wf (fst (extract_main names st))
         \<and> store_wf (fst (create_sample_raster_data randint st))"
  using assms by (simp add: master_main_store_wf extract_main_store_wf create_sample_raster_data_store_wf)

end
